theory Spec2Isabelle
  imports Complex_Main "HOL-Library.List_Lexorder" "HOL-Library.State_Monad"
begin

section \<open>JavaScript values and failures\<close>

text \<open>
  The library is written in JavaScript. Values that flow through cursors, rows and
  selectors are untyped there; the embedding uses one datatype for them. A number is
  \<open>NaN\<close>, one of the two infinities, or finite, and a finite number is the rational
  it denotes (the modelled code compares numbers and uses them as positions, it does no
  arithmetic that rounds; the two zeros are one value). An object is its list of
  (field name, value) pairs in insertion order.
\<close>

datatype jsval =
    Undefined
  | Num rat
  | NaN
  | Infinity
  | NegInfinity
  | Str string
  | Arr "jsval list"
  | Obj "(string \<times> jsval) list"

text \<open>
  A raised exception is a value: \<open>AssertionError\<close> for a failed chai assertion,
  \<open>Error\<close> for \<open>throw new Error(...)\<close>, \<open>TypeError\<close> for calling something that is
  not a function and for reading a property or the keys of \<open>undefined\<close>.
\<close>

datatype error = AssertionError | Error | TypeError

text \<open>Reading an array element: JavaScript yields \<open>undefined\<close> out of range.\<close>

definition js_nth :: "jsval list \<Rightarrow> nat \<Rightarrow> jsval" where
  "js_nth xs k = (if k < length xs then xs ! k else Undefined)"

section \<open>ArrayIterator (src/iterators/array.js)\<close>

text \<open>
  The iterator closes over the value array \<open>arr\<close>, the optional position array
  \<open>index\<close> (absent or falsy is \<open>None\<close>) and the mutable counter \<open>rowIndex\<close>,
  which starts at \<open>-1\<close>.
\<close>

record ArrayIterator =
  arr :: "jsval list"
  index :: "jsval list option"
  rowIndex :: int

text \<open>The constructor: with a position array, the two lengths must agree.\<close>

definition new_ArrayIterator :: "jsval list \<Rightarrow> jsval list option \<Rightarrow> error + ArrayIterator" where
  "new_ArrayIterator a ix =
     (case ix of
        Some ixs \<Rightarrow>
          if length a = length ixs
          then Inr \<lparr>arr = a, index = Some ixs, rowIndex = -1\<rparr>
          else Inl AssertionError
      | None \<Rightarrow> Inr \<lparr>arr = a, index = None, rowIndex = -1\<rparr>)"

text \<open>\<open>moveNext\<close>: \<open>return ++rowIndex < arr.length\<close>. The result is the flag and the
  iterator with its counter advanced.\<close>

definition moveNext :: "ArrayIterator \<Rightarrow> bool \<times> ArrayIterator" where
  "moveNext it =
     (let r = rowIndex it + 1 in (r < int (length (arr it)), it\<lparr>rowIndex := r\<rparr>))"

definition getCurrent :: "ArrayIterator \<Rightarrow> jsval" where
  "getCurrent it =
     (if 0 \<le> rowIndex it \<and> rowIndex it < int (length (arr it))
      then arr it ! nat (rowIndex it)
      else Undefined)"

definition getCurrentIndex :: "ArrayIterator \<Rightarrow> jsval" where
  "getCurrentIndex it =
     (if 0 \<le> rowIndex it \<and> rowIndex it < int (length (arr it))
      then (case index it of
              Some ixs \<Rightarrow> js_nth ixs (nat (rowIndex it))
            | None \<Rightarrow> Num (of_int (rowIndex it)))
      else Undefined)"

text \<open>
  The loop \<open>while (iterator.moveNext()) { out.push(f(iterator)); }\<close>. ArrayIterator's
  \<open>realize\<close> runs it with \<open>getCurrent\<close>; \<open>toValues\<close>, \<open>toObjects\<close> and the index
  producer of a DataFrame run the same loop and differ in what they push. The loop
  ends because the distance of the counter to the array's end shrinks.
\<close>

function collect_loop ::
  "(ArrayIterator \<Rightarrow> 'a) \<Rightarrow> ArrayIterator \<Rightarrow> 'a list \<Rightarrow> 'a list \<times> ArrayIterator" where
  "collect_loop f it out =
     (let (ok, it') = moveNext it
      in if ok then collect_loop f it' (out @ [f it']) else (out, it'))"
  by pat_completeness auto
termination
  by (relation "measure (\<lambda>(f, it, out). nat (int (length (arr it)) - rowIndex it))")
     (auto simp: moveNext_def Let_def)

declare collect_loop.simps [simp del]

definition realize :: "ArrayIterator \<Rightarrow> jsval list \<times> ArrayIterator" where
  "realize it = collect_loop getCurrent it []"

text \<open>The iterator after \<open>k\<close> calls of \<open>moveNext\<close>.\<close>

definition advance :: "nat \<Rightarrow> ArrayIterator \<Rightarrow> ArrayIterator" where
  "advance k it = ((\<lambda>c. snd (moveNext c)) ^^ k) it"

section \<open>JavaScript and linq.js primitives the library calls\<close>

text \<open>
  These are not code of the repository: property reads, \<open>Object.keys\<close>,
  \<open>Number.prototype.toString\<close> and the operations of the linq.js library (\<open>E.from\<close>,
  \<open>zip\<close>, \<open>distinct\<close>, \<open>toObject\<close>, \<open>aggregate\<close>) are written out by what they
  return.
\<close>

fun digit_char :: "nat \<Rightarrow> char" where
  "digit_char n = char_of (48 + n)"

fun string_of_nat :: "nat \<Rightarrow> string" where
  "string_of_nat n =
     (if n < 10 then [digit_char n] else string_of_nat (n div 10) @ [digit_char (n mod 10)])"

text \<open>
  \<open>row[name]\<close> on a value that is not \<open>undefined\<close>: a field of an object, an element
  of an array or a character of a string when the name is the decimal form of a
  position, their \<open>length\<close>, and \<open>undefined\<close> for any other name (what a value inherits
  are functions, which are not values here). There is no equation for \<open>undefined\<close>:
  the read throws, and \<open>js_member\<close> is the read with that branch.
\<close>

fun js_get :: "jsval \<Rightarrow> string \<Rightarrow> jsval" where
  "js_get (Obj kvs) name = (case map_of kvs name of Some v \<Rightarrow> v | None \<Rightarrow> Undefined)"
| "js_get (Arr xs) name =
     (case find (\<lambda>k. string_of_nat k = name) [0..<length xs] of
        Some k \<Rightarrow> xs ! k
      | None \<Rightarrow> if name = ''length'' then Num (of_nat (length xs)) else Undefined)"
| "js_get (Str s) name =
     (case find (\<lambda>k. string_of_nat k = name) [0..<length s] of
        Some k \<Rightarrow> Str [s ! k]
      | None \<Rightarrow> if name = ''length'' then Num (of_nat (length s)) else Undefined)"
| "js_get (Num n) name = Undefined"
| "js_get NaN name = Undefined"
| "js_get Infinity name = Undefined"
| "js_get NegInfinity name = Undefined"

fun js_member :: "jsval \<Rightarrow> string \<Rightarrow> error + jsval" where
  "js_member Undefined name = Inl TypeError"
| "js_member v name = Inr (js_get v name)"

text \<open>\<open>pair[k]\<close> for a position \<open>k\<close>, on a value that is not \<open>undefined\<close>.\<close>

fun js_at :: "jsval \<Rightarrow> nat \<Rightarrow> jsval" where
  "js_at (Arr xs) k = js_nth xs k"
| "js_at (Str s) k = (if k < length s then Str [s ! k] else Undefined)"
| "js_at (Obj kvs) k = js_get (Obj kvs) (string_of_nat k)"
| "js_at (Num n) k = Undefined"
| "js_at NaN k = Undefined"
| "js_at Infinity k = Undefined"
| "js_at NegInfinity k = Undefined"

text \<open>Sugar's \<open>Object.isObject\<close>: true for a plain object only.\<close>

fun isObject :: "jsval \<Rightarrow> bool" where
  "isObject (Obj kvs) = True"
| "isObject v = False"

text \<open>\<open>E.from(x)\<close> as a sequence: the elements of an array, nothing for \<open>undefined\<close>,
  the single value for a number, the characters of a string, the key/value pairs of an
  object.\<close>

fun E_from :: "jsval \<Rightarrow> jsval list" where
  "E_from (Arr xs) = xs"
| "E_from Undefined = []"
| "E_from (Num n) = [Num n]"
| "E_from NaN = [NaN]"
| "E_from Infinity = [Infinity]"
| "E_from NegInfinity = [NegInfinity]"
| "E_from (Str s) = map (\<lambda>c. Str [c]) s"
| "E_from (Obj kvs) = map (\<lambda>(k, v). Obj [(''key'', Str k), (''value'', v)]) kvs"

text \<open>\<open>xs.zip(ys, f)\<close> stops with the shorter sequence.\<close>

definition E_zip :: "'a list \<Rightarrow> 'b list \<Rightarrow> ('a \<Rightarrow> 'b \<Rightarrow> 'c) \<Rightarrow> 'c list" where
  "E_zip xs ys f = map (\<lambda>(x, y). f x y) (zip xs ys)"

text \<open>\<open>distinct()\<close> keeps the first occurrence of each element.\<close>

fun E_distinct_acc :: "'a list \<Rightarrow> 'a list \<Rightarrow> 'a list" where
  "E_distinct_acc seen [] = []"
| "E_distinct_acc seen (x # xs) =
     (if x \<in> set seen then E_distinct_acc seen xs else x # E_distinct_acc (x # seen) xs)"

definition E_distinct :: "'a list \<Rightarrow> 'a list" where
  "E_distinct xs = E_distinct_acc [] xs"

text \<open>A property name is an array index when it is the canonical decimal form of a
  number below \<open>2^32 - 1\<close>.\<close>

fun digits_value :: "string \<Rightarrow> nat \<Rightarrow> nat option" where
  "digits_value [] acc = Some acc"
| "digits_value (c # cs) acc =
     (if (48::nat) \<le> of_char c \<and> of_char c \<le> (57::nat)
      then digits_value cs (10 * acc + (of_char c - 48))
      else None)"

definition array_index :: "string \<Rightarrow> nat option" where
  "array_index name =
     (case digits_value name 0 of
        Some n \<Rightarrow>
          if name \<noteq> [] \<and> string_of_nat n = name \<and> int n < 4294967295 then Some n else None
      | None \<Rightarrow> None)"

text \<open>The own enumerable property names of a value that is not \<open>undefined\<close>, in the
  order JavaScript lists them: the names that are array indices in ascending numeric
  order, then the other names in the order the fields were created. An array and a
  string have their positions; a number has none.\<close>

fun own_keys :: "jsval \<Rightarrow> string list" where
  "own_keys (Obj kvs) =
     (let names = E_distinct (map fst kvs)
      in map string_of_nat (sort (List.map_filter array_index names))
         @ filter (\<lambda>name. array_index name = None) names)"
| "own_keys (Arr xs) = map string_of_nat [0..<length xs]"
| "own_keys (Str s) = map string_of_nat [0..<length s]"
| "own_keys (Num n) = []"
| "own_keys NaN = []"
| "own_keys Infinity = []"
| "own_keys NegInfinity = []"

text \<open>\<open>Object.keys\<close>: a TypeError on \<open>undefined\<close>.\<close>

fun Object_keys :: "jsval \<Rightarrow> error + string list" where
  "Object_keys Undefined = Inl TypeError"
| "Object_keys v = Inr (own_keys v)"

text \<open>\<open>E.range(0, count)\<close> yields a next number while \<open>index++ < count\<close>: the
  numbers below a finite count, none when the comparison is false from the start.\<close>

fun E_range_count :: "jsval \<Rightarrow> nat" where
  "E_range_count (Num q) = nat \<lceil>q\<rceil>"
| "E_range_count Undefined = 0"
| "E_range_count NaN = 0"
| "E_range_count NegInfinity = 0"

text \<open>The values of a list of results, or the first exception among them.\<close>

fun first_error :: "(error + 'a) list \<Rightarrow> error + 'a list" where
  "first_error [] = Inr []"
| "first_error (Inl e # rs) = Inl e"
| "first_error (Inr v # rs) =
     (case first_error rs of Inl e \<Rightarrow> Inl e | Inr vs \<Rightarrow> Inr (v # vs))"

text \<open>\<open>obj[key] = value\<close>: an existing field keeps its place, a new one goes last.\<close>

fun obj_set :: "(string \<times> jsval) list \<Rightarrow> string \<Rightarrow> jsval \<Rightarrow> (string \<times> jsval) list" where
  "obj_set [] k v = [(k, v)]"
| "obj_set ((k', v') # kvs) k v =
     (if k' = k then (k, v) # kvs else (k', v') # obj_set kvs k v)"

text \<open>\<open>toObject(keySelector, valueSelector)\<close> over (key, value) pairs.\<close>

definition E_toObject :: "(string \<times> jsval) list \<Rightarrow> jsval" where
  "E_toObject ps = Obj (foldl (\<lambda>obj (k, v). obj_set obj k v) [] ps)"

text \<open>\<open>aggregate(seed, f)\<close> folds from the left.\<close>

definition E_aggregate :: "'a list \<Rightarrow> 'b \<Rightarrow> ('b \<Rightarrow> 'a \<Rightarrow> 'b) \<Rightarrow> 'b" where
  "E_aggregate xs seed f = foldl f seed xs"

section \<open>The cursor of dataForge.range (index.js)\<close>

text \<open>
  \<open>range(start, count)\<close> builds a Series whose values producer returns an object
  literal with two methods, \<open>moveNext\<close> and \<open>getCurrent\<close>, over the counter \<open>i\<close>
  that starts at \<open>-1\<close>. The literal has no \<open>getCurrentIndex\<close>: calling it is a
  TypeError.
\<close>

record RangeCursor =
  rc_start :: int
  rc_count :: int
  rc_i :: int

definition range_values :: "int \<Rightarrow> int \<Rightarrow> RangeCursor" where
  "range_values start count = \<lparr>rc_start = start, rc_count = count, rc_i = - 1\<rparr>"

definition range_moveNext :: "RangeCursor \<Rightarrow> bool \<times> RangeCursor" where
  "range_moveNext c = (let j = rc_i c + 1 in (j < rc_count c, c\<lparr>rc_i := j\<rparr>))"

definition range_getCurrent :: "RangeCursor \<Rightarrow> error + jsval" where
  "range_getCurrent c = Inr (Num (of_int (rc_start c + rc_i c)))"

definition range_getCurrentIndex :: "RangeCursor \<Rightarrow> error + jsval" where
  "range_getCurrentIndex c = Inl TypeError"

section \<open>Combinator cursors and Index\<close>

text \<open>
  The combinator cursors (src/iterators/skip.js, take.js, skip-while.js, take-while.js,
  where.js, select.js, select-many.js, multi.js, apply-index.js) and the Index class
  (src/index.js of the library) are not among the sources. A cursor built by one of
  them is represented by the array-backed cursor over the (value, position) pairs it
  yields, so that every cursor a Series or DataFrame hands out is read through the one
  protocol above.
\<close>

text \<open>The positions an iterator reports, one per element of its array.\<close>

definition positions :: "ArrayIterator \<Rightarrow> jsval list" where
  "positions it =
     (case index it of
        Some ixs \<Rightarrow> map (js_nth ixs) [0..<length (arr it)]
      | None \<Rightarrow> map (\<lambda>k. Num (of_nat k)) [0..<length (arr it)])"

text \<open>The (value, position) pairs an iterator has still to yield.\<close>

definition remaining :: "ArrayIterator \<Rightarrow> (jsval \<times> jsval) list" where
  "remaining it = drop (nat (rowIndex it + 1)) (zip (arr it) (positions it))"

text \<open>The fresh cursor that yields the given (value, position) pairs.\<close>

definition cursor_of :: "(jsval \<times> jsval) list \<Rightarrow> ArrayIterator" where
  "cursor_of ps = \<lparr>arr = map fst ps, index = Some (map snd ps), rowIndex = - 1\<rparr>"

text \<open>Modelled from the spec: SkipIterator. "Skip(n): advances upstream n times before
  yielding; if upstream exhausts during the skip phase, permanently reports no
  elements."\<close>

definition SkipIterator :: "ArrayIterator \<Rightarrow> int \<Rightarrow> ArrayIterator" where
  "SkipIterator it n = cursor_of (drop (nat n) (remaining it))"

text \<open>Modelled from the spec: TakeIterator. "Take(n): yields at most n elements; stops
  after n successful advances or upon upstream exhaustion, whichever first."\<close>

definition TakeIterator :: "ArrayIterator \<Rightarrow> int \<Rightarrow> ArrayIterator" where
  "TakeIterator it n = cursor_of (take (nat n) (remaining it))"

text \<open>Modelled from the spec: SkipWhileIterator. "SkipWhile(pred): advances upstream
  while pred(current) holds; first element failing the predicate becomes the first
  yielded element; once past the skip phase, behaves as pass-through."\<close>

definition SkipWhileIterator :: "ArrayIterator \<Rightarrow> (jsval \<Rightarrow> bool) \<Rightarrow> ArrayIterator" where
  "SkipWhileIterator it pred = cursor_of (dropWhile (\<lambda>(v, p). pred v) (remaining it))"

text \<open>Modelled from the spec: TakeWhileIterator. "TakeWhile(pred): yields upstream
  elements while predicate holds; the first failing element terminates the cursor
  permanently."\<close>

definition TakeWhileIterator :: "ArrayIterator \<Rightarrow> (jsval \<Rightarrow> bool) \<Rightarrow> ArrayIterator" where
  "TakeWhileIterator it pred = cursor_of (takeWhile (\<lambda>(v, p). pred v) (remaining it))"

text \<open>Modelled from the spec: WhereIterator. "Where/Filter(pred): repeatedly advances
  upstream internally until an element satisfies pred or upstream exhausts."\<close>

definition WhereIterator :: "ArrayIterator \<Rightarrow> (jsval \<Rightarrow> bool) \<Rightarrow> ArrayIterator" where
  "WhereIterator it pred = cursor_of (filter (\<lambda>(v, p). pred v) (remaining it))"

text \<open>Modelled from the spec: SelectIterator. "Select/Map(fn): pass-through advance;
  current() = fn(upstream.current())."\<close>

definition SelectIterator :: "ArrayIterator \<Rightarrow> (jsval \<Rightarrow> jsval) \<Rightarrow> ArrayIterator" where
  "SelectIterator it fn = cursor_of (map (\<lambda>(v, p). (fn v, p)) (remaining it))"

text \<open>Modelled from the spec: SelectManyIterator. "SelectMany/FlatMap(fn):
  fn(upstream.current()) yields an ordered sequence of replacement elements; cursor
  buffers and drains that sub-sequence before advancing upstream again; position of
  every replacement element equals the upstream element's position."\<close>

definition SelectManyIterator :: "ArrayIterator \<Rightarrow> (jsval \<Rightarrow> jsval list) \<Rightarrow> ArrayIterator" where
  "SelectManyIterator it fn =
     cursor_of (concat (map (\<lambda>(v, p). map (\<lambda>w. (w, p)) (fn v)) (remaining it)))"

text \<open>Modelled from the spec: MultiIterator. "Multi/Zip(cursors[]): advances ALL child
  cursors in one call; advance() returns true only if every child's advance() returned
  true; current() returns an ordered sequence of each child's current value;
  currentPosition() similarly collects each child's current position. Zero children:
  advance() immediately returns false."\<close>

fun multi_rows :: "(jsval \<times> jsval) list list \<Rightarrow> (jsval list \<times> jsval list) list" where
  "multi_rows [] = []"
| "multi_rows [c] = map (\<lambda>(v, p). ([v], [p])) c"
| "multi_rows (c # cs) = map (\<lambda>((v, p), (vs, ps)). (v # vs, p # ps)) (zip c (multi_rows cs))"

definition MultiIterator :: "ArrayIterator list \<Rightarrow> ArrayIterator" where
  "MultiIterator its =
     cursor_of (map (\<lambda>(vs, ps). (Arr vs, Arr ps)) (multi_rows (map remaining its)))"

text \<open>Modelled from the spec: ApplyIndexIterator, the cursor the DataFrame constructor
  wraps around its rows when an Index is given. The spec names no such cursor; it asks
  that "the value Cursor and the Index's Cursor, when advanced in lockstep, must yield
  the same count of elements and a 1:1 position correspondence". The cursor advances
  the row cursor and the index cursor together, yields the row as value and the index
  cursor's value as position, and ends when either ends.\<close>

definition ApplyIndexIterator :: "ArrayIterator \<Rightarrow> ArrayIterator \<Rightarrow> ArrayIterator" where
  "ApplyIndexIterator it indexIt =
     cursor_of (map (\<lambda>((v, p), (l, q)). (v, l)) (zip (remaining it) (remaining indexIt)))"

text \<open>Modelled from the spec: Index. "Index: owns a zero-argument function producing a
  fresh Cursor over label values each time it is invoked"; built from an array or from
  a producer; "operations mirror Series (skip/take/.../reverse/bake), implemented by
  wrapping the Index's own value-producer with the same Combinator Cursors used for
  Series values". A producer is represented by the fresh cursor it returns.\<close>

record Index =
  ix_iterable :: ArrayIterator

definition Index_of_array :: "jsval list \<Rightarrow> Index" where
  "Index_of_array vs = \<lparr>ix_iterable = \<lparr>arr = vs, index = None, rowIndex = - 1\<rparr>\<rparr>"

definition Index_of :: "ArrayIterator \<Rightarrow> Index" where
  "Index_of it = \<lparr>ix_iterable = it\<rparr>"

definition Index_getIterator :: "Index \<Rightarrow> ArrayIterator" where
  "Index_getIterator ix = ix_iterable ix"

definition Index_toValues :: "Index \<Rightarrow> jsval list" where
  "Index_toValues ix = fst (collect_loop getCurrent (Index_getIterator ix) [])"

definition Index_skip :: "Index \<Rightarrow> int \<Rightarrow> Index" where
  "Index_skip ix n = Index_of (SkipIterator (Index_getIterator ix) n)"

definition Index_take :: "Index \<Rightarrow> int \<Rightarrow> Index" where
  "Index_take ix n = Index_of (TakeIterator (Index_getIterator ix) n)"

definition Index_reverse :: "Index \<Rightarrow> Index" where
  "Index_reverse ix = Index_of_array (rev (Index_toValues ix))"

definition Index_bake :: "Index \<Rightarrow> Index" where
  "Index_bake ix = Index_of_array (Index_toValues ix)"

section \<open>Series (src/series.js)\<close>

text \<open>
  A Series holds \<open>_iterable\<close>, a zero-argument producer of value cursors, and
  \<open>_index\<close>. Producers are closures without side effects other than caches, so a
  producer is represented by the fresh cursor it returns.
\<close>

record Series =
  s_iterable :: ArrayIterator
  s_index :: Index

text \<open>\<open>new ArrayIterator(a)\<close> without a position array; it cannot fail.\<close>

definition array_cursor :: "jsval list \<Rightarrow> ArrayIterator" where
  "array_cursor a = \<lparr>arr = a, index = None, rowIndex = - 1\<rparr>"

text \<open>The counting loop \<open>while (iterator.moveNext()) { ++length; }\<close>.\<close>

function count_loop :: "ArrayIterator \<Rightarrow> nat \<Rightarrow> nat" where
  "count_loop it n =
     (let (ok, it') = moveNext it in if ok then count_loop it' (n + 1) else n)"
  by pat_completeness auto
termination
  by (relation "measure (\<lambda>(it, n). nat (int (length (arr it)) - rowIndex it))")
     (auto simp: moveNext_def Let_def)

declare count_loop.simps [simp del]

text \<open>The constructor's configuration: \<open>values\<close> is an array or a producer.\<close>

datatype values_config = ValuesArray "jsval list" | ValuesFn ArrayIterator

record SeriesConfig =
  cfg_values :: "values_config option"
  cfg_sindex :: "Index option"

definition new_Series :: "SeriesConfig option \<Rightarrow> error + Series" where
  "new_Series config =
     (case config of
        Some cfg \<Rightarrow>
          (case cfg_values cfg of
             None \<Rightarrow> Inl Error
           | Some vs \<Rightarrow>
               let iterable = (case vs of ValuesFn it \<Rightarrow> it | ValuesArray a \<Rightarrow> array_cursor a)
               in Inr \<lparr>s_iterable = iterable,
                       s_index =
                         (case cfg_sindex cfg of
                            Some ix \<Rightarrow> ix
                          | None \<Rightarrow>
                              Index_of (array_cursor
                                (map (\<lambda>k. Num (of_nat k)) [0..<count_loop iterable 0])))\<rparr>)
      | None \<Rightarrow> Inr \<lparr>s_iterable = array_cursor [], s_index = Index_of_array []\<rparr>)"

text \<open>\<open>new Series({ values: function, index: ix })\<close>, the call every operator below
  makes: both fields are given, nothing is checked that can fail.\<close>

definition Series_of :: "ArrayIterator \<Rightarrow> Index \<Rightarrow> Series" where
  "Series_of it ix = \<lparr>s_iterable = it, s_index = ix\<rparr>"

definition Series_getIterator :: "Series \<Rightarrow> ArrayIterator" where
  "Series_getIterator self = s_iterable self"

definition Series_getIndex :: "Series \<Rightarrow> Index" where
  "Series_getIndex self = s_index self"

definition Series_toValues :: "Series \<Rightarrow> jsval list" where
  "Series_toValues self = fst (collect_loop getCurrent (Series_getIterator self) [])"

definition Series_skip :: "Series \<Rightarrow> int \<Rightarrow> Series" where
  "Series_skip self numRows =
     Series_of (SkipIterator (Series_getIterator self) numRows)
               (Index_skip (Series_getIndex self) numRows)"

definition Series_skipWhile :: "Series \<Rightarrow> (jsval \<Rightarrow> bool) \<Rightarrow> Series" where
  "Series_skipWhile self predicate =
     Series_of
       (SkipWhileIterator (Series_getIterator self) predicate)
       (Index_of
          (let multiIterator =
                 MultiIterator [Index_getIterator (Series_getIndex self), Series_getIterator self]
           in SelectIterator
                (SkipWhileIterator multiIterator (\<lambda>pair. predicate (js_at pair 1)))
                (\<lambda>pair. js_at pair 0)))"

definition Series_take :: "Series \<Rightarrow> int \<Rightarrow> Series" where
  "Series_take self numRows =
     Series_of (TakeIterator (Series_getIterator self) numRows)
               (Index_take (Series_getIndex self) numRows)"

definition Series_takeWhile :: "Series \<Rightarrow> (jsval \<Rightarrow> bool) \<Rightarrow> Series" where
  "Series_takeWhile self predicate =
     Series_of
       (TakeWhileIterator (Series_getIterator self) predicate)
       (Index_of
          (let multiIterator =
                 MultiIterator [Index_getIterator (Series_getIndex self), Series_getIterator self]
           in SelectIterator
                (TakeWhileIterator multiIterator (\<lambda>pair. predicate (js_at pair 1)))
                (\<lambda>pair. js_at pair 0)))"

text \<open>\<open>where\<close> zips the realized index with the realized values, keeps the pairs whose
  value satisfies the predicate, and serves values and index from that one list.\<close>

definition Series_executeLazyWhere :: "Series \<Rightarrow> (jsval \<Rightarrow> bool) \<Rightarrow> (jsval \<times> jsval) list" where
  "Series_executeLazyWhere self filterSelectorPredicate =
     filter (\<lambda>data. filterSelectorPredicate (snd data))
       (E_zip (Index_toValues (Series_getIndex self)) (Series_toValues self) Pair)"

definition Series_where :: "Series \<Rightarrow> (jsval \<Rightarrow> bool) \<Rightarrow> Series" where
  "Series_where self filterSelectorPredicate =
     Series_of
       (array_cursor (map snd (Series_executeLazyWhere self filterSelectorPredicate)))
       (Index_of (array_cursor (map fst (Series_executeLazyWhere self filterSelectorPredicate))))"

definition Series_select :: "Series \<Rightarrow> (jsval \<Rightarrow> jsval) \<Rightarrow> Series" where
  "Series_select self selector =
     Series_of (SelectIterator (Series_getIterator self) selector) (Series_getIndex self)"

text \<open>\<open>selectMany\<close>: \<open>newIndexAndNewValues\<close> pairs each label with the selector's
  expansion of the value; the values are the expansions in order, the index repeats
  each label once per expanded value.\<close>

definition Series_newIndexAndNewValues ::
  "Series \<Rightarrow> (jsval \<Rightarrow> jsval list) \<Rightarrow> (jsval \<times> jsval list) list" where
  "Series_newIndexAndNewValues self selector =
     E_zip (Index_toValues (Series_getIndex self)) (Series_toValues self)
       (\<lambda>index value. (index, selector value))"

definition Series_selectMany :: "Series \<Rightarrow> (jsval \<Rightarrow> jsval list) \<Rightarrow> Series" where
  "Series_selectMany self selector =
     Series_of
       (array_cursor (concat (map snd (Series_newIndexAndNewValues self selector))))
       (Index_of (array_cursor
          (concat (map (\<lambda>data. map (\<lambda>_. fst data) [0..<length (snd data)])
                       (Series_newIndexAndNewValues self selector)))))"

text \<open>\<open>new Series({ values: array, index: ix })\<close>, as \<open>bake\<close> and \<open>reverse\<close> call it.\<close>

definition Series_bake :: "Series \<Rightarrow> Series" where
  "Series_bake self =
     Series_of (array_cursor (Series_toValues self)) (Index_bake (Series_getIndex self))"

definition Series_reverse :: "Series \<Rightarrow> Series" where
  "Series_reverse self =
     Series_of (array_cursor (rev (Series_toValues self))) (Index_reverse (Series_getIndex self))"

text \<open>\<open>first\<close> and \<open>last\<close> throw \<open>new Error("No rows in series.")\<close> when the first
  \<open>moveNext\<close> fails.\<close>

definition Series_first :: "Series \<Rightarrow> error + jsval" where
  "Series_first self =
     (let (ok, iterator) = moveNext (Series_getIterator self)
      in if \<not> ok then Inl Error else Inr (getCurrent iterator))"

function last_loop :: "ArrayIterator \<Rightarrow> jsval \<Rightarrow> jsval" where
  "last_loop it lst =
     (let (ok, it') = moveNext it in if ok then last_loop it' (getCurrent it') else lst)"
  by pat_completeness auto
termination
  by (relation "measure (\<lambda>(it, lst). nat (int (length (arr it)) - rowIndex it))")
     (auto simp: moveNext_def Let_def)

declare last_loop.simps [simp del]

definition Series_last :: "Series \<Rightarrow> error + jsval" where
  "Series_last self =
     (let (ok, iterator) = moveNext (Series_getIterator self)
      in if \<not> ok then Inl Error else Inr (last_loop iterator (getCurrent iterator)))"

text \<open>\<open>aggregate(seedOrSelector, selector)\<close>, by the shape of the call. With a
  function as the only argument the fold runs over \<open>self.skip(1).toValues()\<close> from the
  seed \<open>self.first()\<close>; the receiver \<open>E.from(self.skip(1).toValues())\<close> is evaluated
  before the argument \<open>self.first()\<close>, and neither the skip nor the realization
  throws. With a seed, \<open>selector\<close> must be a function.\<close>

datatype aggregate_args =
    OnlySelector "jsval \<Rightarrow> jsval \<Rightarrow> jsval"
  | SeedAndSelector jsval "jsval \<Rightarrow> jsval \<Rightarrow> jsval"
  | SeedOnly jsval

fun Series_aggregate :: "Series \<Rightarrow> aggregate_args \<Rightarrow> error + jsval" where
  "Series_aggregate self (OnlySelector seedOrSelector) =
     (let rest = Series_toValues (Series_skip self 1)
      in case Series_first self of
           Inl e \<Rightarrow> Inl e
         | Inr seed \<Rightarrow> Inr (E_aggregate rest seed seedOrSelector))"
| "Series_aggregate self (SeedAndSelector seed selector) =
     Inr (E_aggregate (Series_toValues self) seed selector)"
| "Series_aggregate self (SeedOnly seed) = Inl AssertionError"

section \<open>DataFrame (src/dataframe.js)\<close>

text \<open>
  A DataFrame holds \<open>_columnNames\<close>, an array of strings or a zero-argument function
  producing one (\<open>getColumnNames\<close> replaces the function by its result on first use),
  and \<open>_iterable\<close>, the producer of row cursors. Both are represented by what they
  produce. \<open>_newIterable\<close> is never assigned, so \<open>getColumnNames\<close> always takes the
  \<open>_columnNames\<close> path.
\<close>

record DataFrame =
  df_columnNames :: "string list"
  df_iterable :: ArrayIterator

definition DataFrame_getColumnNames :: "DataFrame \<Rightarrow> string list" where
  "DataFrame_getColumnNames self = df_columnNames self"

definition DataFrame_getIterator :: "DataFrame \<Rightarrow> ArrayIterator" where
  "DataFrame_getIterator self = df_iterable self"

text \<open>The configuration of the constructor: \<open>columnNames\<close> (an array or a producer,
  given by the names), \<open>rows\<close> (an array or a producer of cursors) and \<open>index\<close>.\<close>

datatype rows_config = RowsArray "jsval list" | RowsFn ArrayIterator

record DataFrameConfig =
  cfg_columnNames :: "string list option"
  cfg_rows :: "rows_config option"
  cfg_index :: "Index option"

text \<open>\<open>determineColumnNames\<close> of the constructor: the keys of the first row the
  producer yields, or no names when it yields nothing.\<close>

definition determineColumnNames :: "ArrayIterator \<Rightarrow> error + string list" where
  "determineColumnNames rows =
     (let (ok, iterator) = moveNext rows
      in if \<not> ok then Inr [] else Object_keys (getCurrent iterator))"

text \<open>The row selector \<open>function (row) { return E.from(columnNames).select(function
  (columnName) { return row[columnName]; }).toArray(); }\<close>.\<close>

definition row_by_names :: "string list \<Rightarrow> jsval \<Rightarrow> error + jsval" where
  "row_by_names columnNames row =
     (case first_error (map (\<lambda>columnName. js_member row columnName) columnNames) of
        Inl e \<Rightarrow> Inl e
      | Inr cells \<Rightarrow> Inr (Arr cells))"

text \<open>Modelled from the spec: SelectIterator, with a selector that can throw. The
  exception surfaces when the row it is thrown on is read; the cursor is given by all
  it yields, so the result is the exception of the first such row.\<close>

definition SelectIterator_try ::
  "ArrayIterator \<Rightarrow> (jsval \<Rightarrow> error + jsval) \<Rightarrow> error + ArrayIterator" where
  "SelectIterator_try it fn =
     (case first_error
             (map (\<lambda>(v, p). case fn v of Inl e \<Rightarrow> Inl e | Inr w \<Rightarrow> Inr (w, p)) (remaining it)) of
        Inl e \<Rightarrow> Inl e
      | Inr ps \<Rightarrow> Inr (cursor_of ps))"

text \<open>The constructor body for a configuration object. Its branches in source order:
  explicit column names; rows from a producer; rows from an array of objects; rows from
  an array of arrays; nothing. The names and the rows are what \<open>getColumnNames()\<close> and
  the rows producer return on first use, or the exception they throw; the read of
  \<open>config.rows[0].length\<close> is made by the constructor itself.\<close>

definition DataFrame_columnNames_of :: "DataFrameConfig \<Rightarrow> error + string list" where
  "DataFrame_columnNames_of config =
     (case cfg_columnNames config of
        Some names \<Rightarrow> Inr names
      | None \<Rightarrow>
          (case cfg_rows config of
             Some (RowsFn producer) \<Rightarrow> determineColumnNames producer
           | Some (RowsArray rs) \<Rightarrow>
               if length rs > 0 then
                 if isObject (rs ! 0)
                 then (case first_error (map Object_keys rs) of
                         Inl e \<Rightarrow> Inl e
                       | Inr keys \<Rightarrow> Inr (E_distinct (concat keys)))
                 else (case js_member (rs ! 0) ''length'' of
                         Inl e \<Rightarrow> Inl e
                       | Inr n \<Rightarrow> Inr (map string_of_nat [0..<E_range_count n]))
               else Inr []
           | None \<Rightarrow> Inr []))"

definition DataFrame_rows_of :: "DataFrameConfig \<Rightarrow> error + ArrayIterator" where
  "DataFrame_rows_of config =
     (case cfg_columnNames config of
        Some names \<Rightarrow>
          (case cfg_rows config of
             Some (RowsFn producer) \<Rightarrow> Inr producer
           | Some (RowsArray rs) \<Rightarrow> Inr (array_cursor rs)
           | None \<Rightarrow> Inl Error)
      | None \<Rightarrow>
          (case cfg_rows config of
             Some (RowsFn producer) \<Rightarrow>
               (case determineColumnNames producer of
                  Inl e \<Rightarrow> Inl e
                | Inr columnNames \<Rightarrow> SelectIterator_try producer (row_by_names columnNames))
           | Some (RowsArray rs) \<Rightarrow>
               if length rs > 0 then
                 if isObject (rs ! 0)
                 then (case DataFrame_columnNames_of config of
                         Inl e \<Rightarrow> Inl e
                       | Inr columnNames \<Rightarrow>
                           SelectIterator_try (array_cursor rs) (row_by_names columnNames))
                 else (case js_member (rs ! 0) ''length'' of
                         Inl e \<Rightarrow> Inl e
                       | Inr n \<Rightarrow> Inr (array_cursor rs))
               else Inr (array_cursor [])
           | None \<Rightarrow> Inr (array_cursor [])))"

text \<open>\<open>new DataFrame(config)\<close> with a configuration: the frame whose names and rows
  are those, or the first exception. With column names and without rows the
  constructor throws an Error.\<close>

definition DataFrame_of :: "DataFrameConfig \<Rightarrow> error + DataFrame" where
  "DataFrame_of config =
     (case DataFrame_rows_of config of
        Inl e \<Rightarrow> Inl e
      | Inr rows \<Rightarrow>
          (case DataFrame_columnNames_of config of
             Inl e \<Rightarrow> Inl e
           | Inr columnNames \<Rightarrow>
               Inr \<lparr>df_columnNames = columnNames,
                    df_iterable =
                      (case cfg_index config of
                         Some ix \<Rightarrow> ApplyIndexIterator rows (Index_getIterator ix)
                       | None \<Rightarrow> rows)\<rparr>))"

text \<open>Without a configuration the frame is empty.\<close>

definition new_DataFrame :: "DataFrameConfig option \<Rightarrow> error + DataFrame" where
  "new_DataFrame config =
     (case config of
        Some cfg \<Rightarrow> DataFrame_of cfg
      | None \<Rightarrow> Inr \<lparr>df_columnNames = [], df_iterable = array_cursor []\<rparr>)"

text \<open>With column names and rows given none of the branches that can throw is taken:
  the frame of \<open>new DataFrame({ columnNames: names, rows: rows, index: index })\<close>.\<close>

definition DataFrame_named :: "string list \<Rightarrow> rows_config \<Rightarrow> Index option \<Rightarrow> DataFrame" where
  "DataFrame_named names rows ix =
     \<lparr>df_columnNames = names,
      df_iterable =
        (let cursor = (case rows of RowsFn producer \<Rightarrow> producer | RowsArray rs \<Rightarrow> array_cursor rs)
         in case ix of
              Some i \<Rightarrow> ApplyIndexIterator cursor (Index_getIterator i)
            | None \<Rightarrow> cursor)\<rparr>"

text \<open>\<open>getIndex\<close>: the producer returns an object literal that forwards \<open>moveNext\<close>
  to a fresh row cursor, yields the row cursor's \<open>getCurrentIndex()\<close> as its value
  and counts its own steps as position. It is represented by the array cursor over the
  labels that the row cursor reports.\<close>

definition DataFrame_getIndex :: "DataFrame \<Rightarrow> Index" where
  "DataFrame_getIndex self =
     Index_of (array_cursor (fst (collect_loop getCurrentIndex (DataFrame_getIterator self) [])))"

text \<open>\<open>mapRowByColumns\<close>: zip the column names with the row's cells and build the
  object.\<close>

definition mapRowByColumns :: "DataFrame \<Rightarrow> jsval \<Rightarrow> jsval" where
  "mapRowByColumns self row = E_toObject (E_zip (DataFrame_getColumnNames self) (E_from row) Pair)"

text \<open>\<open>getColumnIndex\<close>: the loop \<open>for (i = 0; i < columnNames.length; ++i)\<close> that
  returns the first position whose name equals \<open>columnName\<close>, and \<open>-1\<close> after it.\<close>

function getColumnIndex_loop :: "string list \<Rightarrow> string \<Rightarrow> nat \<Rightarrow> int" where
  "getColumnIndex_loop columnNames columnName i =
     (if i < length columnNames
      then if columnName = columnNames ! i then int i
           else getColumnIndex_loop columnNames columnName (i + 1)
      else - 1)"
  by pat_completeness auto
termination
  by (relation "measure (\<lambda>(columnNames, columnName, i). length columnNames - i)") auto

declare getColumnIndex_loop.simps [simp del]

definition DataFrame_getColumnIndex :: "DataFrame \<Rightarrow> string \<Rightarrow> int" where
  "DataFrame_getColumnIndex self columnName =
     getColumnIndex_loop (DataFrame_getColumnNames self) columnName 0"

text \<open>A "column name or index" argument: a string, a number, or anything else.\<close>

datatype columnNameOrIndex = ColumnName string | ColumnNumber int | ColumnOther jsval

fun parseColumnNameOrIndex :: "DataFrame \<Rightarrow> columnNameOrIndex \<Rightarrow> bool \<Rightarrow> error + int" where
  "parseColumnNameOrIndex dataFrame (ColumnName name) failForNonExistantColumn =
     (let columnIndex = DataFrame_getColumnIndex dataFrame name
      in if failForNonExistantColumn \<and> columnIndex < 0 then Inl Error else Inr columnIndex)"
| "parseColumnNameOrIndex dataFrame (ColumnNumber n) failForNonExistantColumn = Inr n"
| "parseColumnNameOrIndex dataFrame (ColumnOther v) failForNonExistantColumn = Inl AssertionError"

text \<open>\<open>row[columnIndex]\<close> for a number that may be negative.\<close>

definition js_at_int :: "jsval \<Rightarrow> int \<Rightarrow> jsval" where
  "js_at_int row k = (if 0 \<le> k then js_at row (nat k) else Undefined)"

definition DataFrame_getSeries :: "DataFrame \<Rightarrow> columnNameOrIndex \<Rightarrow> error + Series" where
  "DataFrame_getSeries self columnNameOrIndex =
     (case parseColumnNameOrIndex self columnNameOrIndex True of
        Inl e \<Rightarrow> Inl e
      | Inr columnIndex \<Rightarrow>
          Inr (Series_of
                 (SelectIterator (DataFrame_getIterator self) (\<lambda>row. js_at_int row columnIndex))
                 (DataFrame_getIndex self)))"

definition DataFrame_hasSeries :: "DataFrame \<Rightarrow> string \<Rightarrow> bool" where
  "DataFrame_hasSeries self columnName = (DataFrame_getColumnIndex self columnName \<ge> 0)"

definition DataFrame_expectSeries :: "DataFrame \<Rightarrow> columnNameOrIndex \<Rightarrow> error + DataFrame" where
  "DataFrame_expectSeries self columnNameOrIndex =
     (case parseColumnNameOrIndex self columnNameOrIndex True of
        Inl e \<Rightarrow> Inl e
      | Inr columnIndex \<Rightarrow> Inr self)"

definition DataFrame_toValues :: "DataFrame \<Rightarrow> jsval list" where
  "DataFrame_toValues self = fst (collect_loop getCurrent (DataFrame_getIterator self) [])"

definition DataFrame_toObjects :: "DataFrame \<Rightarrow> jsval list" where
  "DataFrame_toObjects self =
     fst (collect_loop (\<lambda>iterator. mapRowByColumns self (getCurrent iterator))
            (DataFrame_getIterator self) [])"

text \<open>\<open>first\<close> and \<open>last\<close> throw \<open>new Error("No rows in data-frame.")\<close> when the
  first \<open>moveNext\<close> fails.\<close>

definition DataFrame_first :: "DataFrame \<Rightarrow> error + jsval" where
  "DataFrame_first self =
     (let (ok, iterator) = moveNext (DataFrame_getIterator self)
      in if \<not> ok then Inl Error else Inr (mapRowByColumns self (getCurrent iterator)))"

definition DataFrame_last :: "DataFrame \<Rightarrow> error + jsval" where
  "DataFrame_last self =
     (let (ok, iterator) = moveNext (DataFrame_getIterator self)
      in if \<not> ok then Inl Error
         else Inr (mapRowByColumns self (last_loop iterator (getCurrent iterator))))"

text \<open>\<open>new DataFrame({ columnNames: names, rows: function, index: ix })\<close>, the call
  most operators below make.\<close>

definition DataFrame_with :: "string list \<Rightarrow> ArrayIterator \<Rightarrow> Index \<Rightarrow> DataFrame" where
  "DataFrame_with names producer ix = DataFrame_named names (RowsFn producer) (Some ix)"

definition DataFrame_skip :: "DataFrame \<Rightarrow> int \<Rightarrow> DataFrame" where
  "DataFrame_skip self numRows =
     DataFrame_with (DataFrame_getColumnNames self)
       (SkipIterator (DataFrame_getIterator self) numRows)
       (Index_skip (DataFrame_getIndex self) numRows)"

definition DataFrame_skipWhile :: "DataFrame \<Rightarrow> (jsval \<Rightarrow> bool) \<Rightarrow> DataFrame" where
  "DataFrame_skipWhile self predicate =
     DataFrame_with (DataFrame_getColumnNames self)
       (SkipWhileIterator (DataFrame_getIterator self)
          (\<lambda>row. predicate (mapRowByColumns self row)))
       (Index_of
          (let multiIterator =
                 MultiIterator [Index_getIterator (DataFrame_getIndex self), DataFrame_getIterator self]
           in SelectIterator
                (SkipWhileIterator multiIterator
                   (\<lambda>pair. predicate (mapRowByColumns self (js_at pair 1))))
                (\<lambda>pair. js_at pair 0)))"

definition DataFrame_take :: "DataFrame \<Rightarrow> int \<Rightarrow> DataFrame" where
  "DataFrame_take self numRows =
     DataFrame_with (DataFrame_getColumnNames self)
       (TakeIterator (DataFrame_getIterator self) numRows)
       (Index_take (DataFrame_getIndex self) numRows)"

definition DataFrame_takeWhile :: "DataFrame \<Rightarrow> (jsval \<Rightarrow> bool) \<Rightarrow> DataFrame" where
  "DataFrame_takeWhile self predicate =
     DataFrame_with (DataFrame_getColumnNames self)
       (TakeWhileIterator (DataFrame_getIterator self)
          (\<lambda>row. predicate (mapRowByColumns self row)))
       (Index_of
          (let multiIterator =
                 MultiIterator [Index_getIterator (DataFrame_getIndex self), DataFrame_getIterator self]
           in SelectIterator
                (TakeWhileIterator multiIterator
                   (\<lambda>pair. predicate (mapRowByColumns self (js_at pair 1))))
                (\<lambda>pair. js_at pair 0)))"

text \<open>\<open>where\<close>: the index producer returns an object literal over a MultiIterator of
  (index, rows); its \<open>moveNext\<close> advances until the row part satisfies the predicate,
  its reads take the first component of the MultiIterator's value and position. It is
  represented by the cursor over the pairs it yields.\<close>

definition DataFrame_where :: "DataFrame \<Rightarrow> (jsval \<Rightarrow> bool) \<Rightarrow> DataFrame" where
  "DataFrame_where self filterSelectorPredicate =
     DataFrame_with (DataFrame_getColumnNames self)
       (WhereIterator (DataFrame_getIterator self)
          (\<lambda>row. filterSelectorPredicate (mapRowByColumns self row)))
       (Index_of
          (let multiIterator =
                 MultiIterator [Index_getIterator (DataFrame_getIndex self), DataFrame_getIterator self]
           in cursor_of
                (map (\<lambda>(v, p). (js_at v 0, js_at p 0))
                   (filter (\<lambda>(v, p). filterSelectorPredicate (mapRowByColumns self (js_at v 1)))
                      (remaining multiIterator)))))"

text \<open>\<open>select\<close>: the column names are the keys of the selector's result on the first
  row (none for an empty frame); each row is the selector's result read by those
  names.\<close>

definition DataFrame_select_determineColumnNames ::
  "DataFrame \<Rightarrow> (jsval \<Rightarrow> jsval) \<Rightarrow> error + string list" where
  "DataFrame_select_determineColumnNames self selector =
     (let (ok, iterator) = moveNext (DataFrame_getIterator self)
      in if \<not> ok then Inr []
         else Object_keys (selector (mapRowByColumns self (getCurrent iterator))))"

definition DataFrame_select :: "DataFrame \<Rightarrow> (jsval \<Rightarrow> jsval) \<Rightarrow> error + DataFrame" where
  "DataFrame_select self selector =
     (case DataFrame_select_determineColumnNames self selector of
        Inl e \<Rightarrow> Inl e
      | Inr columnNames \<Rightarrow>
          (case SelectIterator_try (DataFrame_getIterator self)
                  (\<lambda>row. row_by_names columnNames (selector (mapRowByColumns self row))) of
             Inl e \<Rightarrow> Inl e
           | Inr rows \<Rightarrow> Inr (DataFrame_with columnNames rows (DataFrame_getIndex self))))"

text \<open>\<open>selectMany\<close> passes no column names. The rows producer applies the selector to
  the row mapped by column names; the index producer applies it to \<open>pair[1]\<close>, the
  row as the cursor yields it.\<close>

definition DataFrame_selectMany :: "DataFrame \<Rightarrow> (jsval \<Rightarrow> jsval list) \<Rightarrow> error + DataFrame" where
  "DataFrame_selectMany self selector =
     DataFrame_of
       \<lparr>cfg_columnNames = None,
        cfg_rows = Some (RowsFn
          (SelectManyIterator (DataFrame_getIterator self)
             (\<lambda>row. selector (mapRowByColumns self row)))),
        cfg_index = Some (Index_of
          (SelectIterator
             (SelectManyIterator
                (MultiIterator [Index_getIterator (DataFrame_getIndex self), DataFrame_getIterator self])
                (\<lambda>pair. let newValues = selector (js_at pair 1)
                        in map (\<lambda>value. Arr [js_at pair 0, value]) newValues))
             (\<lambda>pair. js_at pair 0)))\<rparr>"

definition DataFrame_bake :: "DataFrame \<Rightarrow> DataFrame" where
  "DataFrame_bake self =
     DataFrame_named (DataFrame_getColumnNames self) (RowsArray (DataFrame_toValues self))
       (Some (Index_bake (DataFrame_getIndex self)))"

definition DataFrame_reverse :: "DataFrame \<Rightarrow> error + DataFrame" where
  "DataFrame_reverse self =
     DataFrame_of \<lparr>cfg_columnNames = None,
                   cfg_rows = Some (RowsArray (rev (DataFrame_toObjects self))),
                   cfg_index = Some (Index_reverse (DataFrame_getIndex self))\<rparr>"

section \<open>Ordering in linq.js\<close>

text \<open>
  The order-by engine hands the sorting to linq.js: \<open>orderBy\<close> and
  \<open>orderByDescending\<close> on an enumerable start an ordered enumerable with one sort
  context; \<open>thenBy\<close> and \<open>thenByDescending\<close> exist on an ordered enumerable only and
  add a context; \<open>toArray\<close> on an ordered enumerable sorts the positions of its buffer
  with \<open>SortContext.compare\<close>, which compares the keys of the first context, on a tie
  asks the next context, and after the last compares the positions themselves.
\<close>

text \<open>\<open>a === b\<close>: values of different types are not identical; \<open>undefined\<close> is
  identical to itself, a number to the same number except \<open>NaN\<close>, which is identical
  to nothing, a string to the same string. Arrays and objects are identical when they
  are the same object, which values here do not record: there is no equation for
  them.\<close>

fun js_typeof :: "jsval \<Rightarrow> string" where
  "js_typeof Undefined = ''undefined''"
| "js_typeof (Num q) = ''number''"
| "js_typeof NaN = ''number''"
| "js_typeof Infinity = ''number''"
| "js_typeof NegInfinity = ''number''"
| "js_typeof (Str s) = ''string''"
| "js_typeof (Arr xs) = ''object''"
| "js_typeof (Obj kvs) = ''object''"

fun same_value :: "jsval \<Rightarrow> jsval \<Rightarrow> bool" where
  "same_value Undefined b = True"
| "same_value (Num q) b = (b = Num q)"
| "same_value NaN b = False"
| "same_value Infinity b = (b = Infinity)"
| "same_value NegInfinity b = (b = NegInfinity)"
| "same_value (Str s) b = (b = Str s)"

definition js_strict_equals :: "jsval \<Rightarrow> jsval \<Rightarrow> bool" where
  "js_strict_equals a b = (if js_typeof a = js_typeof b then same_value a b else False)"

text \<open>\<open>a > b\<close>: two strings are compared by their character codes, the first
  difference deciding and a proper prefix being the smaller. Anything else is compared
  as numbers: \<open>undefined\<close> converts to \<open>NaN\<close>, and a comparison with \<open>NaN\<close> is
  false. The conversion of a string, an array or an object to a number is not
  modelled (no equation), so a comparison that needs one is unspecified.\<close>

fun str_greater :: "string \<Rightarrow> string \<Rightarrow> bool" where
  "str_greater [] t = False"
| "str_greater (c # s) [] = True"
| "str_greater (c # s) (d # t) =
     (if c = d then str_greater s t else (of_char d :: nat) < of_char c)"

fun ToNumber :: "jsval \<Rightarrow> jsval" where
  "ToNumber Undefined = NaN"
| "ToNumber (Num q) = Num q"
| "ToNumber NaN = NaN"
| "ToNumber Infinity = Infinity"
| "ToNumber NegInfinity = NegInfinity"

fun number_greater :: "jsval \<Rightarrow> jsval \<Rightarrow> bool" where
  "number_greater (Num a) (Num b) = (b < a)"
| "number_greater (Num a) NegInfinity = True"
| "number_greater Infinity (Num b) = True"
| "number_greater Infinity NegInfinity = True"
| "number_greater a b = False"

fun js_greater :: "jsval \<Rightarrow> jsval \<Rightarrow> bool" where
  "js_greater (Str a) (Str b) = str_greater a b"
| "js_greater a b = number_greater (ToNumber a) (ToNumber b)"

definition Utils_compare :: "jsval \<Rightarrow> jsval \<Rightarrow> int" where
  "Utils_compare a b = (if js_strict_equals a b then 0 else if js_greater a b then 1 else - 1)"

fun SortContext_compare :: "((jsval \<Rightarrow> jsval) \<times> bool) list \<Rightarrow> jsval list \<Rightarrow> nat \<Rightarrow> nat \<Rightarrow> int" where
  "SortContext_compare [] buffer index1 index2 =
     Utils_compare (Num (of_nat index1)) (Num (of_nat index2))"
| "SortContext_compare ((keySelector, descending) # child) buffer index1 index2 =
     (let comparison =
            (if descending
             then Utils_compare (keySelector (buffer ! index2)) (keySelector (buffer ! index1))
             else Utils_compare (keySelector (buffer ! index1)) (keySelector (buffer ! index2)))
      in if comparison \<noteq> 0 then comparison
         else SortContext_compare child buffer index1 index2)"

text \<open>\<open>Array.prototype.sort(compare)\<close>, as sorting by insertion. With a comparison
  that is a total order, which \<open>SortContext.compare\<close> is when the keys of each
  context are comparable (all numbers other than \<open>NaN\<close>, all strings, or all
  \<open>undefined\<close>) because it ends on the positions, every sorting algorithm returns the
  same array. With keys that are not, the comparison is no order and the array
  JavaScript returns depends on its sorting algorithm; nothing is stated for them.\<close>

fun sort_insert :: "('a \<Rightarrow> 'a \<Rightarrow> int) \<Rightarrow> 'a \<Rightarrow> 'a list \<Rightarrow> 'a list" where
  "sort_insert compare x [] = [x]"
| "sort_insert compare x (y # ys) =
     (if compare x y \<le> 0 then x # y # ys else y # sort_insert compare x ys)"

definition Array_sort :: "('a \<Rightarrow> 'a \<Rightarrow> int) \<Rightarrow> 'a list \<Rightarrow> 'a list" where
  "Array_sort compare xs = foldr (sort_insert compare) xs []"

datatype Enumerable =
    Enumerable "jsval list"
  | OrderedEnumerable "jsval list" "((jsval \<Rightarrow> jsval) \<times> bool) list"

fun E_toArray :: "Enumerable \<Rightarrow> jsval list" where
  "E_toArray (Enumerable xs) = xs"
| "E_toArray (OrderedEnumerable buffer contexts) =
     map (\<lambda>i. buffer ! i) (Array_sort (SortContext_compare contexts buffer) [0..<length buffer])"

definition E_orderBy :: "Enumerable \<Rightarrow> (jsval \<Rightarrow> jsval) \<Rightarrow> bool \<Rightarrow> Enumerable" where
  "E_orderBy source keySelector descending =
     OrderedEnumerable (E_toArray source) [(keySelector, descending)]"

fun E_thenBy :: "Enumerable \<Rightarrow> (jsval \<Rightarrow> jsval) \<Rightarrow> bool \<Rightarrow> error + Enumerable" where
  "E_thenBy (OrderedEnumerable buffer contexts) keySelector descending =
     Inr (OrderedEnumerable buffer (contexts @ [(keySelector, descending)]))"
| "E_thenBy (Enumerable xs) keySelector descending = Inl TypeError"

text \<open>\<open>unsorted[sortMethod](keySelector)\<close>: the method is looked up by name.\<close>

definition E_invoke :: "Enumerable \<Rightarrow> string \<Rightarrow> (jsval \<Rightarrow> jsval) \<Rightarrow> error + Enumerable" where
  "E_invoke unsorted sortMethod keySelector =
     (if sortMethod = ''orderBy'' then Inr (E_orderBy unsorted keySelector False)
      else if sortMethod = ''orderByDescending'' then Inr (E_orderBy unsorted keySelector True)
      else if sortMethod = ''thenBy'' then E_thenBy unsorted keySelector False
      else if sortMethod = ''thenByDescending'' then E_thenBy unsorted keySelector True
      else Inl TypeError)"

section \<open>The order-by engine (src/dataframe.js, src/series.js)\<close>

record orderCmd =
  sortSelector :: "jsval \<Rightarrow> jsval"
  sortMethod :: string

definition validateSortMethod :: "string \<Rightarrow> error + unit" where
  "validateSortMethod method =
     (if method = ''orderBy'' \<or> method = ''orderByDescending''
         \<or> method = ''thenBy'' \<or> method = ''thenByDescending''
      then Inr () else Inl AssertionError)"

text \<open>\<open>[index].concat(values)\<close>: an array argument is spread, anything else is
  appended.\<close>

fun js_concat :: "jsval list \<Rightarrow> jsval \<Rightarrow> jsval list" where
  "js_concat xs (Arr ys) = xs @ ys"
| "js_concat xs v = xs @ [v]"

text \<open>The fold \<open>E.from(batch).aggregate(E.from(valuesWithIndex), ...)\<close>; a throw in one
  step ends it.\<close>

definition apply_batch ::
  "(orderCmd \<Rightarrow> jsval \<Rightarrow> jsval) \<Rightarrow> orderCmd list \<Rightarrow> jsval list \<Rightarrow> error + Enumerable" where
  "apply_batch keyOf batch valuesWithIndex =
     E_aggregate batch (Inr (Enumerable valuesWithIndex))
       (\<lambda>unsorted orderCmd.
          case unsorted of
            Inl e \<Rightarrow> Inl e
          | Inr u \<Rightarrow> E_invoke u (sortMethod orderCmd) (keyOf orderCmd))"

text \<open>\<open>executeLazySort\<close> of a DataFrame: check the batch, pair each label with its
  row as \<open>[index].concat(values)\<close>, apply the batch, realize. The key of a tuple is
  the command's selector on the tuple's row (the tuple without its first element)
  mapped by column names.\<close>

definition DataFrame_executeLazySort :: "DataFrame \<Rightarrow> orderCmd list \<Rightarrow> error + jsval list" where
  "DataFrame_executeLazySort self batch =
     (if list_ex (\<lambda>orderCmd. isl (validateSortMethod (sortMethod orderCmd))) batch
      then Inl AssertionError
      else
        let valuesWithIndex =
              E_zip (Index_toValues (DataFrame_getIndex self)) (DataFrame_toValues self)
                (\<lambda>index values. Arr (js_concat [index] values))
        in case apply_batch
                  (\<lambda>orderCmd row.
                     sortSelector orderCmd (mapRowByColumns self (Arr (drop 1 (E_from row)))))
                  batch valuesWithIndex of
             Inl e \<Rightarrow> Inl e
           | Inr ordered \<Rightarrow> Inr (E_toArray ordered))"

text \<open>\<open>executeOrderBy\<close> asserts a non-empty batch and returns a DataFrame whose two
  producers run \<open>executeLazySort\<close> when first asked for a cursor (the result is cached).
  What the call itself does is \<open>executeOrderBy_call\<close>; \<open>executeOrderBy\<close> is the
  returned frame with its producers run, \<open>Inl\<close> when the sort throws.\<close>

definition executeOrderBy_call :: "orderCmd list \<Rightarrow> error + unit" where
  "executeOrderBy_call batch = (if length batch > 0 then Inr () else Inl AssertionError)"

definition DataFrame_executeOrderBy :: "DataFrame \<Rightarrow> orderCmd list \<Rightarrow> error + DataFrame" where
  "DataFrame_executeOrderBy self batch =
     (case DataFrame_executeLazySort self batch of
        Inl e \<Rightarrow> Inl e
      | Inr cachedSorted \<Rightarrow>
          Inr (DataFrame_with (DataFrame_getColumnNames self)
                 (array_cursor (map (\<lambda>row. Arr (drop 1 (E_from row))) cachedSorted))
                 (Index_of (array_cursor (map (\<lambda>row. js_at row 0) cachedSorted)))))"

text \<open>A sorted DataFrame is the frame of \<open>executeOrderBy\<close> with \<open>thenBy\<close> and
  \<open>thenByDescending\<close> attached; the three close over \<open>self\<close> and the batch, which is
  what the record keeps.\<close>

record SortedDataFrame =
  sorted_self :: DataFrame
  sorted_batch :: "orderCmd list"

definition SortedDataFrame_frame :: "SortedDataFrame \<Rightarrow> error + DataFrame" where
  "SortedDataFrame_frame sortedDataFrame =
     DataFrame_executeOrderBy (sorted_self sortedDataFrame) (sorted_batch sortedDataFrame)"

text \<open>The argument of the sort calls of a DataFrame: a function, or any other
  value.\<close>

datatype columnSelector =
    SelectorFunction "jsval \<Rightarrow> jsval"
  | SelectorValue jsval

text \<open>Sugar's \<open>Object.isNumber\<close> and chai's \<open>assert.isString\<close>.\<close>

fun isNumber :: "jsval \<Rightarrow> bool" where
  "isNumber (Num q) = True"
| "isNumber NaN = True"
| "isNumber Infinity = True"
| "isNumber NegInfinity = True"
| "isNumber v = False"

fun isString :: "jsval \<Rightarrow> bool" where
  "isString (Str s) = True"
| "isString v = False"

text \<open>\<open>x >= 0 && x < columnNames.length\<close> for a number \<open>x\<close>: every comparison with
  \<open>NaN\<close> is false.\<close>

fun index_in_range :: "jsval \<Rightarrow> nat \<Rightarrow> bool" where
  "index_in_range (Num q) n = (q \<ge> 0 \<and> q < of_nat n)"
| "index_in_range NaN n = False"
| "index_in_range Infinity n = False"
| "index_in_range NegInfinity n = False"

text \<open>\<open>columnNames[x]\<close> for a number \<open>x\<close>: the element at \<open>x\<close> when \<open>x\<close> is a
  position of the array, \<open>undefined\<close> for every other number. \<open>row[columnName]\<close>
  reads the property named by the string \<open>columnName\<close>, and the property named
  \<open>undefined\<close> when \<open>columnName\<close> is \<open>undefined\<close>.\<close>

fun names_at :: "string list \<Rightarrow> jsval \<Rightarrow> jsval" where
  "names_at columnNames (Num q) =
     (if q = of_int \<lfloor>q\<rfloor> \<and> q \<ge> 0 \<and> nat \<lfloor>q\<rfloor> < length columnNames
      then Str (columnNames ! nat \<lfloor>q\<rfloor>)
      else Undefined)"
| "names_at columnNames NaN = Undefined"
| "names_at columnNames Infinity = Undefined"
| "names_at columnNames NegInfinity = Undefined"

fun property_name :: "jsval \<Rightarrow> string" where
  "property_name (Str s) = s"
| "property_name Undefined = ''undefined''"

text \<open>\<open>processColumnSelector\<close>: a function is returned as it is; a number must
  satisfy \<open>x >= 0 && x < columnNames.length\<close> and selects the property named by
  \<open>columnNames[x]\<close>; anything else must be a string and selects the column of that
  name.\<close>

fun processColumnSelector :: "DataFrame \<Rightarrow> columnSelector \<Rightarrow> error + (jsval \<Rightarrow> jsval)" where
  "processColumnSelector self (SelectorFunction f) = Inr f"
| "processColumnSelector self (SelectorValue v) =
     (if isNumber v
      then let columnNames = DataFrame_getColumnNames self
           in if index_in_range v (length columnNames)
              then Inr (\<lambda>row. js_get row (property_name (names_at columnNames v)))
              else Inl AssertionError
      else if isString v
      then Inr (\<lambda>row. js_get row (property_name v))
      else Inl AssertionError)"

text \<open>\<open>orderBy(self, sortMethod, sortSelector)\<close> of dataframe.js; its selector comes
  out of \<open>processColumnSelector\<close> and is a function. The two \<open>orderThenBy\<close> calls that
  build the attached closures assert a non-empty batch and a valid method name.\<close>

definition DataFrame_orderBy_helper ::
  "DataFrame \<Rightarrow> string \<Rightarrow> (jsval \<Rightarrow> jsval) \<Rightarrow> error + SortedDataFrame" where
  "DataFrame_orderBy_helper self method selector =
     (case validateSortMethod method of
        Inl e \<Rightarrow> Inl e
      | Inr _ \<Rightarrow>
          let batchOrder = [\<lparr>sortSelector = selector, sortMethod = method\<rparr>]
          in case executeOrderBy_call batchOrder of
               Inl e \<Rightarrow> Inl e
             | Inr _ \<Rightarrow> Inr \<lparr>sorted_self = self, sorted_batch = batchOrder\<rparr>)"

definition DataFrame_orderBy :: "DataFrame \<Rightarrow> columnSelector \<Rightarrow> error + SortedDataFrame" where
  "DataFrame_orderBy self columnNameOrIndexOrSelector =
     (case processColumnSelector self columnNameOrIndexOrSelector of
        Inl e \<Rightarrow> Inl e
      | Inr selector \<Rightarrow> DataFrame_orderBy_helper self ''orderBy'' selector)"

definition DataFrame_orderByDescending :: "DataFrame \<Rightarrow> columnSelector \<Rightarrow> error + SortedDataFrame" where
  "DataFrame_orderByDescending self columnNameOrIndexOrSelector =
     (case processColumnSelector self columnNameOrIndexOrSelector of
        Inl e \<Rightarrow> Inl e
      | Inr selector \<Rightarrow> DataFrame_orderBy_helper self ''orderByDescending'' selector)"

text \<open>The function \<open>orderThenBy(self, batch, nextSortMethod)\<close> returns, applied to its
  argument: the batch is extended by \<open>concat\<close> into a new array.\<close>

definition DataFrame_orderThenBy ::
  "DataFrame \<Rightarrow> orderCmd list \<Rightarrow> string \<Rightarrow> columnSelector \<Rightarrow> error + SortedDataFrame" where
  "DataFrame_orderThenBy self batch nextSortMethod columnNameOrIndexOrSelector =
     (case processColumnSelector self columnNameOrIndexOrSelector of
        Inl e \<Rightarrow> Inl e
      | Inr selector \<Rightarrow>
          let extendedBatch = batch @ [\<lparr>sortSelector = selector, sortMethod = nextSortMethod\<rparr>]
          in case executeOrderBy_call extendedBatch of
               Inl e \<Rightarrow> Inl e
             | Inr _ \<Rightarrow> Inr \<lparr>sorted_self = self, sorted_batch = extendedBatch\<rparr>)"

definition SortedDataFrame_thenBy :: "SortedDataFrame \<Rightarrow> columnSelector \<Rightarrow> error + SortedDataFrame" where
  "SortedDataFrame_thenBy sortedDataFrame columnNameOrIndexOrSelector =
     DataFrame_orderThenBy (sorted_self sortedDataFrame) (sorted_batch sortedDataFrame) ''thenBy''
       columnNameOrIndexOrSelector"

definition SortedDataFrame_thenByDescending ::
  "SortedDataFrame \<Rightarrow> columnSelector \<Rightarrow> error + SortedDataFrame" where
  "SortedDataFrame_thenByDescending sortedDataFrame columnNameOrIndexOrSelector =
     DataFrame_orderThenBy (sorted_self sortedDataFrame) (sorted_batch sortedDataFrame)
       ''thenByDescending''
       columnNameOrIndexOrSelector"

text \<open>The same engine in series.js. The tuples are \<open>[index, value]\<close>, the key of a
  tuple is the command's selector on \<open>row[1]\<close>, and a selector must be a function.\<close>

definition Series_executeLazySort :: "Series \<Rightarrow> orderCmd list \<Rightarrow> error + jsval list" where
  "Series_executeLazySort self batch =
     (if list_ex (\<lambda>orderCmd. isl (validateSortMethod (sortMethod orderCmd))) batch
      then Inl AssertionError
      else
        let valuesWithIndex =
              E_zip (Index_toValues (Series_getIndex self)) (Series_toValues self)
                (\<lambda>index value. Arr [index, value])
        in case apply_batch (\<lambda>orderCmd row. sortSelector orderCmd (js_at row 1))
                  batch valuesWithIndex of
             Inl e \<Rightarrow> Inl e
           | Inr ordered \<Rightarrow> Inr (E_toArray ordered))"

definition Series_executeOrderBy :: "Series \<Rightarrow> orderCmd list \<Rightarrow> error + Series" where
  "Series_executeOrderBy self batch =
     (case Series_executeLazySort self batch of
        Inl e \<Rightarrow> Inl e
      | Inr cachedSorted \<Rightarrow>
          Inr (Series_of
                 (array_cursor (map (\<lambda>row. js_at row 1) cachedSorted))
                 (Index_of (array_cursor (map (\<lambda>row. js_at row 0) cachedSorted)))))"

record SortedSeries =
  sorted_series :: Series
  sorted_series_batch :: "orderCmd list"

definition SortedSeries_series :: "SortedSeries \<Rightarrow> error + Series" where
  "SortedSeries_series sortedSeries =
     Series_executeOrderBy (sorted_series sortedSeries) (sorted_series_batch sortedSeries)"

text \<open>An argument that should be a selector function.\<close>

datatype selectorArg = IsFunction "jsval \<Rightarrow> jsval" | NotFunction jsval

fun Series_orderBy_helper :: "Series \<Rightarrow> string \<Rightarrow> selectorArg \<Rightarrow> error + SortedSeries" where
  "Series_orderBy_helper self method (IsFunction selector) =
     (case validateSortMethod method of
        Inl e \<Rightarrow> Inl e
      | Inr _ \<Rightarrow>
          let batchOrder = [\<lparr>sortSelector = selector, sortMethod = method\<rparr>]
          in case executeOrderBy_call batchOrder of
               Inl e \<Rightarrow> Inl e
             | Inr _ \<Rightarrow> Inr \<lparr>sorted_series = self, sorted_series_batch = batchOrder\<rparr>)"
| "Series_orderBy_helper self method (NotFunction v) =
     (case validateSortMethod method of
        Inl e \<Rightarrow> Inl e
      | Inr _ \<Rightarrow> Inl AssertionError)"

definition Series_orderBy :: "Series \<Rightarrow> selectorArg \<Rightarrow> error + SortedSeries" where
  "Series_orderBy self sortSelectorArg = Series_orderBy_helper self ''orderBy'' sortSelectorArg"

definition Series_orderByDescending :: "Series \<Rightarrow> selectorArg \<Rightarrow> error + SortedSeries" where
  "Series_orderByDescending self sortSelectorArg =
     Series_orderBy_helper self ''orderByDescending'' sortSelectorArg"

fun Series_orderThenBy ::
  "Series \<Rightarrow> orderCmd list \<Rightarrow> string \<Rightarrow> selectorArg \<Rightarrow> error + SortedSeries" where
  "Series_orderThenBy self batch nextSortMethod (IsFunction selector) =
     (let extendedBatch = batch @ [\<lparr>sortSelector = selector, sortMethod = nextSortMethod\<rparr>]
      in case executeOrderBy_call extendedBatch of
           Inl e \<Rightarrow> Inl e
         | Inr _ \<Rightarrow> Inr \<lparr>sorted_series = self, sorted_series_batch = extendedBatch\<rparr>)"
| "Series_orderThenBy self batch nextSortMethod (NotFunction v) = Inl AssertionError"

definition SortedSeries_thenBy :: "SortedSeries \<Rightarrow> selectorArg \<Rightarrow> error + SortedSeries" where
  "SortedSeries_thenBy sortedSeries sortSelectorArg =
     Series_orderThenBy (sorted_series sortedSeries) (sorted_series_batch sortedSeries)
       ''thenBy'' sortSelectorArg"

definition SortedSeries_thenByDescending :: "SortedSeries \<Rightarrow> selectorArg \<Rightarrow> error + SortedSeries" where
  "SortedSeries_thenByDescending sortedSeries sortSelectorArg =
     Series_orderThenBy (sorted_series sortedSeries) (sorted_series_batch sortedSeries)
       ''thenByDescending'' sortSelectorArg"

section \<open>What the claims about ordering speak of\<close>

text \<open>A column specifier as the claim about the arguments describes a valid one: a
  function, a string, or an in-range column index, that is a whole number that is the
  position of a column.\<close>

fun valid_columnSelector :: "DataFrame \<Rightarrow> columnSelector \<Rightarrow> bool" where
  "valid_columnSelector df (SelectorFunction f) = True"
| "valid_columnSelector df (SelectorValue (Str s)) = True"
| "valid_columnSelector df (SelectorValue (Num q)) =
     (q = of_int \<lfloor>q\<rfloor> \<and> 0 \<le> q \<and> q < of_nat (length (DataFrame_getColumnNames df)))"
| "valid_columnSelector df (SelectorValue v) = False"

text \<open>The column specifiers the calls accept: a function, a string, or a number from
  zero up to, and not including, the number of columns, whole or not.\<close>

fun accepted_columnSelector :: "DataFrame \<Rightarrow> columnSelector \<Rightarrow> bool" where
  "accepted_columnSelector df (SelectorFunction f) = True"
| "accepted_columnSelector df (SelectorValue (Str s)) = True"
| "accepted_columnSelector df (SelectorValue (Num q)) =
     (0 \<le> q \<and> q < of_nat (length (DataFrame_getColumnNames df)))"
| "accepted_columnSelector df (SelectorValue v) = False"

text \<open>A batch as the calls build it: one \<open>orderBy\<close> or \<open>orderByDescending\<close>, then
  any number of \<open>thenBy\<close> and \<open>thenByDescending\<close>.\<close>

fun order_chain :: "orderCmd list \<Rightarrow> bool" where
  "order_chain [] = False"
| "order_chain (first # later) =
     ((sortMethod first = ''orderBy'' \<or> sortMethod first = ''orderByDescending'')
      \<and> list_all (\<lambda>c. sortMethod c = ''thenBy'' \<or> sortMethod c = ''thenByDescending'') later)"

definition descending_method :: "string \<Rightarrow> bool" where
  "descending_method method =
     (method = ''orderByDescending'' \<or> method = ''thenByDescending'')"

fun is_Arr :: "jsval \<Rightarrow> bool" where
  "is_Arr (Arr xs) = True"
| "is_Arr v = False"

text \<open>A chain of sort calls on a DataFrame: \<open>orderBy\<close> or \<open>orderByDescending\<close>, then
  \<open>thenBy\<close> and \<open>thenByDescending\<close> calls, each on the result of the call before. A
  call is the pair of its direction (descending or not) and its argument.\<close>

type_synonym sortCall = "bool \<times> columnSelector"

definition first_call :: "DataFrame \<Rightarrow> sortCall \<Rightarrow> error + SortedDataFrame" where
  "first_call df call =
     (if fst call then DataFrame_orderByDescending df (snd call)
      else DataFrame_orderBy df (snd call))"

definition next_call :: "error + SortedDataFrame \<Rightarrow> sortCall \<Rightarrow> error + SortedDataFrame" where
  "next_call result call =
     (case result of
        Inl e \<Rightarrow> Inl e
      | Inr sortedDataFrame \<Rightarrow>
          if fst call then SortedDataFrame_thenByDescending sortedDataFrame (snd call)
          else SortedDataFrame_thenBy sortedDataFrame (snd call))"

definition sort_calls :: "DataFrame \<Rightarrow> sortCall \<Rightarrow> sortCall list \<Rightarrow> error + SortedDataFrame" where
  "sort_calls df first later = foldl next_call (first_call df first) later"

text \<open>The key an accepted column specifier stands for, as a function of the row
  mapped by column names: the function itself, the field of the name, the field named
  as the column at the position; a number that is not whole is the position of no
  column and stands for the field named \<open>undefined\<close>.\<close>

fun key_of :: "DataFrame \<Rightarrow> columnSelector \<Rightarrow> jsval \<Rightarrow> jsval" where
  "key_of df (SelectorFunction f) row = f row"
| "key_of df (SelectorValue (Str name)) row = js_get row name"
| "key_of df (SelectorValue (Num q)) row =
     (if q = of_int \<lfloor>q\<rfloor> then js_get row (DataFrame_getColumnNames df ! nat \<lfloor>q\<rfloor>)
      else js_get row ''undefined'')"

text \<open>The composite key of a row under a chain of calls: for each call in the order
  chained, its direction and the key of the row mapped by column names.\<close>

definition composite_key :: "DataFrame \<Rightarrow> sortCall list \<Rightarrow> jsval \<Rightarrow> (bool \<times> jsval) list" where
  "composite_key df calls row =
     map (\<lambda>(descending, c). (descending, key_of df c (mapRowByColumns df row))) calls"

text \<open>Keys that can be ordered: numbers other than \<open>NaN\<close>, by their value with the
  infinities at the ends; strings, by their character codes, the first difference
  deciding and a proper prefix being the smaller. The keys of a column are comparable
  when all are such numbers, or all are strings, or all are \<open>undefined\<close> (which are
  equal keys).\<close>

fun is_ordered_number :: "jsval \<Rightarrow> bool" where
  "is_ordered_number (Num q) = True"
| "is_ordered_number Infinity = True"
| "is_ordered_number NegInfinity = True"
| "is_ordered_number v = False"

definition comparable :: "jsval list \<Rightarrow> bool" where
  "comparable keys =
     (list_all is_ordered_number keys \<or> list_all isString keys
      \<or> list_all (\<lambda>key. key = Undefined) keys)"

text \<open>Two keys of one comparable column.\<close>

definition comparable_pair :: "jsval \<Rightarrow> jsval \<Rightarrow> bool" where
  "comparable_pair a b =
     ((is_ordered_number a \<and> is_ordered_number b) \<or> (isString a \<and> isString b)
      \<or> (a = Undefined \<and> b = Undefined))"

fun key_less :: "jsval \<Rightarrow> jsval \<Rightarrow> bool" where
  "key_less (Num a) (Num b) = (a < b)"
| "key_less (Num a) Infinity = True"
| "key_less NegInfinity (Num b) = True"
| "key_less NegInfinity Infinity = True"
| "key_less (Str s) (Str t) = ((map of_char s :: nat list) < map of_char t)"
| "key_less a b = False"

text \<open>The order of composite keys: the first component on which two keys differ
  decides, by the order of keys for an ascending call and by its converse for a
  descending one.\<close>

fun composite_less :: "(bool \<times> jsval) list \<Rightarrow> (bool \<times> jsval) list \<Rightarrow> bool" where
  "composite_less ((descending, a) # as) ((descending', b) # bs) =
     (if a = b then composite_less as bs
      else if descending then key_less b a else key_less a b)"
| "composite_less as bs = False"

text \<open>The batch a chain of accepted calls builds.\<close>

definition batch_of :: "DataFrame \<Rightarrow> sortCall \<Rightarrow> sortCall list \<Rightarrow> orderCmd list" where
  "batch_of df first later =
     \<lparr>sortSelector = key_of df (snd first),
      sortMethod = (if fst first then ''orderByDescending'' else ''orderBy'')\<rparr>
     # map (\<lambda>call. \<lparr>sortSelector = key_of df (snd call),
                      sortMethod = (if fst call then ''thenByDescending'' else ''thenBy'')\<rparr>) later"

section \<open>The operators over an explicit store\<close>

text \<open>
  Everything above gives a producer by the cursor it returns. The functions modelled
  here write to existing objects in four places, all of them caches: \<open>getColumnNames\<close> replaces a
  function in \<open>_columnNames\<close> by its result, and the closure variables
  \<open>cachedSorted\<close> (\<open>executeOrderBy\<close>), \<open>cachedFilteredIndexAndValues\<close>
  (\<open>Series.where\<close>) and \<open>newIndexAndNewValues\<close> with \<open>newValues\<close>
  (\<open>Series.selectMany\<close>) are filled on first use. Every other write goes to an object
  or array the writing function has just created. For the claim about what an operator
  leaves unchanged, this part gives the same operators with those writes explicit: a
  store holds the cache cells and the allocation counter, an object carries its
  identity, and a producer is a computation over the store.
\<close>

datatype cell =
    ColumnNames "string list"
  | CachedSorted "jsval list"
  | CachedFiltered "(jsval \<times> jsval) list"
  | Expanded "(jsval \<times> jsval list) list" "jsval list"

record store =
  next_id :: nat
  cells :: "nat \<rightharpoonup> cell"

abbreviation return :: "'a \<Rightarrow> (store, 'a) state" where
  "return \<equiv> State_Monad.return"

text \<open>A new object or closure variable takes the next identity.\<close>

definition alloc :: "(store, nat) state" where
  "alloc = State (\<lambda>s. (next_id s, s\<lparr>next_id := Suc (next_id s)\<rparr>))"

definition read_cell :: "nat \<Rightarrow> (store, cell option) state" where
  "read_cell a = State (\<lambda>s. (cells s a, s))"

definition write_cell :: "nat \<Rightarrow> cell \<Rightarrow> (store, unit) state" where
  "write_cell a c = State (\<lambda>s. ((), s\<lparr>cells := (cells s)(a \<mapsto> c)\<rparr>))"

text \<open>The pattern \<open>if (cached) return cached; cached = compute(); return cached;\<close>.\<close>

definition cached :: "nat \<Rightarrow> (store, cell) state \<Rightarrow> (store, cell) state" where
  "cached a compute =
     do {
       c \<leftarrow> read_cell a;
       case c of
         Some v \<Rightarrow> return v
       | None \<Rightarrow> do { v \<leftarrow> compute; write_cell a v; return v }
     }"

subsection \<open>Index\<close>

text \<open>Modelled from the spec: Index, as above, with its identity and its producer as a
  computation. \<open>reverse\<close> and \<open>bake\<close> realize at the call.\<close>

record IndexS =
  index_id :: nat
  index_iterable :: "(store, ArrayIterator) state"

definition new_Index :: "(store, ArrayIterator) state \<Rightarrow> (store, IndexS) state" where
  "new_Index iterable = do { i \<leftarrow> alloc; return \<lparr>index_id = i, index_iterable = iterable\<rparr> }"

definition Index_getIterator_st :: "IndexS \<Rightarrow> (store, ArrayIterator) state" where
  "Index_getIterator_st self = index_iterable self"

definition Index_toValues_st :: "IndexS \<Rightarrow> (store, jsval list) state" where
  "Index_toValues_st self =
     do { iterator \<leftarrow> Index_getIterator_st self;
          return (fst (collect_loop getCurrent iterator [])) }"

definition Index_skip_st :: "IndexS \<Rightarrow> int \<Rightarrow> (store, IndexS) state" where
  "Index_skip_st self numRows =
     new_Index (do { iterator \<leftarrow> Index_getIterator_st self;
                     return (SkipIterator iterator numRows) })"

definition Index_take_st :: "IndexS \<Rightarrow> int \<Rightarrow> (store, IndexS) state" where
  "Index_take_st self numRows =
     new_Index (do { iterator \<leftarrow> Index_getIterator_st self;
                     return (TakeIterator iterator numRows) })"

definition Index_reverse_st :: "IndexS \<Rightarrow> (store, IndexS) state" where
  "Index_reverse_st self =
     do { vs \<leftarrow> Index_toValues_st self; new_Index (return (array_cursor (rev vs))) }"

definition Index_bake_st :: "IndexS \<Rightarrow> (store, IndexS) state" where
  "Index_bake_st self =
     do { vs \<leftarrow> Index_toValues_st self; new_Index (return (array_cursor vs)) }"

subsection \<open>Series\<close>

record SeriesS =
  series_id :: nat
  series_iterable :: "(store, ArrayIterator) state"
  series_index :: IndexS

text \<open>\<open>new Series({ values: ..., index: ix })\<close>.\<close>

definition new_Series_st :: "(store, ArrayIterator) state \<Rightarrow> IndexS \<Rightarrow> (store, SeriesS) state" where
  "new_Series_st iterable ix =
     do { i \<leftarrow> alloc;
          return \<lparr>series_id = i, series_iterable = iterable, series_index = ix\<rparr> }"

text \<open>\<open>new Series({ values: array })\<close>: the Series exists when its constructor makes the
  Index, whose producer counts a fresh cursor of the values.\<close>

definition Series_of_values_st :: "jsval list \<Rightarrow> (store, SeriesS) state" where
  "Series_of_values_st vs =
     do { i \<leftarrow> alloc;
          ix \<leftarrow> new_Index
            (do { iterator \<leftarrow> return (array_cursor vs);
                  return (array_cursor (map (\<lambda>k. Num (of_nat k)) [0..<count_loop iterator 0])) });
          return \<lparr>series_id = i, series_iterable = return (array_cursor vs), series_index = ix\<rparr> }"

definition Series_getIterator_st :: "SeriesS \<Rightarrow> (store, ArrayIterator) state" where
  "Series_getIterator_st self = series_iterable self"

definition Series_getIndex_st :: "SeriesS \<Rightarrow> IndexS" where
  "Series_getIndex_st self = series_index self"

definition Series_toValues_st :: "SeriesS \<Rightarrow> (store, jsval list) state" where
  "Series_toValues_st self =
     do { iterator \<leftarrow> Series_getIterator_st self;
          return (fst (collect_loop getCurrent iterator [])) }"

text \<open>In each operator the configuration object is built first, so the new Index is
  created before the new Series.\<close>

definition Series_skip_st :: "SeriesS \<Rightarrow> int \<Rightarrow> (store, SeriesS) state" where
  "Series_skip_st self numRows =
     do { ix \<leftarrow> Index_skip_st (Series_getIndex_st self) numRows;
          new_Series_st
            (do { iterator \<leftarrow> Series_getIterator_st self;
                  return (SkipIterator iterator numRows) })
            ix }"

definition Series_take_st :: "SeriesS \<Rightarrow> int \<Rightarrow> (store, SeriesS) state" where
  "Series_take_st self numRows =
     do { ix \<leftarrow> Index_take_st (Series_getIndex_st self) numRows;
          new_Series_st
            (do { iterator \<leftarrow> Series_getIterator_st self;
                  return (TakeIterator iterator numRows) })
            ix }"

text \<open>The MultiIterator over a fresh index cursor and a fresh value cursor that the
  index producers of \<open>skipWhile\<close> and \<open>takeWhile\<close> build.\<close>

definition Series_multiIterator :: "SeriesS \<Rightarrow> (store, ArrayIterator) state" where
  "Series_multiIterator self =
     do { indexIterator \<leftarrow> Index_getIterator_st (Series_getIndex_st self);
          valueIterator \<leftarrow> Series_getIterator_st self;
          return (MultiIterator [indexIterator, valueIterator]) }"

definition Series_skipWhile_st :: "SeriesS \<Rightarrow> (jsval \<Rightarrow> bool) \<Rightarrow> (store, SeriesS) state" where
  "Series_skipWhile_st self predicate =
     do { ix \<leftarrow> new_Index
            (do { multiIterator \<leftarrow> Series_multiIterator self;
                  return (SelectIterator
                            (SkipWhileIterator multiIterator (\<lambda>pair. predicate (js_at pair 1)))
                            (\<lambda>pair. js_at pair 0)) });
          new_Series_st
            (do { iterator \<leftarrow> Series_getIterator_st self;
                  return (SkipWhileIterator iterator predicate) })
            ix }"

definition Series_takeWhile_st :: "SeriesS \<Rightarrow> (jsval \<Rightarrow> bool) \<Rightarrow> (store, SeriesS) state" where
  "Series_takeWhile_st self predicate =
     do { ix \<leftarrow> new_Index
            (do { multiIterator \<leftarrow> Series_multiIterator self;
                  return (SelectIterator
                            (TakeWhileIterator multiIterator (\<lambda>pair. predicate (js_at pair 1)))
                            (\<lambda>pair. js_at pair 0)) });
          new_Series_st
            (do { iterator \<leftarrow> Series_getIterator_st self;
                  return (TakeWhileIterator iterator predicate) })
            ix }"

text \<open>\<open>where\<close>: the closure variable \<open>cachedFilteredIndexAndValues\<close> is created at
  the call and filled by the first run of \<open>executeLazyWhere\<close>.\<close>

definition Series_executeLazyWhere_st ::
  "SeriesS \<Rightarrow> (jsval \<Rightarrow> bool) \<Rightarrow> nat \<Rightarrow> (store, (jsval \<times> jsval) list) state" where
  "Series_executeLazyWhere_st self filterSelectorPredicate cachedFilteredIndexAndValues =
     do { c \<leftarrow> cached cachedFilteredIndexAndValues
            (do { indexValues \<leftarrow> Index_toValues_st (Series_getIndex_st self);
                  vs \<leftarrow> Series_toValues_st self;
                  return (CachedFiltered
                    (filter (\<lambda>data. filterSelectorPredicate (snd data))
                       (E_zip indexValues vs Pair))) });
          return (case c of CachedFiltered pairs \<Rightarrow> pairs | _ \<Rightarrow> []) }"

definition Series_where_st :: "SeriesS \<Rightarrow> (jsval \<Rightarrow> bool) \<Rightarrow> (store, SeriesS) state" where
  "Series_where_st self filterSelectorPredicate =
     do { cachedFilteredIndexAndValues \<leftarrow> alloc;
          ix \<leftarrow> new_Index
            (do { pairs \<leftarrow> Series_executeLazyWhere_st self filterSelectorPredicate
                             cachedFilteredIndexAndValues;
                  return (array_cursor (map fst pairs)) });
          new_Series_st
            (do { pairs \<leftarrow> Series_executeLazyWhere_st self filterSelectorPredicate
                             cachedFilteredIndexAndValues;
                  return (array_cursor (map snd pairs)) })
            ix }"

definition Series_select_st :: "SeriesS \<Rightarrow> (jsval \<Rightarrow> jsval) \<Rightarrow> (store, SeriesS) state" where
  "Series_select_st self selector =
     new_Series_st
       (do { iterator \<leftarrow> Series_getIterator_st self;
             return (SelectIterator iterator selector) })
       (Series_getIndex_st self)"

text \<open>\<open>selectMany\<close>: \<open>lazyEvaluate\<close> assigns \<open>newIndexAndNewValues\<close> and \<open>newValues\<close>
  together, guarded by the first; the two variables are one cell.\<close>

definition Series_lazyEvaluate_st ::
  "SeriesS \<Rightarrow> (jsval \<Rightarrow> jsval list) \<Rightarrow> nat
   \<Rightarrow> (store, (jsval \<times> jsval list) list \<times> jsval list) state" where
  "Series_lazyEvaluate_st self selector newIndexAndNewValues =
     do { c \<leftarrow> cached newIndexAndNewValues
            (do { indexValues \<leftarrow> Index_toValues_st (Series_getIndex_st self);
                  vs \<leftarrow> Series_toValues_st self;
                  let pairs = E_zip indexValues vs (\<lambda>index value. (index, selector value));
                  return (Expanded pairs (concat (map snd pairs))) });
          return (case c of Expanded pairs newValues \<Rightarrow> (pairs, newValues) | _ \<Rightarrow> ([], [])) }"

definition Series_selectMany_st :: "SeriesS \<Rightarrow> (jsval \<Rightarrow> jsval list) \<Rightarrow> (store, SeriesS) state" where
  "Series_selectMany_st self selector =
     do { newIndexAndNewValues \<leftarrow> alloc;
          ix \<leftarrow> new_Index
            (do { (pairs, newValues) \<leftarrow> Series_lazyEvaluate_st self selector newIndexAndNewValues;
                  return (array_cursor
                    (concat (map (\<lambda>data. map (\<lambda>_. fst data) [0..<length (snd data)]) pairs))) });
          new_Series_st
            (do { (pairs, newValues) \<leftarrow> Series_lazyEvaluate_st self selector newIndexAndNewValues;
                  return (array_cursor newValues) })
            ix }"

definition Series_bake_st :: "SeriesS \<Rightarrow> (store, SeriesS) state" where
  "Series_bake_st self =
     do { vs \<leftarrow> Series_toValues_st self;
          ix \<leftarrow> Index_bake_st (Series_getIndex_st self);
          new_Series_st (return (array_cursor vs)) ix }"

definition Series_reverse_st :: "SeriesS \<Rightarrow> (store, SeriesS) state" where
  "Series_reverse_st self =
     do { vs \<leftarrow> Series_toValues_st self;
          ix \<leftarrow> Index_reverse_st (Series_getIndex_st self);
          new_Series_st (return (array_cursor (rev vs))) ix }"

text \<open>The sorted Series. \<open>executeOrderBy\<close> creates the closure variable
  \<open>cachedSorted\<close>, a new Index and a new Series whose producers run
  \<open>executeLazySort\<close>; \<open>orderBy\<close> and \<open>orderThenBy\<close> attach \<open>thenBy\<close> and
  \<open>thenByDescending\<close>, which close over the source and the batch. Since the sort may
  throw, the sorted object is kept as what those closures hold, and its realizations
  return an error or the sequence.\<close>

record SortedSeriesS =
  sorted_id :: nat
  sorted_index_id :: nat
  sorted_source :: SeriesS
  sorted_cmds :: "orderCmd list"
  sorted_cache :: nat

definition Series_executeLazySort_st :: "SortedSeriesS \<Rightarrow> (store, error + jsval list) state" where
  "Series_executeLazySort_st sortedSeries =
     do { c \<leftarrow> read_cell (sorted_cache sortedSeries);
          case c of
            Some (CachedSorted cachedSorted) \<Rightarrow> return (Inr cachedSorted)
          | _ \<Rightarrow>
              if list_ex (\<lambda>orderCmd. isl (validateSortMethod (sortMethod orderCmd)))
                   (sorted_cmds sortedSeries)
              then return (Inl AssertionError)
              else do {
                indexValues \<leftarrow> Index_toValues_st (Series_getIndex_st (sorted_source sortedSeries));
                vs \<leftarrow> Series_toValues_st (sorted_source sortedSeries);
                let valuesWithIndex = E_zip indexValues vs (\<lambda>index value. Arr [index, value]);
                case apply_batch (\<lambda>orderCmd row. sortSelector orderCmd (js_at row 1))
                       (sorted_cmds sortedSeries) valuesWithIndex of
                  Inl e \<Rightarrow> return (Inl e)
                | Inr ordered \<Rightarrow>
                    do { write_cell (sorted_cache sortedSeries) (CachedSorted (E_toArray ordered));
                         return (Inr (E_toArray ordered)) }
              } }"

definition SortedSeries_toValues_st :: "SortedSeriesS \<Rightarrow> (store, error + jsval list) state" where
  "SortedSeries_toValues_st sortedSeries =
     do { r \<leftarrow> Series_executeLazySort_st sortedSeries;
          return (case r of Inl e \<Rightarrow> Inl e
                  | Inr cachedSorted \<Rightarrow> Inr (map (\<lambda>row. js_at row 1) cachedSorted)) }"

definition SortedSeries_index_toValues_st :: "SortedSeriesS \<Rightarrow> (store, error + jsval list) state" where
  "SortedSeries_index_toValues_st sortedSeries =
     do { r \<leftarrow> Series_executeLazySort_st sortedSeries;
          return (case r of Inl e \<Rightarrow> Inl e
                  | Inr cachedSorted \<Rightarrow> Inr (map (\<lambda>row. js_at row 0) cachedSorted)) }"

definition Series_executeOrderBy_st ::
  "SeriesS \<Rightarrow> orderCmd list \<Rightarrow> (store, error + SortedSeriesS) state" where
  "Series_executeOrderBy_st self batch =
     (case executeOrderBy_call batch of
        Inl e \<Rightarrow> return (Inl e)
      | Inr _ \<Rightarrow>
          do { cachedSorted \<leftarrow> alloc;
               ix \<leftarrow> alloc;
               i \<leftarrow> alloc;
               return (Inr \<lparr>sorted_id = i, sorted_index_id = ix, sorted_source = self,
                             sorted_cmds = batch, sorted_cache = cachedSorted\<rparr>) })"

fun Series_orderBy_helper_st ::
  "SeriesS \<Rightarrow> string \<Rightarrow> selectorArg \<Rightarrow> (store, error + SortedSeriesS) state" where
  "Series_orderBy_helper_st self method (IsFunction selector) =
     (case validateSortMethod method of
        Inl e \<Rightarrow> return (Inl e)
      | Inr _ \<Rightarrow> Series_executeOrderBy_st self [\<lparr>sortSelector = selector, sortMethod = method\<rparr>])"
| "Series_orderBy_helper_st self method (NotFunction v) =
     (case validateSortMethod method of
        Inl e \<Rightarrow> return (Inl e)
      | Inr _ \<Rightarrow> return (Inl AssertionError))"

definition Series_orderBy_st :: "SeriesS \<Rightarrow> selectorArg \<Rightarrow> (store, error + SortedSeriesS) state" where
  "Series_orderBy_st self sortSelectorArg =
     Series_orderBy_helper_st self ''orderBy'' sortSelectorArg"

definition Series_orderByDescending_st ::
  "SeriesS \<Rightarrow> selectorArg \<Rightarrow> (store, error + SortedSeriesS) state" where
  "Series_orderByDescending_st self sortSelectorArg =
     Series_orderBy_helper_st self ''orderByDescending'' sortSelectorArg"

fun Series_orderThenBy_st ::
  "SeriesS \<Rightarrow> orderCmd list \<Rightarrow> string \<Rightarrow> selectorArg \<Rightarrow> (store, error + SortedSeriesS) state" where
  "Series_orderThenBy_st self batch nextSortMethod (IsFunction selector) =
     Series_executeOrderBy_st self
       (batch @ [\<lparr>sortSelector = selector, sortMethod = nextSortMethod\<rparr>])"
| "Series_orderThenBy_st self batch nextSortMethod (NotFunction v) = return (Inl AssertionError)"

definition SortedSeries_thenBy_st ::
  "SortedSeriesS \<Rightarrow> selectorArg \<Rightarrow> (store, error + SortedSeriesS) state" where
  "SortedSeries_thenBy_st sortedSeries sortSelectorArg =
     Series_orderThenBy_st (sorted_source sortedSeries) (sorted_cmds sortedSeries)
       ''thenBy'' sortSelectorArg"

definition SortedSeries_thenByDescending_st ::
  "SortedSeriesS \<Rightarrow> selectorArg \<Rightarrow> (store, error + SortedSeriesS) state" where
  "SortedSeries_thenByDescending_st sortedSeries sortSelectorArg =
     Series_orderThenBy_st (sorted_source sortedSeries) (sorted_cmds sortedSeries)
       ''thenByDescending'' sortSelectorArg"

subsection \<open>DataFrame\<close>

text \<open>\<open>_columnNames\<close> is an array or a function; the cell of the frame's identity
  holds the function's result once \<open>getColumnNames\<close> has stored it.\<close>

datatype names_field = NamesArray "string list" | NamesFunction "(store, string list) state"

record DataFrameS =
  frame_id :: nat
  frame_columnNames :: names_field
  frame_iterable :: "(store, ArrayIterator) state"

definition DataFrame_getColumnNames_st :: "DataFrameS \<Rightarrow> (store, string list) state" where
  "DataFrame_getColumnNames_st self =
     (case frame_columnNames self of
        NamesArray names \<Rightarrow> return names
      | NamesFunction f \<Rightarrow>
          do { c \<leftarrow> cached (frame_id self) (do { names \<leftarrow> f; return (ColumnNames names) });
               return (case c of ColumnNames names \<Rightarrow> names | _ \<Rightarrow> []) })"

definition DataFrame_getIterator_st :: "DataFrameS \<Rightarrow> (store, ArrayIterator) state" where
  "DataFrame_getIterator_st self = frame_iterable self"

definition DataFrame_toValues_st :: "DataFrameS \<Rightarrow> (store, jsval list) state" where
  "DataFrame_toValues_st self =
     do { iterator \<leftarrow> DataFrame_getIterator_st self;
          return (fst (collect_loop getCurrent iterator [])) }"

text \<open>\<open>getIndex\<close> makes a new Index at every call.\<close>

definition DataFrame_getIndex_st :: "DataFrameS \<Rightarrow> (store, IndexS) state" where
  "DataFrame_getIndex_st self =
     new_Index (do { iterator \<leftarrow> DataFrame_getIterator_st self;
                     return (array_cursor (fst (collect_loop getCurrentIndex iterator []))) })"

text \<open>\<open>mapRowByColumns(self, row)\<close> with given names.\<close>

definition mapRowWith :: "string list \<Rightarrow> jsval \<Rightarrow> jsval" where
  "mapRowWith names row = E_toObject (E_zip names (E_from row) Pair)"

text \<open>\<open>mapRowByColumns(self, row)\<close> calls \<open>self.getColumnNames()\<close> for every row it
  maps. In one run of a producer the first of these calls may evaluate lazy column
  names and each later call reads the stored array, so a producer makes the call once
  when the cursor it maps has a row, and not at all otherwise.\<close>

definition rowMapper_st :: "DataFrameS \<Rightarrow> ArrayIterator \<Rightarrow> (store, jsval \<Rightarrow> jsval) state" where
  "rowMapper_st self iterator =
     (if remaining iterator = [] then return (\<lambda>row. Undefined)
      else do { names \<leftarrow> DataFrame_getColumnNames_st self; return (mapRowWith names) })"

definition DataFrame_toObjects_st :: "DataFrameS \<Rightarrow> (store, jsval list) state" where
  "DataFrame_toObjects_st self =
     do { iterator \<leftarrow> DataFrame_getIterator_st self;
          mapRow \<leftarrow> rowMapper_st self iterator;
          return (map mapRow (fst (collect_loop getCurrent iterator []))) }"

text \<open>A producer in this part has a cursor or an array of names as its result, not an
  exception. Where a producer of the constructor throws, which is where it takes the
  keys of \<open>undefined\<close> or reads a property of it, its result is left unspecified:
  \<open>own_keys\<close> and \<open>js_get\<close> have no equation there. The exceptions of the
  constructor are those of \<open>DataFrame_of\<close> above.\<close>

definition determineColumnNames_st :: "ArrayIterator \<Rightarrow> string list" where
  "determineColumnNames_st rows =
     (let (ok, iterator) = moveNext rows
      in if \<not> ok then [] else own_keys (getCurrent iterator))"

definition row_by_names_st :: "string list \<Rightarrow> jsval \<Rightarrow> jsval" where
  "row_by_names_st columnNames row = Arr (map (\<lambda>columnName. js_get row columnName) columnNames)"

text \<open>The constructor. The column names of an array of objects are a function that
  the rows producer reads through \<open>self.getColumnNames()\<close>; a rows producer without
  names is run once for the names and once for the rows.\<close>

datatype rows_configS = RowsArrayS "jsval list" | RowsFnS "(store, ArrayIterator) state"

record DataFrameConfigS =
  cfgS_columnNames :: "names_field option"
  cfgS_rows :: "rows_configS option"
  cfgS_index :: "IndexS option"

definition names_of_config :: "DataFrameConfigS \<Rightarrow> names_field" where
  "names_of_config config =
     (case cfgS_columnNames config of
        Some names \<Rightarrow> names
      | None \<Rightarrow>
          (case cfgS_rows config of
             Some (RowsFnS producer) \<Rightarrow>
               NamesFunction (do { iterator \<leftarrow> producer; return (determineColumnNames_st iterator) })
           | Some (RowsArrayS rs) \<Rightarrow>
               if length rs > 0 then
                 if isObject (rs ! 0)
                 then NamesFunction (return (E_distinct (concat (map own_keys rs))))
                 else NamesArray (map string_of_nat [0..<E_range_count (js_get (rs ! 0) ''length'')])
               else NamesArray []
           | None \<Rightarrow> NamesArray []))"

definition rows_of_config :: "DataFrameS \<Rightarrow> DataFrameConfigS \<Rightarrow> (store, ArrayIterator) state" where
  "rows_of_config self config =
     (case cfgS_columnNames config of
        Some names \<Rightarrow>
          (case cfgS_rows config of
             Some (RowsFnS producer) \<Rightarrow> producer
           | Some (RowsArrayS rs) \<Rightarrow> return (array_cursor rs)
           | None \<Rightarrow> return (array_cursor []))
      | None \<Rightarrow>
          (case cfgS_rows config of
             Some (RowsFnS producer) \<Rightarrow>
               do { first \<leftarrow> producer;
                    iterator \<leftarrow> producer;
                    return (SelectIterator iterator (row_by_names_st (determineColumnNames_st first))) }
           | Some (RowsArrayS rs) \<Rightarrow>
               if length rs > 0 then
                 if isObject (rs ! 0)
                 then do { columnNames \<leftarrow> DataFrame_getColumnNames_st self;
                           return (SelectIterator (array_cursor rs) (row_by_names_st columnNames)) }
                 else return (array_cursor rs)
               else return (array_cursor [])
           | None \<Rightarrow> return (array_cursor [])))"

definition DataFrame_of_st :: "DataFrameConfigS \<Rightarrow> (store, DataFrameS) state" where
  "DataFrame_of_st config =
     do { i \<leftarrow> alloc;
          let unindexed = \<lparr>frame_id = i, frame_columnNames = names_of_config config,
                           frame_iterable = return (array_cursor [])\<rparr>;
          let rows = rows_of_config unindexed config;
          return (unindexed\<lparr>frame_iterable :=
            (case cfgS_index config of
               Some ix \<Rightarrow>
                 do { iterator \<leftarrow> rows;
                      indexIterator \<leftarrow> Index_getIterator_st ix;
                      return (ApplyIndexIterator iterator indexIterator) }
             | None \<Rightarrow> rows)\<rparr>) }"

definition new_DataFrame_st :: "DataFrameConfigS option \<Rightarrow> (store, error + DataFrameS) state" where
  "new_DataFrame_st config =
     (case config of
        Some cfg \<Rightarrow>
          if cfgS_columnNames cfg \<noteq> None \<and> cfgS_rows cfg = None then return (Inl Error)
          else do { self \<leftarrow> DataFrame_of_st cfg; return (Inr self) }
      | None \<Rightarrow>
          do { self \<leftarrow> DataFrame_of_st \<lparr>cfgS_columnNames = None, cfgS_rows = None, cfgS_index = None\<rparr>;
               return (Inr self) })"

text \<open>The cursor of (label, row) pairs that the index producers of \<open>skipWhile\<close>,
  \<open>takeWhile\<close>, \<open>where\<close> and \<open>selectMany\<close> build:
  \<open>new MultiIterator([self.getIndex().getIterator(), self.getIterator()])\<close>.\<close>

definition DataFrame_multiIterator :: "DataFrameS \<Rightarrow> (store, ArrayIterator) state" where
  "DataFrame_multiIterator self =
     do { ix \<leftarrow> DataFrame_getIndex_st self;
          indexIterator \<leftarrow> Index_getIterator_st ix;
          iterator \<leftarrow> DataFrame_getIterator_st self;
          return (MultiIterator [indexIterator, iterator]) }"

definition DataFrame_skip_st :: "DataFrameS \<Rightarrow> int \<Rightarrow> (store, DataFrameS) state" where
  "DataFrame_skip_st self numRows =
     do { names \<leftarrow> DataFrame_getColumnNames_st self;
          ix \<leftarrow> DataFrame_getIndex_st self;
          skipped \<leftarrow> Index_skip_st ix numRows;
          DataFrame_of_st
            \<lparr>cfgS_columnNames = Some (NamesArray names),
             cfgS_rows = Some (RowsFnS
               (do { iterator \<leftarrow> DataFrame_getIterator_st self;
                     return (SkipIterator iterator numRows) })),
             cfgS_index = Some skipped\<rparr> }"

definition DataFrame_take_st :: "DataFrameS \<Rightarrow> int \<Rightarrow> (store, DataFrameS) state" where
  "DataFrame_take_st self numRows =
     do { names \<leftarrow> DataFrame_getColumnNames_st self;
          ix \<leftarrow> DataFrame_getIndex_st self;
          taken \<leftarrow> Index_take_st ix numRows;
          DataFrame_of_st
            \<lparr>cfgS_columnNames = Some (NamesArray names),
             cfgS_rows = Some (RowsFnS
               (do { iterator \<leftarrow> DataFrame_getIterator_st self;
                     return (TakeIterator iterator numRows) })),
             cfgS_index = Some taken\<rparr> }"

definition DataFrame_skipWhile_st :: "DataFrameS \<Rightarrow> (jsval \<Rightarrow> bool) \<Rightarrow> (store, DataFrameS) state" where
  "DataFrame_skipWhile_st self predicate =
     do { names \<leftarrow> DataFrame_getColumnNames_st self;
          ix \<leftarrow> new_Index
            (do { multiIterator \<leftarrow> DataFrame_multiIterator self;
                  mapRow \<leftarrow> rowMapper_st self multiIterator;
                  return (SelectIterator
                    (SkipWhileIterator multiIterator (\<lambda>pair. predicate (mapRow (js_at pair 1))))
                    (\<lambda>pair. js_at pair 0)) });
          DataFrame_of_st
            \<lparr>cfgS_columnNames = Some (NamesArray names),
             cfgS_rows = Some (RowsFnS
               (do { iterator \<leftarrow> DataFrame_getIterator_st self;
                     mapRow \<leftarrow> rowMapper_st self iterator;
                     return (SkipWhileIterator iterator (\<lambda>row. predicate (mapRow row))) })),
             cfgS_index = Some ix\<rparr> }"

definition DataFrame_takeWhile_st :: "DataFrameS \<Rightarrow> (jsval \<Rightarrow> bool) \<Rightarrow> (store, DataFrameS) state" where
  "DataFrame_takeWhile_st self predicate =
     do { names \<leftarrow> DataFrame_getColumnNames_st self;
          ix \<leftarrow> new_Index
            (do { multiIterator \<leftarrow> DataFrame_multiIterator self;
                  mapRow \<leftarrow> rowMapper_st self multiIterator;
                  return (SelectIterator
                    (TakeWhileIterator multiIterator (\<lambda>pair. predicate (mapRow (js_at pair 1))))
                    (\<lambda>pair. js_at pair 0)) });
          DataFrame_of_st
            \<lparr>cfgS_columnNames = Some (NamesArray names),
             cfgS_rows = Some (RowsFnS
               (do { iterator \<leftarrow> DataFrame_getIterator_st self;
                     mapRow \<leftarrow> rowMapper_st self iterator;
                     return (TakeWhileIterator iterator (\<lambda>row. predicate (mapRow row))) })),
             cfgS_index = Some ix\<rparr> }"

text \<open>\<open>where\<close>: the cursor of the index producer is the object literal of the pure
  part, over the pairs of the MultiIterator.\<close>

definition DataFrame_where_st :: "DataFrameS \<Rightarrow> (jsval \<Rightarrow> bool) \<Rightarrow> (store, DataFrameS) state" where
  "DataFrame_where_st self filterSelectorPredicate =
     do { names \<leftarrow> DataFrame_getColumnNames_st self;
          ix \<leftarrow> new_Index
            (do { multiIterator \<leftarrow> DataFrame_multiIterator self;
                  mapRow \<leftarrow> rowMapper_st self multiIterator;
                  return (cursor_of
                    (map (\<lambda>(v, p). (js_at v 0, js_at p 0))
                       (filter (\<lambda>(v, p). filterSelectorPredicate (mapRow (js_at v 1)))
                          (remaining multiIterator)))) });
          DataFrame_of_st
            \<lparr>cfgS_columnNames = Some (NamesArray names),
             cfgS_rows = Some (RowsFnS
               (do { iterator \<leftarrow> DataFrame_getIterator_st self;
                     mapRow \<leftarrow> rowMapper_st self iterator;
                     return (WhereIterator iterator (\<lambda>row. filterSelectorPredicate (mapRow row))) })),
             cfgS_index = Some ix\<rparr> }"

text \<open>\<open>select\<close>: \<open>determineColumnNames\<close> is the new frame's \<open>_columnNames\<close>, and the
  rows producer calls it again, not through \<open>getColumnNames\<close>.\<close>

definition DataFrame_select_determineColumnNames_st ::
  "DataFrameS \<Rightarrow> (jsval \<Rightarrow> jsval) \<Rightarrow> (store, string list) state" where
  "DataFrame_select_determineColumnNames_st self selector =
     do { iterator \<leftarrow> DataFrame_getIterator_st self;
          let (ok, moved) = moveNext iterator;
          if \<not> ok then return []
          else do { mapRow \<leftarrow> rowMapper_st self iterator;
                    return (own_keys (selector (mapRow (getCurrent moved)))) } }"

definition DataFrame_select_st :: "DataFrameS \<Rightarrow> (jsval \<Rightarrow> jsval) \<Rightarrow> (store, DataFrameS) state" where
  "DataFrame_select_st self selector =
     do { ix \<leftarrow> DataFrame_getIndex_st self;
          DataFrame_of_st
            \<lparr>cfgS_columnNames =
               Some (NamesFunction (DataFrame_select_determineColumnNames_st self selector)),
             cfgS_rows = Some (RowsFnS
               (do { columnNames \<leftarrow> DataFrame_select_determineColumnNames_st self selector;
                     iterator \<leftarrow> DataFrame_getIterator_st self;
                     mapRow \<leftarrow> rowMapper_st self iterator;
                     return (SelectIterator iterator
                       (\<lambda>row. row_by_names_st columnNames (selector (mapRow row)))) })),
             cfgS_index = Some ix\<rparr> }"

definition DataFrame_selectMany_st ::
  "DataFrameS \<Rightarrow> (jsval \<Rightarrow> jsval list) \<Rightarrow> (store, DataFrameS) state" where
  "DataFrame_selectMany_st self selector =
     do { ix \<leftarrow> new_Index
            (do { multiIterator \<leftarrow> DataFrame_multiIterator self;
                  return (SelectIterator
                    (SelectManyIterator multiIterator
                       (\<lambda>pair. let newValues = selector (js_at pair 1)
                               in map (\<lambda>value. Arr [js_at pair 0, value]) newValues))
                    (\<lambda>pair. js_at pair 0)) });
          DataFrame_of_st
            \<lparr>cfgS_columnNames = None,
             cfgS_rows = Some (RowsFnS
               (do { iterator \<leftarrow> DataFrame_getIterator_st self;
                     mapRow \<leftarrow> rowMapper_st self iterator;
                     return (SelectManyIterator iterator (\<lambda>row. selector (mapRow row))) })),
             cfgS_index = Some ix\<rparr> }"

definition DataFrame_bake_st :: "DataFrameS \<Rightarrow> (store, DataFrameS) state" where
  "DataFrame_bake_st self =
     do { names \<leftarrow> DataFrame_getColumnNames_st self;
          rows \<leftarrow> DataFrame_toValues_st self;
          ix \<leftarrow> DataFrame_getIndex_st self;
          baked \<leftarrow> Index_bake_st ix;
          DataFrame_of_st
            \<lparr>cfgS_columnNames = Some (NamesArray names), cfgS_rows = Some (RowsArrayS rows),
             cfgS_index = Some baked\<rparr> }"

definition DataFrame_reverse_st :: "DataFrameS \<Rightarrow> (store, DataFrameS) state" where
  "DataFrame_reverse_st self =
     do { objects \<leftarrow> DataFrame_toObjects_st self;
          ix \<leftarrow> DataFrame_getIndex_st self;
          reversed \<leftarrow> Index_reverse_st ix;
          DataFrame_of_st
            \<lparr>cfgS_columnNames = None, cfgS_rows = Some (RowsArrayS (rev objects)),
             cfgS_index = Some reversed\<rparr> }"

text \<open>The sorted DataFrame, kept like the sorted Series: the identities of the frame
  and of its Index, the column names read at the call, and what the producers close
  over. The names for the keys are read when the keys are generated, after the rows
  have been listed.\<close>

record SortedDataFrameS =
  sortedf_id :: nat
  sortedf_index_id :: nat
  sortedf_columnNames :: "string list"
  sortedf_source :: DataFrameS
  sortedf_cmds :: "orderCmd list"
  sortedf_cache :: nat

definition DataFrame_executeLazySort_st :: "SortedDataFrameS \<Rightarrow> (store, error + jsval list) state" where
  "DataFrame_executeLazySort_st sortedDataFrame =
     do { c \<leftarrow> read_cell (sortedf_cache sortedDataFrame);
          case c of
            Some (CachedSorted cachedSorted) \<Rightarrow> return (Inr cachedSorted)
          | _ \<Rightarrow>
              if list_ex (\<lambda>orderCmd. isl (validateSortMethod (sortMethod orderCmd)))
                   (sortedf_cmds sortedDataFrame)
              then return (Inl AssertionError)
              else do {
                ix \<leftarrow> DataFrame_getIndex_st (sortedf_source sortedDataFrame);
                indexValues \<leftarrow> Index_toValues_st ix;
                vs \<leftarrow> DataFrame_toValues_st (sortedf_source sortedDataFrame);
                let valuesWithIndex =
                      E_zip indexValues vs (\<lambda>index values. Arr (js_concat [index] values));
                mapRow \<leftarrow> rowMapper_st (sortedf_source sortedDataFrame) (array_cursor valuesWithIndex);
                case apply_batch
                       (\<lambda>orderCmd row. sortSelector orderCmd (mapRow (Arr (drop 1 (E_from row)))))
                       (sortedf_cmds sortedDataFrame) valuesWithIndex of
                  Inl e \<Rightarrow> return (Inl e)
                | Inr ordered \<Rightarrow>
                    do { write_cell (sortedf_cache sortedDataFrame) (CachedSorted (E_toArray ordered));
                         return (Inr (E_toArray ordered)) }
              } }"

text \<open>The cursor of the sorted frame: \<open>new ApplyIndexIterator(oldRows(),
  index.getIterator())\<close>, both producers running \<open>executeLazySort\<close>.\<close>

definition SortedDataFrame_getIterator_st ::
  "SortedDataFrameS \<Rightarrow> (store, error + ArrayIterator) state" where
  "SortedDataFrame_getIterator_st sortedDataFrame =
     do { r \<leftarrow> DataFrame_executeLazySort_st sortedDataFrame;
          case r of
            Inl e \<Rightarrow> return (Inl e)
          | Inr forRows \<Rightarrow>
              do { r' \<leftarrow> DataFrame_executeLazySort_st sortedDataFrame;
                   case r' of
                     Inl e \<Rightarrow> return (Inl e)
                   | Inr forIndex \<Rightarrow>
                       return (Inr (ApplyIndexIterator
                         (array_cursor (map (\<lambda>row. Arr (drop 1 (E_from row))) forRows))
                         (array_cursor (map (\<lambda>row. js_at row 0) forIndex)))) } }"

definition SortedDataFrame_toValues_st :: "SortedDataFrameS \<Rightarrow> (store, error + jsval list) state" where
  "SortedDataFrame_toValues_st sortedDataFrame =
     do { r \<leftarrow> SortedDataFrame_getIterator_st sortedDataFrame;
          return (case r of Inl e \<Rightarrow> Inl e
                  | Inr iterator \<Rightarrow> Inr (fst (collect_loop getCurrent iterator []))) }"

text \<open>\<open>getIndex().toValues()\<close> of the sorted frame: a new Index whose producer lists
  the labels of the frame's cursor.\<close>

definition SortedDataFrame_index_toValues_st ::
  "SortedDataFrameS \<Rightarrow> (store, error + jsval list) state" where
  "SortedDataFrame_index_toValues_st sortedDataFrame =
     do { i \<leftarrow> alloc;
          r \<leftarrow> SortedDataFrame_getIterator_st sortedDataFrame;
          return (case r of Inl e \<Rightarrow> Inl e
                  | Inr iterator \<Rightarrow>
                      Inr (fst (collect_loop getCurrent
                        (array_cursor (fst (collect_loop getCurrentIndex iterator []))) []))) }"

definition SortedDataFrame_getColumnNames_st :: "SortedDataFrameS \<Rightarrow> string list" where
  "SortedDataFrame_getColumnNames_st sortedDataFrame = sortedf_columnNames sortedDataFrame"

definition DataFrame_executeOrderBy_st ::
  "DataFrameS \<Rightarrow> orderCmd list \<Rightarrow> (store, error + SortedDataFrameS) state" where
  "DataFrame_executeOrderBy_st self batch =
     (case executeOrderBy_call batch of
        Inl e \<Rightarrow> return (Inl e)
      | Inr _ \<Rightarrow>
          do { cachedSorted \<leftarrow> alloc;
               names \<leftarrow> DataFrame_getColumnNames_st self;
               ix \<leftarrow> alloc;
               i \<leftarrow> alloc;
               return (Inr \<lparr>sortedf_id = i, sortedf_index_id = ix, sortedf_columnNames = names,
                             sortedf_source = self, sortedf_cmds = batch,
                             sortedf_cache = cachedSorted\<rparr>) })"

fun processColumnSelector_st ::
  "DataFrameS \<Rightarrow> columnSelector \<Rightarrow> (store, error + (jsval \<Rightarrow> jsval)) state" where
  "processColumnSelector_st self (SelectorFunction f) = return (Inr f)"
| "processColumnSelector_st self (SelectorValue v) =
     (if isNumber v
      then do { columnNames \<leftarrow> DataFrame_getColumnNames_st self;
                return (if index_in_range v (length columnNames)
                        then Inr (\<lambda>row. js_get row (property_name (names_at columnNames v)))
                        else Inl AssertionError) }
      else return (if isString v
                   then Inr (\<lambda>row. js_get row (property_name v))
                   else Inl AssertionError))"

definition DataFrame_orderBy_helper_st ::
  "DataFrameS \<Rightarrow> string \<Rightarrow> (jsval \<Rightarrow> jsval) \<Rightarrow> (store, error + SortedDataFrameS) state" where
  "DataFrame_orderBy_helper_st self method selector =
     (case validateSortMethod method of
        Inl e \<Rightarrow> return (Inl e)
      | Inr _ \<Rightarrow>
          DataFrame_executeOrderBy_st self [\<lparr>sortSelector = selector, sortMethod = method\<rparr>])"

definition DataFrame_orderBy_st ::
  "DataFrameS \<Rightarrow> columnSelector \<Rightarrow> (store, error + SortedDataFrameS) state" where
  "DataFrame_orderBy_st self columnNameOrIndexOrSelector =
     do { r \<leftarrow> processColumnSelector_st self columnNameOrIndexOrSelector;
          case r of
            Inl e \<Rightarrow> return (Inl e)
          | Inr selector \<Rightarrow> DataFrame_orderBy_helper_st self ''orderBy'' selector }"

definition DataFrame_orderByDescending_st ::
  "DataFrameS \<Rightarrow> columnSelector \<Rightarrow> (store, error + SortedDataFrameS) state" where
  "DataFrame_orderByDescending_st self columnNameOrIndexOrSelector =
     do { r \<leftarrow> processColumnSelector_st self columnNameOrIndexOrSelector;
          case r of
            Inl e \<Rightarrow> return (Inl e)
          | Inr selector \<Rightarrow> DataFrame_orderBy_helper_st self ''orderByDescending'' selector }"

definition DataFrame_orderThenBy_st ::
  "DataFrameS \<Rightarrow> orderCmd list \<Rightarrow> string \<Rightarrow> columnSelector
   \<Rightarrow> (store, error + SortedDataFrameS) state" where
  "DataFrame_orderThenBy_st self batch nextSortMethod columnNameOrIndexOrSelector =
     do { r \<leftarrow> processColumnSelector_st self columnNameOrIndexOrSelector;
          case r of
            Inl e \<Rightarrow> return (Inl e)
          | Inr selector \<Rightarrow>
              DataFrame_executeOrderBy_st self
                (batch @ [\<lparr>sortSelector = selector, sortMethod = nextSortMethod\<rparr>]) }"

definition SortedDataFrame_thenBy_st ::
  "SortedDataFrameS \<Rightarrow> columnSelector \<Rightarrow> (store, error + SortedDataFrameS) state" where
  "SortedDataFrame_thenBy_st sortedDataFrame columnNameOrIndexOrSelector =
     DataFrame_orderThenBy_st (sortedf_source sortedDataFrame) (sortedf_cmds sortedDataFrame)
       ''thenBy'' columnNameOrIndexOrSelector"

definition SortedDataFrame_thenByDescending_st ::
  "SortedDataFrameS \<Rightarrow> columnSelector \<Rightarrow> (store, error + SortedDataFrameS) state" where
  "SortedDataFrame_thenByDescending_st sortedDataFrame columnNameOrIndexOrSelector =
     DataFrame_orderThenBy_st (sortedf_source sortedDataFrame) (sortedf_cmds sortedDataFrame)
       ''thenByDescending'' columnNameOrIndexOrSelector"

section \<open>What the claim about the original object speaks of\<close>

text \<open>What the caller can read of an object: \<open>toValues()\<close>, \<open>getIndex().toValues()\<close>
  and, for a frame, \<open>getColumnNames()\<close>.\<close>

definition observe_Series :: "SeriesS \<Rightarrow> (store, jsval list \<times> jsval list) state" where
  "observe_Series self =
     do { vs \<leftarrow> Series_toValues_st self;
          labels \<leftarrow> Index_toValues_st (Series_getIndex_st self);
          return (vs, labels) }"

definition observe_SortedSeries ::
  "SortedSeriesS \<Rightarrow> (store, (error + jsval list) \<times> (error + jsval list)) state" where
  "observe_SortedSeries sortedSeries =
     do { vs \<leftarrow> SortedSeries_toValues_st sortedSeries;
          labels \<leftarrow> SortedSeries_index_toValues_st sortedSeries;
          return (vs, labels) }"

definition observe_DataFrame ::
  "DataFrameS \<Rightarrow> (store, jsval list \<times> jsval list \<times> string list) state" where
  "observe_DataFrame self =
     do { vs \<leftarrow> DataFrame_toValues_st self;
          ix \<leftarrow> DataFrame_getIndex_st self;
          labels \<leftarrow> Index_toValues_st ix;
          names \<leftarrow> DataFrame_getColumnNames_st self;
          return (vs, labels, names) }"

definition observe_SortedDataFrame ::
  "SortedDataFrameS \<Rightarrow> (store, (error + jsval list) \<times> (error + jsval list) \<times> string list) state" where
  "observe_SortedDataFrame sortedDataFrame =
     do { vs \<leftarrow> SortedDataFrame_toValues_st sortedDataFrame;
          labels \<leftarrow> SortedDataFrame_index_toValues_st sortedDataFrame;
          return (vs, labels, SortedDataFrame_getColumnNames_st sortedDataFrame) }"

text \<open>A call that may have thrown returned no object to read.\<close>

fun if_returned :: "('d \<Rightarrow> (store, 'r) state) \<Rightarrow> error + 'd \<Rightarrow> (store, 'r option) state" where
  "if_returned use (Inl e) = return None"
| "if_returned use (Inr d) = do { r \<leftarrow> use d; return (Some r) }"

text \<open>The original is read, the operator is called, the original is read again, the
  object the operator returned is read (which runs its producers), and the original is
  read a third time. The returned object is not the original, and the three readings of
  the original are equal.\<close>

definition leaves_original ::
  "(store, 'o) state \<Rightarrow> nat \<Rightarrow> (store, 'd) state \<Rightarrow> ('d \<Rightarrow> nat option)
   \<Rightarrow> ('d \<Rightarrow> (store, 'r) state) \<Rightarrow> store \<Rightarrow> bool" where
  "leaves_original observe original call ident use s =
     (let (before, s0) = run_state observe s;
          (d, s1) = run_state call s0;
          (after_call, s2) = run_state observe s1;
          (r, s3) = run_state (use d) s2;
          (after_use, s4) = run_state observe s3
      in ident d \<noteq> Some original \<and> after_call = before \<and> after_use = before)"

text \<open>The identity of the object a call returned, if it returned one.\<close>

fun identity_of :: "('d \<Rightarrow> nat) \<Rightarrow> error + 'd \<Rightarrow> nat option" where
  "identity_of ident (Inl e) = None"
| "identity_of ident (Inr d) = Some (ident d)"

definition Series_frame :: "SeriesS \<Rightarrow> (store, SeriesS) state \<Rightarrow> store \<Rightarrow> bool" where
  "Series_frame self call s =
     leaves_original (observe_Series self) (series_id self) call
       (\<lambda>d. Some (series_id d)) observe_Series s"

definition Series_sort_frame ::
  "SeriesS \<Rightarrow> (store, error + SortedSeriesS) state \<Rightarrow> store \<Rightarrow> bool" where
  "Series_sort_frame self call s =
     leaves_original (observe_Series self) (series_id self) call
       (identity_of sorted_id) (if_returned observe_SortedSeries) s"

definition SortedSeries_frame ::
  "SortedSeriesS \<Rightarrow> (store, error + SortedSeriesS) state \<Rightarrow> store \<Rightarrow> bool" where
  "SortedSeries_frame sortedSeries call s =
     leaves_original (observe_SortedSeries sortedSeries) (sorted_id sortedSeries) call
       (identity_of sorted_id) (if_returned observe_SortedSeries) s"

definition DataFrame_frame :: "DataFrameS \<Rightarrow> (store, DataFrameS) state \<Rightarrow> store \<Rightarrow> bool" where
  "DataFrame_frame self call s =
     leaves_original (observe_DataFrame self) (frame_id self) call
       (\<lambda>d. Some (frame_id d)) observe_DataFrame s"

definition DataFrame_sort_frame ::
  "DataFrameS \<Rightarrow> (store, error + SortedDataFrameS) state \<Rightarrow> store \<Rightarrow> bool" where
  "DataFrame_sort_frame self call s =
     leaves_original (observe_DataFrame self) (frame_id self) call
       (identity_of sortedf_id) (if_returned observe_SortedDataFrame) s"

definition SortedDataFrame_frame_st ::
  "SortedDataFrameS \<Rightarrow> (store, error + SortedDataFrameS) state \<Rightarrow> store \<Rightarrow> bool" where
  "SortedDataFrame_frame_st sortedDataFrame call s =
     leaves_original (observe_SortedDataFrame sortedDataFrame) (sortedf_id sortedDataFrame) call
       (identity_of sortedf_id) (if_returned observe_SortedDataFrame) s"

text \<open>The objects the claim is about are those whose producers are functions of the
  data they were built from, reading and filling caches on the way. This is said with
  an assignment of the value each cache holds once it is filled: a store agrees with
  the assignment when every assigned cell is allocated and is empty or holds its
  value, and nothing beyond the allocation counter is written.\<close>

type_synonym fills = "nat \<rightharpoonup> cell"

definition agrees :: "fills \<Rightarrow> store \<Rightarrow> bool" where
  "agrees G s =
     ((\<forall>a c. G a = Some c \<longrightarrow> a < next_id s \<and> (cells s a = None \<or> cells s a = Some c))
      \<and> (\<forall>a. next_id s \<le> a \<longrightarrow> cells s a = None))"

text \<open>A computation that, from every agreeing store, returns a result satisfying
  \<open>Q\<close> and leaves an agreeing store, writing assigned cells only.\<close>

definition computes :: "fills \<Rightarrow> (store, 'a) state \<Rightarrow> ('a \<Rightarrow> bool) \<Rightarrow> bool" where
  "computes G m Q =
     (\<forall>s. agrees G s \<longrightarrow>
        (case run_state m s of
           (v, s') \<Rightarrow> Q v \<and> agrees G s' \<and> next_id s \<le> next_id s'
                      \<and> (\<forall>a. G a = None \<longrightarrow> cells s' a = cells s a)))"

definition returns :: "fills \<Rightarrow> (store, 'a) state \<Rightarrow> 'a \<Rightarrow> bool" where
  "returns G m v = computes G m (\<lambda>x. x = v)"

text \<open>A computation with one result, whatever the agreeing store it starts from.\<close>

definition determined :: "fills \<Rightarrow> (store, 'a) state \<Rightarrow> bool" where
  "determined G m = (\<exists>v. returns G m v)"

text \<open>An object is well formed when its producers are determined; lazy column names
  have their cache under the identity of the frame, a sorted object has the sorted
  tuples as the value of its cache and a batch that \<open>orderBy\<close> or \<open>orderByDescending\<close>
  began.\<close>

definition wf_Index :: "fills \<Rightarrow> IndexS \<Rightarrow> bool" where
  "wf_Index G ix = determined G (index_iterable ix)"

definition wf_Series :: "fills \<Rightarrow> SeriesS \<Rightarrow> bool" where
  "wf_Series G self =
     (determined G (series_iterable self) \<and> wf_Index G (series_index self))"

definition wf_DataFrame :: "fills \<Rightarrow> DataFrameS \<Rightarrow> bool" where
  "wf_DataFrame G self =
     (determined G (frame_iterable self)
      \<and> (case frame_columnNames self of
            NamesArray names \<Rightarrow> True
          | NamesFunction f \<Rightarrow>
              \<exists>names. G (frame_id self) = Some (ColumnNames names) \<and> returns G f names))"

text \<open>A configuration whose producers are determined.\<close>

definition wf_config :: "fills \<Rightarrow> DataFrameConfigS \<Rightarrow> bool" where
  "wf_config G config =
     ((case cfgS_columnNames config of
         Some (NamesFunction f) \<Rightarrow> determined G f
       | _ \<Rightarrow> True)
      \<and> (case cfgS_rows config of
            Some (RowsFnS producer) \<Rightarrow> determined G producer
          | _ \<Rightarrow> True)
      \<and> (case cfgS_index config of
            Some ix \<Rightarrow> wf_Index G ix
          | None \<Rightarrow> True))"

definition wf_SortedSeries :: "fills \<Rightarrow> SortedSeriesS \<Rightarrow> bool" where
  "wf_SortedSeries G sortedSeries =
     (wf_Series G (sorted_source sortedSeries) \<and> order_chain (sorted_cmds sortedSeries)
      \<and> (\<exists>rows. G (sorted_cache sortedSeries) = Some (CachedSorted rows)
                 \<and> returns G (Series_executeLazySort_st sortedSeries) (Inr rows)))"

definition wf_SortedDataFrame :: "fills \<Rightarrow> SortedDataFrameS \<Rightarrow> bool" where
  "wf_SortedDataFrame G sortedDataFrame =
     (wf_DataFrame G (sortedf_source sortedDataFrame) \<and> order_chain (sortedf_cmds sortedDataFrame)
      \<and> (\<exists>rows. G (sortedf_cache sortedDataFrame) = Some (CachedSorted rows)
                 \<and> returns G (DataFrame_executeLazySort_st sortedDataFrame) (Inr rows)))"

text \<open>A call that, from every agreeing store, returns an object with a new identity
  and leaves a store that agrees with an extension of the assignment under which the
  object satisfies \<open>Q\<close>.\<close>

definition creates ::
  "fills \<Rightarrow> (store, 'd) state \<Rightarrow> ('d \<Rightarrow> nat option) \<Rightarrow> (fills \<Rightarrow> 'd \<Rightarrow> bool) \<Rightarrow> bool" where
  "creates G m ident Q =
     (\<forall>s. agrees G s \<longrightarrow>
        (case run_state m s of
           (d, s') \<Rightarrow>
             next_id s \<le> next_id s'
             \<and> (\<forall>i. ident d = Some i \<longrightarrow> next_id s \<le> i \<and> i < next_id s')
             \<and> (\<exists>G'. G \<subseteq>\<^sub>m G' \<and> agrees G' s' \<and> Q G' d)))"

section \<open>Facts about ArrayIterator\<close>

lemma advance_fields:
  "arr (advance k it) = arr it \<and> index (advance k it) = index it
   \<and> rowIndex (advance k it) = rowIndex it + int k"
  by (induction k) (simp_all add: advance_def moveNext_def Let_def)

lemma collect_loop_eq:
  "- 1 \<le> rowIndex it \<Longrightarrow>
   fst (collect_loop f it out)
     = out @ map (\<lambda>k. f (it\<lparr>rowIndex := int k\<rparr>)) [nat (rowIndex it + 1)..<length (arr it)]"
proof (induction f it out rule: collect_loop.induct)
  case (1 f it out)
  let ?r = "rowIndex it + 1"
  show ?case
  proof (cases "?r < int (length (arr it))")
    case True
    let ?it' = "it\<lparr>rowIndex := ?r\<rparr>"
    have mv: "moveNext it = (True, ?it')"
      using True by (simp add: moveNext_def Let_def)
    have ih: "fst (collect_loop f ?it' (out @ [f ?it']))
              = (out @ [f ?it'])
                @ map (\<lambda>k. f (?it'\<lparr>rowIndex := int k\<rparr>)) [nat (?r + 1)..<length (arr it)]"
      using "1.IH"[of "(True, ?it')" True ?it'] mv "1.prems" by simp
    have step: "collect_loop f it out = collect_loop f ?it' (out @ [f ?it'])"
      by (subst collect_loop.simps) (simp add: mv)
    have nat_eq: "nat (?r + 1) = Suc (nat ?r)" "int (nat ?r) = ?r"
      using "1.prems" by simp_all
    have "[nat ?r..<length (arr it)] = nat ?r # [Suc (nat ?r)..<length (arr it)]"
      using True "1.prems" by (intro upt_conv_Cons) simp
    then show ?thesis
      using step ih nat_eq by simp
  next
    case False
    have mv: "moveNext it = (False, it\<lparr>rowIndex := ?r\<rparr>)"
      using False by (simp add: moveNext_def Let_def)
    have "collect_loop f it out = (out, it\<lparr>rowIndex := ?r\<rparr>)"
      by (subst collect_loop.simps) (simp add: mv)
    then show ?thesis
      using False by simp
  qed
qed

lemma collect_getCurrent:
  assumes "- 1 \<le> rowIndex it"
  shows "fst (collect_loop getCurrent it []) = drop (nat (rowIndex it + 1)) (arr it)"
proof -
  let ?n = "nat (rowIndex it + 1)"
  have "map (\<lambda>k. getCurrent (it\<lparr>rowIndex := int k\<rparr>)) [?n..<length (arr it)]
        = map (\<lambda>k. arr it ! k) [?n..<length (arr it)]"
    by (rule map_cong) (simp_all add: getCurrent_def)
  also have "\<dots> = drop ?n (map (\<lambda>k. arr it ! k) [0..<length (arr it)])"
    by (simp add: drop_map drop_upt)
  also have "\<dots> = drop ?n (arr it)"
    by (simp add: map_nth)
  finally show ?thesis
    using collect_loop_eq [OF assms, of getCurrent "[]"] by simp
qed

lemma collect_getCurrentIndex:
  assumes "- 1 \<le> rowIndex it"
  shows "fst (collect_loop getCurrentIndex it []) = drop (nat (rowIndex it + 1)) (positions it)"
proof -
  let ?n = "nat (rowIndex it + 1)"
  have "map (\<lambda>k. getCurrentIndex (it\<lparr>rowIndex := int k\<rparr>)) [?n..<length (arr it)]
        = map (\<lambda>k. positions it ! k) [?n..<length (arr it)]"
    by (rule map_cong) (simp_all add: getCurrentIndex_def positions_def split: option.splits)
  also have "\<dots> = drop ?n (map (\<lambda>k. positions it ! k) [0..<length (positions it)])"
    by (simp add: drop_map drop_upt positions_def split: option.splits)
  also have "\<dots> = drop ?n (positions it)"
    by (simp add: map_nth)
  finally show ?thesis
    using collect_loop_eq [OF assms, of getCurrentIndex "[]"] by simp
qed

lemma new_ArrayIterator_fields:
  "new_ArrayIterator a ix = Inr it \<Longrightarrow> arr it = a \<and> index it = ix \<and> rowIndex it = - 1"
  by (auto simp: new_ArrayIterator_def split: option.splits if_splits)

lemma new_ArrayIterator_length:
  "new_ArrayIterator a (Some ixs) = Inr it \<Longrightarrow> length ixs = length a"
  by (auto simp: new_ArrayIterator_def split: if_splits)


lemma advance_moveNext:
  "fst (moveNext (advance k it)) = (rowIndex it + int k + 1 < int (length (arr it)))"
  by (simp add: moveNext_def Let_def advance_fields)

lemma advance_getCurrent:
  "rowIndex it = - 1 \<Longrightarrow> k < length (arr it) \<Longrightarrow> getCurrent (advance (Suc k) it) = arr it ! k"
  by (simp add: getCurrent_def advance_fields)

lemma advance_getCurrentIndex:
  "rowIndex it = - 1 \<Longrightarrow> k < length (arr it) \<Longrightarrow>
   getCurrentIndex (advance (Suc k) it) =
     (case index it of Some ixs \<Rightarrow> js_nth ixs k | None \<Rightarrow> Num (of_nat k))"
  by (simp add: getCurrentIndex_def advance_fields split: option.splits)

text \<open>
  C3. For every array \<open>A\<close>, on the iterator constructed over \<open>A\<close> (with or without a
  position array): the call of \<open>moveNext\<close> after \<open>k\<close> earlier calls returns true exactly
  when \<open>k < length A\<close>, so it returns true \<open>length A\<close> times and false ever after; at
  the \<open>k\<close>-th valid position \<open>getCurrent\<close> is \<open>A[k]\<close> and \<open>getCurrentIndex\<close> is \<open>k\<close>, or
  the \<open>k\<close>-th element of the position array when one was supplied; \<open>realize\<close> on the
  fresh iterator returns \<open>A\<close>.
\<close>

theorem ArrayIterator_protocol:
  assumes "new_ArrayIterator A ix = Inr it"
  shows "(\<forall>k. fst (moveNext (advance k it)) = (k < length A))
       \<and> (\<forall>k<length A.
             getCurrent (advance (Suc k) it) = A ! k
           \<and> getCurrentIndex (advance (Suc k) it)
               = (case ix of None \<Rightarrow> Num (of_nat k) | Some ixs \<Rightarrow> ixs ! k))
       \<and> fst (realize it) = A"
proof -
  have f: "arr it = A" "index it = ix" "rowIndex it = - 1"
    using new_ArrayIterator_fields [OF assms] by simp_all
  have len: "\<And>ixs. ix = Some ixs \<Longrightarrow> length ixs = length A"
    using assms new_ArrayIterator_length by blast
  have mv: "\<forall>k. fst (moveNext (advance k it)) = (k < length A)"
    by (simp add: advance_moveNext f)
  have cur: "\<forall>k<length A. getCurrent (advance (Suc k) it) = A ! k"
    using advance_getCurrent [of it] f by simp
  have ci: "\<forall>k<length A. getCurrentIndex (advance (Suc k) it)
               = (case ix of None \<Rightarrow> Num (of_nat k) | Some ixs \<Rightarrow> ixs ! k)"
    using advance_getCurrentIndex [of it] f len
    by (auto simp: js_nth_def split: option.splits)
  have "fst (realize it) = A"
    using collect_getCurrent [of it] f by (simp add: realize_def)
  with mv cur ci show ?thesis by blast
qed

theorem ArrayIterator_protocol_witness:
  "new_ArrayIterator [Num 7, Num 8] (Some [Str ''a'', Str ''b''])
     = Inr \<lparr>arr = [Num 7, Num 8], index = Some [Str ''a'', Str ''b''], rowIndex = - 1\<rparr>
   \<and> fst (moveNext (advance 1 \<lparr>arr = [Num 7, Num 8], index = Some [Str ''a'', Str ''b''], rowIndex = - 1\<rparr>))
   \<and> \<not> fst (moveNext (advance 2 \<lparr>arr = [Num 7, Num 8], index = Some [Str ''a'', Str ''b''], rowIndex = - 1\<rparr>))
   \<and> getCurrent (advance (Suc 1) \<lparr>arr = [Num 7, Num 8], index = Some [Str ''a'', Str ''b''], rowIndex = - 1\<rparr>) = Num 8
   \<and> getCurrentIndex (advance (Suc 1) \<lparr>arr = [Num 7, Num 8], index = Some [Str ''a'', Str ''b''], rowIndex = - 1\<rparr>) = Str ''b''
   \<and> fst (realize \<lparr>arr = [Num 7, Num 8], index = Some [Str ''a'', Str ''b''], rowIndex = - 1\<rparr>) = [Num 7, Num 8]"
proof -
  have h: "new_ArrayIterator [Num 7, Num 8] (Some [Str ''a'', Str ''b''])
     = Inr \<lparr>arr = [Num 7, Num 8], index = Some [Str ''a'', Str ''b''], rowIndex = - 1\<rparr>"
    by (simp add: new_ArrayIterator_def)
  show ?thesis
    using h ArrayIterator_protocol [OF h] by simp
qed

text \<open>
  C9. Constructing an ArrayIterator with a value array and a position array raises
  exactly when the two lengths differ; with equal lengths the construction succeeds and
  \<open>getCurrentIndex\<close> at the \<open>k\<close>-th valid position is the \<open>k\<close>-th element of the
  position array.
\<close>

theorem ArrayIterator_position_array:
  "(isl (new_ArrayIterator A (Some ixs)) \<longleftrightarrow> length A \<noteq> length ixs)
   \<and> (length A = length ixs \<longrightarrow>
        (\<exists>it. new_ArrayIterator A (Some ixs) = Inr it
            \<and> (\<forall>k<length A. getCurrentIndex (advance (Suc k) it) = ixs ! k)))"
proof -
  have a: "isl (new_ArrayIterator A (Some ixs)) \<longleftrightarrow> length A \<noteq> length ixs"
    by (simp add: new_ArrayIterator_def)
  have b: "\<forall>k<length A. getCurrentIndex
              (advance (Suc k) \<lparr>arr = A, index = Some ixs, rowIndex = - 1\<rparr>) = ixs ! k"
    if "length A = length ixs"
    using that advance_getCurrentIndex [of "\<lparr>arr = A, index = Some ixs, rowIndex = - 1\<rparr>"]
    by (simp add: js_nth_def)
  show ?thesis
    using a b by (auto simp: new_ArrayIterator_def)
qed

theorem ArrayIterator_position_array_witness:
  "isl (new_ArrayIterator [Num 1] (Some []))
   \<and> (\<exists>it. new_ArrayIterator [Num 1, Num 2] (Some [Str ''x'', Str ''y'']) = Inr it
          \<and> getCurrentIndex (advance (Suc 0) it) = Str ''x''
          \<and> getCurrentIndex (advance (Suc 1) it) = Str ''y'')"
proof -
  have "isl (new_ArrayIterator [Num 1] (Some []))"
    using ArrayIterator_position_array [of "[Num 1]" "[]"] by simp
  moreover have "\<exists>it. new_ArrayIterator [Num 1, Num 2] (Some [Str ''x'', Str ''y'']) = Inr it
          \<and> getCurrentIndex (advance (Suc 0) it) = Str ''x''
          \<and> getCurrentIndex (advance (Suc 1) it) = Str ''y''"
    using ArrayIterator_position_array [of "[Num 1, Num 2]" "[Str ''x'', Str ''y'']"]
    by (auto simp: less_Suc_eq)
  ultimately show ?thesis by blast
qed

section \<open>Facts about the cursor representation\<close>

lemma positions_length [simp]: "length (positions it) = length (arr it)"
  by (simp add: positions_def split: option.splits)

lemma remaining_cursor_of [simp]: "remaining (cursor_of ps) = ps"
proof -
  have "map (js_nth (map snd ps)) [0..<length ps] = map snd ps"
    by (rule nth_equalityI) (simp_all add: js_nth_def)
  then show ?thesis
    by (simp add: remaining_def cursor_of_def positions_def zip_map_fst_snd)
qed

lemma remaining_array_cursor [simp]:
  "remaining (array_cursor xs) = zip xs (map (\<lambda>k. Num (of_nat k)) [0..<length xs])"
  by (simp add: remaining_def array_cursor_def positions_def)

lemma rowIndex_cursor_of [simp]: "rowIndex (cursor_of ps) = - 1"
  by (simp add: cursor_of_def)

lemma rowIndex_array_cursor [simp]: "rowIndex (array_cursor xs) = - 1"
  by (simp add: array_cursor_def)

lemma collect_values_remaining:
  "- 1 \<le> rowIndex it \<Longrightarrow> fst (collect_loop getCurrent it []) = map fst (remaining it)"
  by (simp add: collect_getCurrent remaining_def drop_map [symmetric])

lemma collect_positions_remaining:
  "- 1 \<le> rowIndex it \<Longrightarrow> fst (collect_loop getCurrentIndex it []) = map snd (remaining it)"
  by (simp add: collect_getCurrentIndex remaining_def drop_map [symmetric])

lemma collect_values_cursor_of [simp]:
  "fst (collect_loop getCurrent (cursor_of ps) []) = map fst ps"
  by (simp add: collect_values_remaining)

lemma collect_positions_cursor_of [simp]:
  "fst (collect_loop getCurrentIndex (cursor_of ps) []) = map snd ps"
  by (simp add: collect_positions_remaining)

lemma collect_values_array_cursor [simp]:
  "fst (collect_loop getCurrent (array_cursor xs) []) = xs"
  by (simp add: collect_values_remaining)

lemma collect_positions_array_cursor [simp]:
  "fst (collect_loop getCurrentIndex (array_cursor xs) []) = map (\<lambda>k. Num (of_nat k)) [0..<length xs]"
  by (simp add: collect_positions_remaining)

lemma moveNext_first:
  assumes "- 1 \<le> rowIndex it"
  shows "fst (moveNext it) \<longleftrightarrow> fst (collect_loop getCurrent it []) \<noteq> []"
  using assms by (auto simp: collect_getCurrent moveNext_def Let_def)

lemma getCurrent_first:
  assumes "- 1 \<le> rowIndex it" "fst (moveNext it)"
  shows "getCurrent (snd (moveNext it)) = hd (fst (collect_loop getCurrent it []))"
proof -
  have "nat (rowIndex it + 1) < length (arr it)"
    using assms by (auto simp: moveNext_def Let_def)
  then show ?thesis
    using assms by (simp add: collect_getCurrent moveNext_def Let_def getCurrent_def hd_drop_conv_nth)
qed

lemma last_loop_eq:
  "- 1 \<le> rowIndex it \<Longrightarrow>
   last_loop it lst = last (lst # drop (nat (rowIndex it + 1)) (arr it))"
proof (induction it lst rule: last_loop.induct)
  case (1 it lst)
  let ?r = "rowIndex it + 1"
  show ?case
  proof (cases "?r < int (length (arr it))")
    case True
    let ?it' = "it\<lparr>rowIndex := ?r\<rparr>"
    have mv: "moveNext it = (True, ?it')"
      using True by (simp add: moveNext_def Let_def)
    have cur: "getCurrent ?it' = arr it ! nat ?r"
      using True "1.prems" by (simp add: getCurrent_def)
    have ih: "last_loop ?it' (getCurrent ?it')
              = last (getCurrent ?it' # drop (nat (?r + 1)) (arr it))"
      using "1.IH"[of "(True, ?it')" True ?it'] mv "1.prems" by simp
    have step: "last_loop it lst = last_loop ?it' (getCurrent ?it')"
      by (subst last_loop.simps) (simp add: mv)
    have nat_eq: "nat (?r + 1) = Suc (nat ?r)"
      using "1.prems" by simp
    have "drop (nat ?r) (arr it) = arr it ! nat ?r # drop (Suc (nat ?r)) (arr it)"
      using True "1.prems" by (intro Cons_nth_drop_Suc [symmetric]) simp
    then show ?thesis
      using step ih cur nat_eq by simp
  next
    case False
    have mv: "moveNext it = (False, it\<lparr>rowIndex := ?r\<rparr>)"
      using False by (simp add: moveNext_def Let_def)
    have "last_loop it lst = lst"
      by (subst last_loop.simps) (simp add: mv)
    then show ?thesis
      using False by simp
  qed
qed

lemma last_after_first:
  assumes "- 1 \<le> rowIndex it" "fst (moveNext it)"
  shows "last_loop (snd (moveNext it)) (getCurrent (snd (moveNext it)))
         = last (fst (collect_loop getCurrent it []))"
proof -
  let ?n = "nat (rowIndex it + 1)"
  have lt: "?n < length (arr it)"
    using assms by (auto simp: moveNext_def Let_def)
  have d: "drop ?n (arr it) = arr it ! ?n # drop (Suc ?n) (arr it)"
    using lt by (simp add: Cons_nth_drop_Suc)
  have s: "snd (moveNext it) = it\<lparr>rowIndex := rowIndex it + 1\<rparr>"
    by (simp add: moveNext_def Let_def)
  have n: "nat (rowIndex it + 1 + 1) = Suc ?n"
    using assms by simp
  have lt': "rowIndex it + 1 < int (length (arr it))"
    using assms by (auto simp: moveNext_def Let_def)
  have c: "getCurrent (it\<lparr>rowIndex := rowIndex it + 1\<rparr>) = arr it ! ?n"
    using lt' assms by (simp add: getCurrent_def)
  have "last_loop (it\<lparr>rowIndex := rowIndex it + 1\<rparr>) (arr it ! ?n)
        = last (arr it ! ?n # drop (Suc ?n) (arr it))"
    using last_loop_eq [of "it\<lparr>rowIndex := rowIndex it + 1\<rparr>" "arr it ! ?n"] assms n by simp
  then show ?thesis
    using d s c assms by (simp add: collect_getCurrent)
qed

section \<open>first, last and aggregate on nothing\<close>

lemma Series_first_eq:
  assumes "- 1 \<le> rowIndex (Series_getIterator s)"
  shows "Series_first s =
           (if Series_toValues s = [] then Inl Error else Inr (hd (Series_toValues s)))"
  using moveNext_first [OF assms] getCurrent_first [OF assms]
  by (auto simp: Series_first_def Series_toValues_def split: prod.splits)

lemma Series_last_eq:
  assumes "- 1 \<le> rowIndex (Series_getIterator s)"
  shows "Series_last s =
           (if Series_toValues s = [] then Inl Error else Inr (last (Series_toValues s)))"
  using moveNext_first [OF assms] last_after_first [OF assms]
  by (auto simp: Series_last_def Series_toValues_def split: prod.splits)

lemma DataFrame_first_eq:
  assumes "- 1 \<le> rowIndex (DataFrame_getIterator df)"
  shows "DataFrame_first df =
           (if DataFrame_toValues df = [] then Inl Error
            else Inr (mapRowByColumns df (hd (DataFrame_toValues df))))"
  using moveNext_first [OF assms] getCurrent_first [OF assms]
  by (auto simp: DataFrame_first_def DataFrame_toValues_def split: prod.splits)

lemma DataFrame_last_eq:
  assumes "- 1 \<le> rowIndex (DataFrame_getIterator df)"
  shows "DataFrame_last df =
           (if DataFrame_toValues df = [] then Inl Error
            else Inr (mapRowByColumns df (last (DataFrame_toValues df))))"
  using moveNext_first [OF assms] last_after_first [OF assms]
  by (auto simp: DataFrame_last_def DataFrame_toValues_def split: prod.splits)

text \<open>
  C5. For a Series \<open>s\<close> and a DataFrame \<open>df\<close> whose cursors are in a state the
  constructor and \<open>moveNext\<close> can produce (counter at least \<open>-1\<close>): \<open>first\<close> and
  \<open>last\<close> raise exactly when the cursor yields no element; otherwise they return
  the first and the last value it yields, for a DataFrame mapped to the row object
  keyed by column name. \<open>aggregate\<close> with a function as its only argument raises on a
  series that yields nothing.
\<close>

theorem first_last_aggregate_empty:
  assumes "- 1 \<le> rowIndex (Series_getIterator s)"
      and "- 1 \<le> rowIndex (DataFrame_getIterator df)"
  shows "(isl (Series_first s) \<longleftrightarrow> Series_toValues s = [])
       \<and> (isl (Series_last s) \<longleftrightarrow> Series_toValues s = [])
       \<and> (isl (DataFrame_first df) \<longleftrightarrow> DataFrame_toValues df = [])
       \<and> (isl (DataFrame_last df) \<longleftrightarrow> DataFrame_toValues df = [])
       \<and> (Series_toValues s \<noteq> [] \<longrightarrow>
             Series_first s = Inr (hd (Series_toValues s))
           \<and> Series_last s = Inr (last (Series_toValues s)))
       \<and> (DataFrame_toValues df \<noteq> [] \<longrightarrow>
             DataFrame_first df = Inr (mapRowByColumns df (hd (DataFrame_toValues df)))
           \<and> DataFrame_last df = Inr (mapRowByColumns df (last (DataFrame_toValues df))))
       \<and> (Series_toValues s = [] \<longrightarrow> isl (Series_aggregate s (OnlySelector f)))"
proof -
  have agg: "isl (Series_aggregate s (OnlySelector f))" if "Series_toValues s = []"
    using that Series_first_eq [OF assms(1)] by (simp add: Let_def)
  show ?thesis
    using agg
    by (simp add: Series_first_eq [OF assms(1)] Series_last_eq [OF assms(1)]
                  DataFrame_first_eq [OF assms(2)] DataFrame_last_eq [OF assms(2)])
qed

theorem first_last_aggregate_empty_witness:
  "- 1 \<le> rowIndex (Series_getIterator (Series_of (array_cursor [Num 3, Num 4]) (Index_of_array [Num 0, Num 1])))
   \<and> - 1 \<le> rowIndex (DataFrame_getIterator \<lparr>df_columnNames = [''n''], df_iterable = array_cursor [Arr [Num 1], Arr [Num 2]]\<rparr>)
   \<and> Series_first (Series_of (array_cursor [Num 3, Num 4]) (Index_of_array [Num 0, Num 1])) = Inr (Num 3)
   \<and> Series_last (Series_of (array_cursor [Num 3, Num 4]) (Index_of_array [Num 0, Num 1])) = Inr (Num 4)
   \<and> DataFrame_first \<lparr>df_columnNames = [''n''], df_iterable = array_cursor [Arr [Num 1], Arr [Num 2]]\<rparr>
       = Inr (Obj [(''n'', Num 1)])
   \<and> DataFrame_last \<lparr>df_columnNames = [''n''], df_iterable = array_cursor [Arr [Num 1], Arr [Num 2]]\<rparr>
       = Inr (Obj [(''n'', Num 2)])
   \<and> isl (Series_first (Series_of (array_cursor []) (Index_of_array [])))
   \<and> isl (Series_last (Series_of (array_cursor []) (Index_of_array [])))
   \<and> isl (DataFrame_first \<lparr>df_columnNames = [], df_iterable = array_cursor []\<rparr>)
   \<and> isl (DataFrame_last \<lparr>df_columnNames = [], df_iterable = array_cursor []\<rparr>)
   \<and> isl (Series_aggregate (Series_of (array_cursor []) (Index_of_array []))
             (OnlySelector (\<lambda>prev value. prev)))"
proof -
  let ?s = "Series_of (array_cursor [Num 3, Num 4]) (Index_of_array [Num 0, Num 1])"
  let ?df = "\<lparr>df_columnNames = [''n''], df_iterable = array_cursor [Arr [Num 1], Arr [Num 2]]\<rparr>"
  let ?se = "Series_of (array_cursor []) (Index_of_array [])"
  let ?dfe = "\<lparr>df_columnNames = [], df_iterable = array_cursor []\<rparr>"
  have hs: "- 1 \<le> rowIndex (Series_getIterator ?s)" "- 1 \<le> rowIndex (Series_getIterator ?se)"
    by (simp_all add: Series_getIterator_def Series_of_def)
  have hd: "- 1 \<le> rowIndex (DataFrame_getIterator ?df)" "- 1 \<le> rowIndex (DataFrame_getIterator ?dfe)"
    by (simp_all add: DataFrame_getIterator_def)
  have vs: "Series_toValues ?s = [Num 3, Num 4]" "Series_toValues ?se = []"
    by (simp_all add: Series_toValues_def Series_getIterator_def Series_of_def)
  have vd: "DataFrame_toValues ?df = [Arr [Num 1], Arr [Num 2]]" "DataFrame_toValues ?dfe = []"
    by (simp_all add: DataFrame_toValues_def DataFrame_getIterator_def)
  have m: "mapRowByColumns ?df (Arr [Num 1]) = Obj [(''n'', Num 1)]"
          "mapRowByColumns ?df (Arr [Num 2]) = Obj [(''n'', Num 2)]"
    by (simp_all add: mapRowByColumns_def DataFrame_getColumnNames_def E_zip_def E_toObject_def)
  show ?thesis
    using first_last_aggregate_empty [OF hs(1) hd(1)]
          first_last_aggregate_empty [OF hs(2) hd(2), of "\<lambda>prev value. prev"]
          hs hd vs vd m
    by simp
qed

section \<open>Column lookup\<close>

lemma getColumnIndex_loop_miss:
  "\<forall>j. i \<le> j \<and> j < length names \<longrightarrow> names ! j \<noteq> name \<Longrightarrow>
   getColumnIndex_loop names name i = - 1"
proof (induction names name i rule: getColumnIndex_loop.induct)
  case (1 columnNames columnName i)
  show ?case
  proof (cases "i < length columnNames")
    case True
    with "1.prems" have ne: "columnName \<noteq> columnNames ! i" by auto
    have "getColumnIndex_loop columnNames columnName (i + 1) = - 1"
      using "1.IH" [OF True ne] "1.prems" by simp
    then show ?thesis
      using True ne by (subst getColumnIndex_loop.simps) simp
  next
    case False
    then show ?thesis by (subst getColumnIndex_loop.simps) simp
  qed
qed

lemma getColumnIndex_loop_hit:
  "i \<le> k \<Longrightarrow> k < length names \<Longrightarrow> names ! k = name \<Longrightarrow>
   \<forall>j. i \<le> j \<and> j < k \<longrightarrow> names ! j \<noteq> name \<Longrightarrow>
   getColumnIndex_loop names name i = int k"
proof (induction names name i rule: getColumnIndex_loop.induct)
  case (1 columnNames columnName i)
  have lt: "i < length columnNames" using "1.prems" by simp
  show ?case
  proof (cases "columnName = columnNames ! i")
    case True
    then have "k = i"
      using "1.prems" by (metis le_neq_implies_less order_refl)
    then show ?thesis
      using True lt by (subst getColumnIndex_loop.simps) simp
  next
    case False
    then have "i \<noteq> k" using "1.prems" by auto
    then have "i + 1 \<le> k" using "1.prems" by simp
    then have "getColumnIndex_loop columnNames columnName (i + 1) = int k"
      using "1.IH" [OF lt False] "1.prems" by simp
    then show ?thesis
      using False lt by (subst getColumnIndex_loop.simps) simp
  qed
qed

lemma first_position_exists:
  "name \<in> set names \<Longrightarrow>
   \<exists>k<length names. names ! k = name \<and> (\<forall>j<k. names ! j \<noteq> name)"
proof -
  assume "name \<in> set names"
  then have ex: "\<exists>k. k < length names \<and> names ! k = name"
    by (auto simp: in_set_conv_nth)
  define k where "k = (LEAST k. k < length names \<and> names ! k = name)"
  have "k < length names \<and> names ! k = name"
    unfolding k_def using ex by (rule LeastI_ex)
  moreover have "\<forall>j<k. names ! j \<noteq> name"
  proof (intro allI impI)
    fix j assume "j < k"
    then have "\<not> (j < length names \<and> names ! j = name)"
      unfolding k_def by (rule not_less_Least)
    moreover have "j < length names"
      using \<open>j < k\<close> \<open>k < length names \<and> names ! k = name\<close> by simp
    ultimately show "names ! j \<noteq> name" by simp
  qed
  ultimately show ?thesis by blast
qed

text \<open>
  C6. \<open>getColumnIndex(name)\<close> is a number in every case (the function has no failing
  branch for a string): \<open>-1\<close> when no column has the name, otherwise the position of
  the first column that has it. \<open>getSeries\<close> and \<open>expectSeries\<close> with a column name
  raise exactly when the lookup is negative; otherwise \<open>expectSeries\<close> returns the
  DataFrame itself.
\<close>

theorem getColumnIndex_and_callers:
  "(name \<notin> set (DataFrame_getColumnNames df) \<longrightarrow> DataFrame_getColumnIndex df name = - 1)
   \<and> (name \<in> set (DataFrame_getColumnNames df) \<longrightarrow>
        (\<exists>k<length (DataFrame_getColumnNames df).
            DataFrame_getColumnIndex df name = int k
          \<and> DataFrame_getColumnNames df ! k = name
          \<and> (\<forall>j<k. DataFrame_getColumnNames df ! j \<noteq> name)))
   \<and> (isl (DataFrame_getSeries df (ColumnName name)) \<longleftrightarrow> DataFrame_getColumnIndex df name < 0)
   \<and> (isl (DataFrame_expectSeries df (ColumnName name)) \<longleftrightarrow> DataFrame_getColumnIndex df name < 0)
   \<and> (\<not> DataFrame_getColumnIndex df name < 0 \<longrightarrow>
        DataFrame_expectSeries df (ColumnName name) = Inr df)"
proof -
  let ?names = "DataFrame_getColumnNames df"
  have miss: "DataFrame_getColumnIndex df name = - 1" if "name \<notin> set ?names"
    unfolding DataFrame_getColumnIndex_def
    using that by (intro getColumnIndex_loop_miss) auto
  have hit: "\<exists>k<length ?names. DataFrame_getColumnIndex df name = int k
          \<and> ?names ! k = name \<and> (\<forall>j<k. ?names ! j \<noteq> name)" if mem: "name \<in> set ?names"
  proof -
    obtain k where k: "k < length ?names" "?names ! k = name" "\<forall>j<k. ?names ! j \<noteq> name"
      using first_position_exists [OF mem] by blast
    have "getColumnIndex_loop ?names name 0 = int k"
      using k by (intro getColumnIndex_loop_hit) auto
    then show ?thesis
      using k by (auto simp: DataFrame_getColumnIndex_def)
  qed
  have gs: "isl (DataFrame_getSeries df (ColumnName name)) \<longleftrightarrow> DataFrame_getColumnIndex df name < 0"
    by (simp add: DataFrame_getSeries_def Let_def)
  have es: "isl (DataFrame_expectSeries df (ColumnName name)) \<longleftrightarrow> DataFrame_getColumnIndex df name < 0"
    by (simp add: DataFrame_expectSeries_def Let_def)
  have ok: "DataFrame_expectSeries df (ColumnName name) = Inr df"
    if "\<not> DataFrame_getColumnIndex df name < 0"
    using that by (simp add: DataFrame_expectSeries_def Let_def)
  show ?thesis
    using miss hit gs es ok by blast
qed

theorem getColumnIndex_and_callers_witness:
  "DataFrame_getColumnIndex \<lparr>df_columnNames = [''n'', ''s'', ''n''], df_iterable = array_cursor []\<rparr> ''s'' = 1
   \<and> DataFrame_getColumnIndex \<lparr>df_columnNames = [''n'', ''s'', ''n''], df_iterable = array_cursor []\<rparr> ''n'' = 0
   \<and> DataFrame_getColumnIndex \<lparr>df_columnNames = [''n'', ''s'', ''n''], df_iterable = array_cursor []\<rparr> ''x'' = - 1
   \<and> isl (DataFrame_getSeries \<lparr>df_columnNames = [''n'', ''s'', ''n''], df_iterable = array_cursor []\<rparr> (ColumnName ''x''))
   \<and> isl (DataFrame_expectSeries \<lparr>df_columnNames = [''n'', ''s'', ''n''], df_iterable = array_cursor []\<rparr> (ColumnName ''x''))
   \<and> DataFrame_expectSeries \<lparr>df_columnNames = [''n'', ''s'', ''n''], df_iterable = array_cursor []\<rparr> (ColumnName ''s'')
       = Inr \<lparr>df_columnNames = [''n'', ''s'', ''n''], df_iterable = array_cursor []\<rparr>"
proof -
  let ?df = "\<lparr>df_columnNames = [''n'', ''s'', ''n''], df_iterable = array_cursor []\<rparr>"
  have n: "DataFrame_getColumnNames ?df = [''n'', ''s'', ''n'']"
    by (simp add: DataFrame_getColumnNames_def)
  have s: "DataFrame_getColumnIndex ?df ''s'' = 1"
    using getColumnIndex_and_callers [of "''s''" ?df] n
    by (auto simp: less_Suc_eq nth_Cons')
  have nn: "DataFrame_getColumnIndex ?df ''n'' = 0"
    using getColumnIndex_and_callers [of "''n''" ?df] n
    by (auto simp: less_Suc_eq nth_Cons')
  have x: "DataFrame_getColumnIndex ?df ''x'' = - 1"
    using getColumnIndex_and_callers [of "''x''" ?df] n by simp
  show ?thesis
    using getColumnIndex_and_callers [of "''x''" ?df]
          getColumnIndex_and_callers [of "''s''" ?df] s nn x
    by simp
qed

section \<open>Column names inferred by the constructor\<close>

lemma remdups_snoc: "remdups (ys @ [x]) = remdups (filter (\<lambda>y. y \<noteq> x) ys) @ [x]"
  by (induction ys) auto

lemma E_distinct_acc_eq:
  "E_distinct_acc seen xs = rev (remdups (rev (filter (\<lambda>x. x \<notin> set seen) xs)))"
proof (induction xs arbitrary: seen)
  case Nil
  then show ?case by simp
next
  case (Cons x xs)
  show ?case
  proof (cases "x \<in> set seen")
    case True
    then show ?thesis using Cons.IH [of seen] by simp
  next
    case False
    let ?F = "filter (\<lambda>y. y \<notin> set seen) xs"
    have f: "filter (\<lambda>y. y \<noteq> x) (rev ?F) = rev (filter (\<lambda>y. y \<notin> set (x # seen)) xs)"
      by (simp add: rev_filter [symmetric] conj_commute)
    have "rev (remdups (rev ?F @ [x]))
               = x # rev (remdups (rev (filter (\<lambda>y. y \<notin> set (x # seen)) xs)))"
      using f by (simp add: remdups_snoc)
    moreover have "E_distinct_acc seen (x # xs) = x # E_distinct_acc (x # seen) xs"
      using False by simp
    moreover have "rev (filter (\<lambda>y. y \<notin> set seen) (x # xs)) = rev ?F @ [x]"
      using False by simp
    ultimately show ?thesis
      using Cons.IH [of "x # seen"] by simp
  qed
qed

lemma E_distinct_eq: "E_distinct xs = rev (remdups (rev xs))"
  by (simp add: E_distinct_def E_distinct_acc_eq)

lemma toValues_SelectIterator:
  "- 1 \<le> rowIndex it \<Longrightarrow>
   fst (collect_loop getCurrent (SelectIterator it f) []) = map f (fst (collect_loop getCurrent it []))"
  by (simp add: SelectIterator_def collect_values_remaining comp_def case_prod_unfold)

lemma first_error_map:
  assumes "\<And>x. x \<in> set xs \<Longrightarrow> g x = (if bad x then Inl e else Inr (h x))"
  shows "first_error (map g xs) = (if \<exists>x\<in>set xs. bad x then Inl e else Inr (map h xs))"
  using assms by (induction xs) auto

lemma Object_keys_eq: "Object_keys v = (if v = Undefined then Inl TypeError else Inr (own_keys v))"
  by (cases v) simp_all

lemma js_member_eq: "js_member v name = (if v = Undefined then Inl TypeError else Inr (js_get v name))"
  by (cases v) simp_all

lemma keys_of_rows:
  "first_error (map Object_keys rs)
     = (if Undefined \<in> set rs then Inl TypeError else Inr (map own_keys rs))"
  using first_error_map [of rs Object_keys "\<lambda>v. v = Undefined" TypeError own_keys]
  by (simp add: Object_keys_eq)

lemma row_by_names_eq:
  "row_by_names names row
     = (if row = Undefined \<and> names \<noteq> [] then Inl TypeError
        else Inr (Arr (map (\<lambda>name. js_get row name) names)))"
proof -
  have "first_error (map (\<lambda>columnName. js_member row columnName) names)
          = (if \<exists>x\<in>set names. row = Undefined then Inl TypeError
             else Inr (map (\<lambda>name. js_get row name) names))"
    by (rule first_error_map) (simp add: js_member_eq)
  then show ?thesis
    unfolding row_by_names_def by (cases names) auto
qed

lemma SelectIterator_try_row_by_names:
  "SelectIterator_try it (row_by_names names)
     = (if names \<noteq> [] \<and> Undefined \<in> fst ` set (remaining it) then Inl TypeError
        else Inr (SelectIterator it (\<lambda>row. Arr (map (\<lambda>name. js_get row name) names))))"
proof -
  have eq: "first_error
          (map (\<lambda>(v, p). case row_by_names names v of Inl e \<Rightarrow> Inl e | Inr w \<Rightarrow> Inr (w, p))
             (remaining it))
        = (if \<exists>x\<in>set (remaining it). fst x = Undefined \<and> names \<noteq> [] then Inl TypeError
           else Inr (map (\<lambda>(v, p). (Arr (map (\<lambda>name. js_get v name) names), p)) (remaining it)))"
    by (rule first_error_map) (auto simp: row_by_names_eq)
  have iff: "(\<exists>x\<in>set (remaining it). fst x = Undefined \<and> names \<noteq> [])
               \<longleftrightarrow> (names \<noteq> [] \<and> Undefined \<in> fst ` set (remaining it))"
    by force
  show ?thesis
    unfolding SelectIterator_try_def SelectIterator_def eq iff by simp
qed

lemma determineColumnNames_eq:
  "- 1 \<le> rowIndex producer \<Longrightarrow>
   determineColumnNames producer =
     (case fst (collect_loop getCurrent producer []) of [] \<Rightarrow> Inr [] | r # _ \<Rightarrow> Object_keys r)"
  using moveNext_first [of producer] getCurrent_first [of producer]
  by (auto simp: determineColumnNames_def split: prod.splits list.splits)




section \<open>The range cursor outside its window\<close>

text \<open>
  C2 at \<open>dataForge.range(5, 2)\<close>. Before the first \<open>moveNext\<close> the cursor's
  \<open>getCurrent\<close> is \<open>4\<close>, not \<open>undefined\<close>; after the \<open>moveNext\<close> that returns false
  it is \<open>7\<close>; \<open>getCurrentIndex\<close> is not a method of the cursor, so calling it
  throws.
\<close>

theorem range_cursor_outside_window:
  "range_getCurrent (range_values 5 2) = Inr (Num 4)
   \<and> range_getCurrentIndex (range_values 5 2) = Inl TypeError
   \<and> fst (range_moveNext (range_values 5 2))
   \<and> fst (range_moveNext (snd (range_moveNext (range_values 5 2))))
   \<and> \<not> fst (range_moveNext (snd (range_moveNext (snd (range_moveNext (range_values 5 2))))))
   \<and> range_getCurrent
        (snd (range_moveNext (snd (range_moveNext (snd (range_moveNext (range_values 5 2)))))))
       = Inr (Num 7)
   \<and> range_getCurrentIndex
        (snd (range_moveNext (snd (range_moveNext (snd (range_moveNext (range_values 5 2)))))))
       = Inl TypeError"
  by (simp add: range_values_def range_moveNext_def range_getCurrent_def
                range_getCurrentIndex_def Let_def)

section \<open>Arguments of the sort calls\<close>

lemma executeOrderBy_call_snoc [simp]: "executeOrderBy_call (batch @ [c]) = Inr ()"
  by (simp add: executeOrderBy_call_def)

lemma executeOrderBy_call_single [simp]: "executeOrderBy_call [c] = Inr ()"
  by (simp add: executeOrderBy_call_def)

lemma processColumnSelector_rejects:
  "\<not> accepted_columnSelector df c \<Longrightarrow> processColumnSelector df c = Inl AssertionError"
proof (cases c)
  case (SelectorFunction f)
  assume "\<not> accepted_columnSelector df c"
  with SelectorFunction show ?thesis by simp
next
  case (SelectorValue v)
  assume "\<not> accepted_columnSelector df c"
  with SelectorValue show ?thesis by (cases v) (auto simp: Let_def)
qed

lemma whole_position:
  fixes q :: rat
  assumes "q = of_int \<lfloor>q\<rfloor>" "0 \<le> q" "q < of_nat n"
  shows "nat \<lfloor>q\<rfloor> < n"
proof -
  have "(of_int \<lfloor>q\<rfloor> :: rat) < of_int (int n)" using assms by simp
  then have "\<lfloor>q\<rfloor> < int n" by (simp only: of_int_less_iff)
  moreover have "0 \<le> \<lfloor>q\<rfloor>" using assms(2) by simp
  ultimately show ?thesis by (simp add: nat_less_iff)
qed

lemma processColumnSelector_accepts:
  "accepted_columnSelector df c \<Longrightarrow> processColumnSelector df c = Inr (key_of df c)"
proof (cases c)
  case (SelectorFunction f)
  have "key_of df (SelectorFunction f) = f" by (rule ext) simp
  with SelectorFunction show ?thesis by simp
next
  case (SelectorValue v)
  assume acc: "accepted_columnSelector df c"
  show ?thesis
  proof (cases v)
    case (Num q)
    have "(\<lambda>row. js_get row (property_name (names_at (DataFrame_getColumnNames df) (Num q))))
            = key_of df (SelectorValue (Num q))"
      using acc whole_position [of q "length (DataFrame_getColumnNames df)"]
      by (intro ext) (auto simp: SelectorValue Num)
    with acc show ?thesis by (simp add: SelectorValue Num Let_def)
  next
    case (Str name)
    have "(\<lambda>row. js_get row name) = key_of df (SelectorValue (Str name))"
      by (rule ext) simp
    then show ?thesis by (simp add: SelectorValue Str)
  qed (use acc SelectorValue in simp_all)
qed

lemma DataFrame_orderBy_helper_ok:
  "method = ''orderBy'' \<or> method = ''orderByDescending'' \<Longrightarrow>
   DataFrame_orderBy_helper df method sel
     = Inr \<lparr>sorted_self = df, sorted_batch = [\<lparr>sortSelector = sel, sortMethod = method\<rparr>]\<rparr>"
  by (auto simp: DataFrame_orderBy_helper_def validateSortMethod_def Let_def)

lemma DataFrame_sort_calls_rejected:
  assumes "\<not> accepted_columnSelector df c"
  shows "DataFrame_orderBy df c = Inl AssertionError"
    and "DataFrame_orderByDescending df c = Inl AssertionError"
    and "DataFrame_orderThenBy df batch method c = Inl AssertionError"
  by (simp_all add: DataFrame_orderBy_def DataFrame_orderByDescending_def DataFrame_orderThenBy_def
                    processColumnSelector_rejects [OF assms])

lemma DataFrame_sort_calls_accepted:
  assumes "accepted_columnSelector df c"
  shows "DataFrame_orderBy df c
           = Inr \<lparr>sorted_self = df,
                  sorted_batch = [\<lparr>sortSelector = key_of df c, sortMethod = ''orderBy''\<rparr>]\<rparr>"
    and "DataFrame_orderByDescending df c
           = Inr \<lparr>sorted_self = df,
                  sorted_batch = [\<lparr>sortSelector = key_of df c, sortMethod = ''orderByDescending''\<rparr>]\<rparr>"
    and "DataFrame_orderThenBy df batch method c
           = Inr \<lparr>sorted_self = df,
                  sorted_batch = batch @ [\<lparr>sortSelector = key_of df c, sortMethod = method\<rparr>]\<rparr>"
  by (simp_all add: DataFrame_orderBy_def DataFrame_orderByDescending_def DataFrame_orderThenBy_def
                    processColumnSelector_accepts [OF assms] DataFrame_orderBy_helper_ok)




text \<open>
  C8 as the claim states it fails at a number that is in range and not whole: on the
  frame with the one column \<open>n\<close> and rows \<open>[[2],[1]]\<close>, \<open>0.5\<close> is not the index of a
  column, and \<open>orderBy(0.5)\<close> raises nothing. The sorted frame it returns has every
  key \<open>undefined\<close> and realizes the rows in their original order.
\<close>

theorem fractional_column_index_accepted:
  "\<not> valid_columnSelector (DataFrame_named [''n''] (RowsArray [Arr [Num 2], Arr [Num 1]]) None)
       (SelectorValue (Num (1 / 2)))
   \<and> \<not> isl (DataFrame_orderBy (DataFrame_named [''n''] (RowsArray [Arr [Num 2], Arr [Num 1]]) None)
              (SelectorValue (Num (1 / 2))))
   \<and> (case DataFrame_orderBy (DataFrame_named [''n''] (RowsArray [Arr [Num 2], Arr [Num 1]]) None)
              (SelectorValue (Num (1 / 2))) of
         Inl e \<Rightarrow> None
       | Inr sortedDataFrame \<Rightarrow>
           (case SortedDataFrame_frame sortedDataFrame of
              Inl e \<Rightarrow> None
            | Inr frame \<Rightarrow>
                Some (DataFrame_toValues frame, Index_toValues (DataFrame_getIndex frame))))
       = Some ([Arr [Num 2], Arr [Num 1]], [Num 0, Num 1])"
  by code_simp

section \<open>The sort is a stable multi-key sort\<close>

lemma set_sort_insert [simp]: "set (sort_insert cmp x ys) = insert x (set ys)"
  by (induction ys) auto

lemma distinct_sort_insert [simp]:
  "distinct (sort_insert cmp x ys) \<longleftrightarrow> x \<notin> set ys \<and> distinct ys"
  by (induction ys) auto

lemma Array_sort_Nil [simp]: "Array_sort cmp [] = []"
  by (simp add: Array_sort_def)

lemma Array_sort_Cons [simp]: "Array_sort cmp (x # xs) = sort_insert cmp x (Array_sort cmp xs)"
  by (simp add: Array_sort_def)

lemma set_Array_sort [simp]: "set (Array_sort cmp xs) = set xs"
  by (induction xs) simp_all

lemma distinct_Array_sort [simp]: "distinct (Array_sort cmp xs) \<longleftrightarrow> distinct xs"
  by (induction xs) simp_all

lemma length_sort_insert [simp]: "length (sort_insert cmp x ys) = Suc (length ys)"
  by (induction ys) auto

lemma length_Array_sort [simp]: "length (Array_sort cmp xs) = length xs"
  by (induction xs) simp_all

lemma sorted_wrt_sort_insert:
  assumes total: "\<And>a b. a \<in> A \<Longrightarrow> b \<in> A \<Longrightarrow> cmp a b \<le> 0 \<or> cmp b a \<le> 0"
      and trans: "\<And>a b c. a \<in> A \<Longrightarrow> b \<in> A \<Longrightarrow> c \<in> A
                    \<Longrightarrow> cmp a b \<le> 0 \<Longrightarrow> cmp b c \<le> 0 \<Longrightarrow> cmp a c \<le> 0"
      and "x \<in> A" "set ys \<subseteq> A" "sorted_wrt (\<lambda>a b. cmp a b \<le> 0) ys"
  shows "sorted_wrt (\<lambda>a b. cmp a b \<le> 0) (sort_insert cmp x ys)"
  using assms(3-)
proof (induction ys)
  case Nil
  then show ?case by simp
next
  case (Cons y ys)
  show ?case
  proof (cases "cmp x y \<le> 0")
    case True
    have "cmp x z \<le> 0" if "z \<in> set ys" for z
    proof -
      have "cmp y z \<le> 0" using Cons.prems that by auto
      then show ?thesis
        using trans [of x y z] True Cons.prems that by auto
    qed
    then show ?thesis
      using True Cons.prems by auto
  next
    case False
    then have yx: "cmp y x \<le> 0"
      using total [of x y] Cons.prems by auto
    have "sorted_wrt (\<lambda>a b. cmp a b \<le> 0) (sort_insert cmp x ys)"
      using Cons by auto
    then show ?thesis
      using False yx Cons.prems by auto
  qed
qed

lemma sorted_wrt_Array_sort:
  assumes total: "\<And>a b. a \<in> A \<Longrightarrow> b \<in> A \<Longrightarrow> cmp a b \<le> 0 \<or> cmp b a \<le> 0"
      and trans: "\<And>a b c. a \<in> A \<Longrightarrow> b \<in> A \<Longrightarrow> c \<in> A
                    \<Longrightarrow> cmp a b \<le> 0 \<Longrightarrow> cmp b c \<le> 0 \<Longrightarrow> cmp a c \<le> 0"
      and "set xs \<subseteq> A"
  shows "sorted_wrt (\<lambda>a b. cmp a b \<le> 0) (Array_sort cmp xs)"
  using assms(3)
proof (induction xs)
  case Nil
  then show ?case by simp
next
  case (Cons x xs)
  have "sorted_wrt (\<lambda>a b. cmp a b \<le> 0) (sort_insert cmp x (Array_sort cmp xs))"
  proof (rule sorted_wrt_sort_insert [where A = A])
    show "cmp a b \<le> 0 \<or> cmp b a \<le> 0" if "a \<in> A" "b \<in> A" for a b
      using that by (rule total)
    show "cmp a c \<le> 0" if "a \<in> A" "b \<in> A" "c \<in> A" "cmp a b \<le> 0" "cmp b c \<le> 0" for a b c
      using that by (rule trans)
    show "x \<in> A" using Cons.prems by simp
    show "set (Array_sort cmp xs) \<subseteq> A" using Cons.prems by simp
    show "sorted_wrt (\<lambda>a b. cmp a b \<le> 0) (Array_sort cmp xs)"
      using Cons by simp
  qed
  then show ?case by simp
qed

lemma str_greater_iff: "str_greater s t \<longleftrightarrow> (map of_char t :: nat list) < map of_char s"
  by (induction s t rule: str_greater.induct) auto

lemma codes_eq_iff: "(map of_char s :: nat list) = map of_char t \<longleftrightarrow> s = t"
  by (rule inj_map_eq_map) (simp add: inj_on_def)

lemma comparable_pairI:
  "comparable keys \<Longrightarrow> a \<in> set keys \<Longrightarrow> b \<in> set keys \<Longrightarrow> comparable_pair a b"
  by (auto simp: comparable_def comparable_pair_def list_all_iff)

lemma key_less_irrefl [simp]: "\<not> key_less a a"
  by (cases a) simp_all

lemma key_less_trans: "key_less a b \<Longrightarrow> key_less b c \<Longrightarrow> key_less a c"
  by (cases a; cases b; cases c) auto

lemma key_less_asym: "key_less a b \<Longrightarrow> \<not> key_less b a"
  using key_less_trans [of a b a] by auto

lemma codes_total:
  "s \<noteq> t \<Longrightarrow> (map of_char s :: nat list) < map of_char t \<or> map of_char t < (map of_char s :: nat list)"
  using codes_eq_iff [of s t] by auto

lemma key_less_total: "comparable_pair a b \<Longrightarrow> a \<noteq> b \<Longrightarrow> key_less a b \<or> key_less b a"
  using codes_total by (cases a; cases b) (auto simp: comparable_pair_def)

lemma Utils_compare_keys:
  "comparable_pair a b \<Longrightarrow>
   Utils_compare a b = (if a = b then 0 else if key_less a b then - 1 else 1)"
  by (cases a; cases b)
     (auto simp: comparable_pair_def Utils_compare_def js_strict_equals_def str_greater_iff
                 codes_eq_iff)

lemma Utils_compare_positions:
  "Utils_compare (Num (of_nat i)) (Num (of_nat j)) \<le> 0 \<longleftrightarrow> i \<le> j"
  by (auto simp: Utils_compare_def js_strict_equals_def)

lemma SortContext_compare_le_iff:
  assumes "\<forall>(key, desc)\<in>set ctxs. comparable_pair (key (buffer ! i)) (key (buffer ! j))"
  shows "SortContext_compare ctxs buffer i j \<le> 0 \<longleftrightarrow>
           (let K = (\<lambda>p. map (\<lambda>(key, desc). (desc, key (buffer ! p))) ctxs)
            in composite_less (K i) (K j) \<or> (K i = K j \<and> i \<le> j))"
  using assms
proof (induction ctxs)
  case Nil
  then show ?case by (simp add: Utils_compare_positions)
next
  case (Cons c ctxs)
  obtain key desc where c: "c = (key, desc)" by (cases c)
  have ab: "comparable_pair (key (buffer ! i)) (key (buffer ! j))"
    using Cons.prems c by auto
  then have ba: "comparable_pair (key (buffer ! j)) (key (buffer ! i))"
    by (auto simp: comparable_pair_def)
  have ih: "SortContext_compare ctxs buffer i j \<le> 0 \<longleftrightarrow>
           (let K = (\<lambda>p. map (\<lambda>(key, desc). (desc, key (buffer ! p))) ctxs)
            in composite_less (K i) (K j) \<or> (K i = K j \<and> i \<le> j))"
    using Cons by auto
  have step: "SortContext_compare (c # ctxs) buffer i j
      = (if key (buffer ! i) = key (buffer ! j) then SortContext_compare ctxs buffer i j
         else if (if desc then key_less (key (buffer ! j)) (key (buffer ! i))
                  else key_less (key (buffer ! i)) (key (buffer ! j)))
         then - 1 else 1)"
    unfolding c SortContext_compare.simps Let_def
              Utils_compare_keys [OF ab] Utils_compare_keys [OF ba]
    by auto
  show ?case
    unfolding step
    by (cases "key (buffer ! i) = key (buffer ! j)") (simp_all add: c Let_def ih [unfolded Let_def])
qed

lemma composite_less_irrefl [simp]: "\<not> composite_less K K"
  by (induction K) auto

lemma composite_less_total:
  assumes "\<forall>(key, desc)\<in>set ctxs. comparable_pair (key x) (key y)"
  shows "composite_less (map (\<lambda>(key, desc). (desc, key x)) ctxs)
                        (map (\<lambda>(key, desc). (desc, key y)) ctxs)
       \<or> map (\<lambda>(key, desc). (desc, key x)) ctxs = map (\<lambda>(key, desc). (desc :: bool, key y)) ctxs
       \<or> composite_less (map (\<lambda>(key, desc). (desc, key y)) ctxs)
                         (map (\<lambda>(key, desc). (desc, key x)) ctxs)"
  using assms
proof (induction ctxs)
  case Nil
  then show ?case by simp
next
  case (Cons c ctxs)
  obtain key desc where c: "c = (key, desc)" by (cases c)
  have ab: "comparable_pair (key x) (key y)"
    using Cons.prems c by auto
  show ?case
    using Cons key_less_total [OF ab] by (auto simp: c)
qed

lemma composite_less_trans:
  "composite_less (map (\<lambda>(key, desc). (desc, key x)) ctxs)
                  (map (\<lambda>(key, desc). (desc, key y)) ctxs) \<Longrightarrow>
   composite_less (map (\<lambda>(key, desc). (desc, key y)) ctxs)
                  (map (\<lambda>(key, desc). (desc, key z)) ctxs) \<Longrightarrow>
   composite_less (map (\<lambda>(key, desc). (desc, key x)) ctxs)
                  (map (\<lambda>(key, desc). (desc :: bool, key z :: jsval)) ctxs)"
proof (induction ctxs)
  case Nil
  then show ?case by simp
next
  case (Cons c ctxs)
  obtain key desc where c: "c = (key, desc)" by (cases c)
  show ?case
    using Cons key_less_trans [of "key x" "key y" "key z"] key_less_trans [of "key z" "key y" "key x"]
          key_less_asym [of "key x" "key y"]
    by (auto simp: c split: if_splits)
qed

lemma sorted_wrt_distinct_strict:
  "sorted_wrt P xs \<Longrightarrow> distinct xs \<Longrightarrow> sorted_wrt (\<lambda>a b. P a b \<and> a \<noteq> b) xs"
  by (induction xs) auto

lemma E_invoke_then:
  "m = ''thenBy'' \<or> m = ''thenByDescending'' \<Longrightarrow>
   E_invoke (OrderedEnumerable buffer ctxs) m k
     = Inr (OrderedEnumerable buffer (ctxs @ [(k, descending_method m)]))"
  by (auto simp: E_invoke_def descending_method_def)

lemma E_invoke_order:
  "m = ''orderBy'' \<or> m = ''orderByDescending'' \<Longrightarrow>
   E_invoke (Enumerable xs) m k = Inr (OrderedEnumerable xs [(k, descending_method m)])"
  by (auto simp: E_invoke_def E_orderBy_def descending_method_def)

lemma foldl_then:
  "list_all (\<lambda>c. sortMethod c = ''thenBy'' \<or> sortMethod c = ''thenByDescending'') later \<Longrightarrow>
   foldl (\<lambda>unsorted orderCmd.
            case unsorted of Inl e \<Rightarrow> Inl e
            | Inr u \<Rightarrow> E_invoke u (sortMethod orderCmd) (keyOf orderCmd))
         (Inr (OrderedEnumerable buffer ctxs)) later
   = Inr (OrderedEnumerable buffer
            (ctxs @ map (\<lambda>c. (keyOf c, descending_method (sortMethod c))) later))"
proof (induction later arbitrary: ctxs)
  case Nil
  then show ?case by simp
next
  case (Cons c later)
  then show ?case by (simp add: E_invoke_then)
qed

lemma apply_batch_chain:
  "order_chain batch \<Longrightarrow>
   apply_batch keyOf batch xs
     = Inr (OrderedEnumerable xs (map (\<lambda>c. (keyOf c, descending_method (sortMethod c))) batch))"
proof (cases batch)
  case Nil
  assume "order_chain batch"
  with Nil show ?thesis by simp
next
  case (Cons first later)
  assume "order_chain batch"
  with Cons show ?thesis
    by (simp add: apply_batch_def E_aggregate_def E_invoke_order foldl_then)
qed

lemma validate_chain:
  "order_chain batch \<Longrightarrow>
   \<not> list_ex (\<lambda>orderCmd. isl (validateSortMethod (sortMethod orderCmd))) batch"
  by (cases batch) (auto simp: validateSortMethod_def list_ex_iff list_all_iff)

lemma DataFrame_toValues_remaining:
  "- 1 \<le> rowIndex (DataFrame_getIterator df) \<Longrightarrow>
   DataFrame_toValues df = map fst (remaining (DataFrame_getIterator df))"
  by (simp add: DataFrame_toValues_def collect_values_remaining)

lemma DataFrame_index_remaining:
  "- 1 \<le> rowIndex (DataFrame_getIterator df) \<Longrightarrow>
   Index_toValues (DataFrame_getIndex df) = map snd (remaining (DataFrame_getIterator df))"
  by (simp add: Index_toValues_def DataFrame_getIndex_def Index_getIterator_def Index_of_def
                collect_positions_remaining)

lemma DataFrame_with_iterator:
  "DataFrame_getIterator (DataFrame_with names producer ix)
     = ApplyIndexIterator producer (Index_getIterator ix)"
  by (simp add: DataFrame_with_def DataFrame_named_def DataFrame_getIterator_def)

lemma DataFrame_with_arrays:
  assumes "length rs = length ls"
  shows "DataFrame_toValues (DataFrame_with names (array_cursor rs) (Index_of (array_cursor ls))) = rs"
    and "Index_toValues (DataFrame_getIndex
           (DataFrame_with names (array_cursor rs) (Index_of (array_cursor ls)))) = ls"
proof -
  let ?f = "DataFrame_with names (array_cursor rs) (Index_of (array_cursor ls))"
  let ?ps = "map (\<lambda>((v, p), (l, q)). (v, l))
               (zip (remaining (array_cursor rs)) (remaining (array_cursor ls)))"
  have it: "DataFrame_getIterator ?f = cursor_of ?ps"
    by (simp only: DataFrame_with_iterator ApplyIndexIterator_def Index_getIterator_def
                   Index_of_def Index.simps)
  have fresh: "- 1 \<le> rowIndex (DataFrame_getIterator ?f)"
    by (simp add: it)
  have v: "map fst ?ps = rs"
    by (rule nth_equalityI) (use assms in simp_all)
  have l: "map snd ?ps = ls"
    by (rule nth_equalityI) (use assms in simp_all)
  show "DataFrame_toValues ?f = rs"
    by (simp only: DataFrame_toValues_remaining [OF fresh] it remaining_cursor_of v)
  show "Index_toValues (DataFrame_getIndex ?f) = ls"
    by (simp only: DataFrame_index_remaining [OF fresh] it remaining_cursor_of l)
qed


lemma tuple_of_row:
  "is_Arr row \<Longrightarrow>
   Arr (drop 1 (E_from (Arr (js_concat [label] row)))) = row
   \<and> js_at (Arr (js_concat [label] row)) 0 = label"
  by (cases row) (simp_all add: js_nth_def)

lemma DataFrame_sort_permutation:
  assumes fresh: "- 1 \<le> rowIndex (DataFrame_getIterator df)"
      and chain: "order_chain batch"
      and rows_arr: "list_all is_Arr (DataFrame_toValues df)"
      and keys: "list_all (\<lambda>c. comparable (map (\<lambda>row. sortSelector c (mapRowByColumns df row))
                                               (DataFrame_toValues df))) batch"
  shows "\<exists>perm.
           distinct perm \<and> set perm = {0..<length (DataFrame_toValues df)}
         \<and> DataFrame_executeLazySort df batch
             = Inr (map (\<lambda>i. Arr (js_concat [Index_toValues (DataFrame_getIndex df) ! i]
                                     (DataFrame_toValues df ! i))) perm)
         \<and> sorted_wrt (\<lambda>i j.
               (let K = (\<lambda>p. map (\<lambda>c. (descending_method (sortMethod c),
                                         sortSelector c (mapRowByColumns df (DataFrame_toValues df ! p))))
                                 batch)
                in composite_less (K i) (K j) \<or> (K i = K j \<and> i < j))) perm"
proof -
  define rows where "rows = DataFrame_toValues df"
  define idx where "idx = Index_toValues (DataFrame_getIndex df)"
  define n where "n = length rows"
  define keyOf where
    "keyOf = (\<lambda>(orderCmd :: orderCmd) row. sortSelector orderCmd (mapRowByColumns df (Arr (drop 1 (E_from row)))))"
  define vwi where "vwi = E_zip idx rows (\<lambda>index values. Arr (js_concat [index] values))"
  define ctxs where "ctxs = map (\<lambda>c. (keyOf c, descending_method (sortMethod c))) batch"
  define perm where "perm = Array_sort (SortContext_compare ctxs vwi) [0..<n]"
  define K where "K = (\<lambda>p. map (\<lambda>(key, desc). (desc, key (vwi ! p))) ctxs)"
  define KB where "KB = (\<lambda>p. map (\<lambda>c. (descending_method (sortMethod c),
                                         sortSelector c (mapRowByColumns df (rows ! p)))) batch)"
  have len: "length idx = n"
    unfolding idx_def n_def rows_def
    by (simp add: DataFrame_toValues_remaining [OF fresh] DataFrame_index_remaining [OF fresh])
  have vlen: "length vwi = n"
    using len by (simp add: vwi_def E_zip_def n_def)
  have vnth: "vwi ! p = Arr (js_concat [idx ! p] (rows ! p))" if "p < n" for p
    using that len by (simp add: vwi_def E_zip_def n_def)
  have arr: "is_Arr (rows ! p)" if "p < n" for p
    using that rows_arr by (simp add: rows_def n_def list_all_length)
  have key: "keyOf c (vwi ! p) = sortSelector c (mapRowByColumns df (rows ! p))" if "p < n" for p c
    using tuple_of_row [OF arr [OF that], of "idx ! p"] by (simp add: keyOf_def vnth [OF that])
  have pair: "comparable_pair (keyOf c (vwi ! p)) (keyOf c (vwi ! q))"
    if "p < n" "q < n" "c \<in> set batch" for p q c
  proof (rule comparable_pairI)
    show "comparable (map (\<lambda>row. sortSelector c (mapRowByColumns df row)) rows)"
      using keys that(3) by (simp add: list_all_iff rows_def)
    show "keyOf c (vwi ! p) \<in> set (map (\<lambda>row. sortSelector c (mapRowByColumns df row)) rows)"
      using that(1) by (simp add: key n_def)
    show "keyOf c (vwi ! q) \<in> set (map (\<lambda>row. sortSelector c (mapRowByColumns df row)) rows)"
      using that(2) by (simp add: key n_def)
  qed
  have Kc: "K p = KB p" if "p < n" for p
    using that by (simp add: K_def KB_def ctxs_def comp_def key)
  have pairctx: "\<forall>(key, desc)\<in>set ctxs. comparable_pair (key (vwi ! i)) (key (vwi ! j))"
    if "i < n" "j < n" for i j
    using that pair by (auto simp: ctxs_def)
  have le_iff: "SortContext_compare ctxs vwi i j \<le> 0
                  \<longleftrightarrow> composite_less (K i) (K j) \<or> (K i = K j \<and> i \<le> j)"
    if "i < n" "j < n" for i j
    using SortContext_compare_le_iff [OF pairctx [OF that]] by (simp add: K_def Let_def)
  have tot: "composite_less (K i) (K j) \<or> K i = K j \<or> composite_less (K j) (K i)"
    if "i < n" "j < n" for i j
    unfolding K_def
    by (rule composite_less_total [where x = "vwi ! i" and y = "vwi ! j"]) (rule pairctx [OF that])
  have tr: "composite_less (K i) (K k)"
    if "composite_less (K i) (K j)" "composite_less (K j) (K k)" for i j k
    using that unfolding K_def by (rule composite_less_trans)
  have total: "SortContext_compare ctxs vwi i j \<le> 0 \<or> SortContext_compare ctxs vwi j i \<le> 0"
    if "i \<in> {0..<n}" "j \<in> {0..<n}" for i j
  proof -
    have ij: "i < n" "j < n" using that by simp_all
    show ?thesis
      using tot [OF ij] le_iff [OF ij] le_iff [OF ij(2) ij(1)] by auto
  qed
  have trans: "SortContext_compare ctxs vwi i k \<le> 0"
    if "i \<in> {0..<n}" "j \<in> {0..<n}" "k \<in> {0..<n}"
       "SortContext_compare ctxs vwi i j \<le> 0" "SortContext_compare ctxs vwi j k \<le> 0" for i j k
  proof -
    have b: "i < n" "j < n" "k < n" using that by simp_all
    have ij: "composite_less (K i) (K j) \<or> (K i = K j \<and> i \<le> j)"
      using le_iff [OF b(1) b(2)] that(4) by simp
    have jk: "composite_less (K j) (K k) \<or> (K j = K k \<and> j \<le> k)"
      using le_iff [OF b(2) b(3)] that(5) by simp
    have "composite_less (K i) (K k) \<or> (K i = K k \<and> i \<le> k)"
      using ij jk tr [of i j k] by auto
    then show ?thesis
      using le_iff [OF b(1) b(3)] by simp
  qed
  have sorted_le: "sorted_wrt (\<lambda>i j. SortContext_compare ctxs vwi i j \<le> 0) perm"
    unfolding perm_def
  proof (rule sorted_wrt_Array_sort [where A = "{0..<n}"])
    show "SortContext_compare ctxs vwi a b \<le> 0 \<or> SortContext_compare ctxs vwi b a \<le> 0"
      if "a \<in> {0..<n}" "b \<in> {0..<n}" for a b
      using that by (rule total)
    show "SortContext_compare ctxs vwi a c \<le> 0"
      if "a \<in> {0..<n}" "b \<in> {0..<n}" "c \<in> {0..<n}"
         "SortContext_compare ctxs vwi a b \<le> 0" "SortContext_compare ctxs vwi b c \<le> 0" for a b c
      using that by (rule trans)
    show "set [0..<n] \<subseteq> {0..<n}" by simp
  qed
  have dist: "distinct perm" and setp: "set perm = {0..<n}"
    by (simp_all add: perm_def)
  have strict: "sorted_wrt (\<lambda>i j. SortContext_compare ctxs vwi i j \<le> 0 \<and> i \<noteq> j) perm"
    using sorted_le dist by (rule sorted_wrt_distinct_strict)
  have final: "sorted_wrt (\<lambda>i j. composite_less (KB i) (KB j) \<or> (KB i = KB j \<and> i < j)) perm"
  proof (rule sorted_wrt_mono_rel [OF _ strict])
    fix i j assume "i \<in> set perm" "j \<in> set perm"
      and "SortContext_compare ctxs vwi i j \<le> 0 \<and> i \<noteq> j"
    then show "composite_less (KB i) (KB j) \<or> (KB i = KB j \<and> i < j)"
      using le_iff [of i j] Kc [of i] Kc [of j] setp by auto
  qed
  have ab: "apply_batch keyOf batch vwi = Inr (OrderedEnumerable vwi ctxs)"
    using apply_batch_chain [OF chain] by (simp add: ctxs_def)
  have "DataFrame_executeLazySort df batch = Inr (E_toArray (OrderedEnumerable vwi ctxs))"
    unfolding DataFrame_executeLazySort_def Let_def
              ab [unfolded keyOf_def vwi_def idx_def rows_def]
    using validate_chain [OF chain] by (simp add: vwi_def idx_def rows_def)
  then have "DataFrame_executeLazySort df batch = Inr (map (\<lambda>i. vwi ! i) perm)"
    by (simp add: perm_def vlen)
  moreover have "map (\<lambda>i. vwi ! i) perm = map (\<lambda>i. Arr (js_concat [idx ! i] (rows ! i))) perm"
    using setp by (intro map_cong) (simp_all add: vnth)
  ultimately show ?thesis
    using dist setp final
    unfolding rows_def [symmetric] idx_def [symmetric] n_def [symmetric] Let_def KB_def [symmetric]
    by (intro exI [of _ perm]) simp
qed

lemma order_chain_snoc:
  "order_chain batch \<Longrightarrow> m = ''thenBy'' \<or> m = ''thenByDescending'' \<Longrightarrow>
   order_chain (batch @ [\<lparr>sortSelector = sel, sortMethod = m\<rparr>])"
  by (cases batch) auto

lemma foldl_next_call:
  "list_all (\<lambda>call. accepted_columnSelector df (snd call)) later \<Longrightarrow>
   foldl next_call (Inr \<lparr>sorted_self = df, sorted_batch = batch\<rparr>) later
     = Inr \<lparr>sorted_self = df,
            sorted_batch =
              batch @ map (\<lambda>call. \<lparr>sortSelector = key_of df (snd call),
                                     sortMethod = (if fst call then ''thenByDescending''
                                                   else ''thenBy'')\<rparr>) later\<rparr>"
proof (induction later arbitrary: batch)
  case Nil
  then show ?case by simp
next
  case (Cons call later)
  have acc: "accepted_columnSelector df (snd call)"
    using Cons.prems by simp
  have "next_call (Inr \<lparr>sorted_self = df, sorted_batch = batch\<rparr>) call
          = Inr \<lparr>sorted_self = df,
                 sorted_batch =
                   batch @ [\<lparr>sortSelector = key_of df (snd call),
                              sortMethod = (if fst call then ''thenByDescending'' else ''thenBy'')\<rparr>]\<rparr>"
    by (simp add: next_call_def SortedDataFrame_thenBy_def SortedDataFrame_thenByDescending_def
                  DataFrame_sort_calls_accepted(3) [OF acc])
  then show ?case
    using Cons by simp
qed

lemma sort_calls_batch:
  assumes "list_all (\<lambda>call. accepted_columnSelector df (snd call)) (first # later)"
  shows "sort_calls df first later
           = Inr \<lparr>sorted_self = df, sorted_batch = batch_of df first later\<rparr>"
proof -
  have acc: "accepted_columnSelector df (snd first)"
    and rest: "list_all (\<lambda>call. accepted_columnSelector df (snd call)) later"
    using assms by simp_all
  have "first_call df first
          = Inr \<lparr>sorted_self = df,
                 sorted_batch =
                   [\<lparr>sortSelector = key_of df (snd first),
                     sortMethod = (if fst first then ''orderByDescending'' else ''orderBy'')\<rparr>]\<rparr>"
    by (simp add: first_call_def DataFrame_sort_calls_accepted(1,2) [OF acc])
  then show ?thesis
    by (simp add: sort_calls_def batch_of_def foldl_next_call [OF rest])
qed

lemma order_chain_batch_of: "order_chain (batch_of df first later)"
  by (simp add: batch_of_def list_all_iff)

lemma composite_key_batch_of:
  "map (\<lambda>c. (descending_method (sortMethod c), sortSelector c (mapRowByColumns df row)))
       (batch_of df first later)
     = composite_key df (first # later) row"
  by (auto simp: batch_of_def composite_key_def descending_method_def split_beta)

lemma sorted_frame_scenario:
  "(case DataFrame_of \<lparr>cfg_columnNames = Some [''n'', ''s''],
            cfg_rows = Some (RowsArray [Arr [Num 1, Str ''a''], Arr [Num 2, Str ''b'']]),
            cfg_index = None\<rparr> of
      Inl e \<Rightarrow> None
    | Inr dataFrame \<Rightarrow>
       (case DataFrame_orderByDescending dataFrame (SelectorValue (Str ''n'')) of
          Inl e \<Rightarrow> None
        | Inr sortedDataFrame \<Rightarrow>
           (case SortedDataFrame_frame sortedDataFrame of
              Inl e \<Rightarrow> None
            | Inr frame \<Rightarrow>
                Some (DataFrame_toValues frame, Index_toValues (DataFrame_getIndex frame)))))
   = Some ([Arr [Num 2, Str ''b''], Arr [Num 1, Str ''a'']], [Num 1, Num 0])"
  by code_simp



section \<open>selectMany on a DataFrame\<close>

text \<open>
  C1 at the DataFrame with column \<open>n\<close> and rows \<open>[[1],[2]]\<close> (labels 0 and 1) and
  the selector \<open>row => row.n === 1 ? [{v:"a"},{v:"b"}] : [{v:"c"}]\<close>. The rows
  producer of \<open>selectMany\<close> applies the selector to the row mapped by column names
  and yields the three values a, b, c, which come from the source rows labelled 0, 0
  and 1. The index producer applies the selector to the unmapped row, where \<open>row.n\<close> is
  \<open>undefined\<close>, and yields the labels 0, 1. The derived frame therefore carries
  label 1 on the value b that the row labelled 0 produced, and realizes two rows for
  three values. \<open>Series.selectMany\<close> on the values \<open>[1,2]\<close> with the same expansion
  realizes the index 0, 0, 1.
\<close>

theorem DataFrame_selectMany_index_mismatch:
  "(case DataFrame_of \<lparr>cfg_columnNames = Some [''n''],
           cfg_rows = Some (RowsArray [Arr [Num 1], Arr [Num 2]]), cfg_index = None\<rparr> of
      Inl e \<Rightarrow> None
    | Inr dataFrame \<Rightarrow>
        Some (fst (collect_loop getCurrent
                (SelectManyIterator (DataFrame_getIterator dataFrame)
                   (\<lambda>row. (\<lambda>row. if js_get row ''n'' = Num 1
                       then [Obj [(''v'', Str ''a'')], Obj [(''v'', Str ''b'')]]
                       else [Obj [(''v'', Str ''c'')]]) (mapRowByColumns dataFrame row))) [])))
     = Some [Obj [(''v'', Str ''a'')], Obj [(''v'', Str ''b'')], Obj [(''v'', Str ''c'')]]
   \<and> (case DataFrame_of \<lparr>cfg_columnNames = Some [''n''],
           cfg_rows = Some (RowsArray [Arr [Num 1], Arr [Num 2]]), cfg_index = None\<rparr> of
      Inl e \<Rightarrow> None
    | Inr dataFrame \<Rightarrow>
        Some (fst (collect_loop getCurrentIndex
                (SelectManyIterator (DataFrame_getIterator dataFrame)
                   (\<lambda>row. (\<lambda>row. if js_get row ''n'' = Num 1
                       then [Obj [(''v'', Str ''a'')], Obj [(''v'', Str ''b'')]]
                       else [Obj [(''v'', Str ''c'')]]) (mapRowByColumns dataFrame row))) [])))
     = Some [Num 0, Num 0, Num 1]
   \<and> (case DataFrame_of \<lparr>cfg_columnNames = Some [''n''],
           cfg_rows = Some (RowsArray [Arr [Num 1], Arr [Num 2]]), cfg_index = None\<rparr> of
      Inl e \<Rightarrow> None
    | Inr dataFrame \<Rightarrow>
        (case DataFrame_selectMany dataFrame (\<lambda>row. if js_get row ''n'' = Num 1
                       then [Obj [(''v'', Str ''a'')], Obj [(''v'', Str ''b'')]]
                       else [Obj [(''v'', Str ''c'')]]) of
           Inl e \<Rightarrow> None
         | Inr expanded \<Rightarrow> Some (DataFrame_toValues expanded)))
     = Some [Arr [Str ''a''], Arr [Str ''b'']]
   \<and> (case DataFrame_of \<lparr>cfg_columnNames = Some [''n''],
           cfg_rows = Some (RowsArray [Arr [Num 1], Arr [Num 2]]), cfg_index = None\<rparr> of
      Inl e \<Rightarrow> None
    | Inr dataFrame \<Rightarrow>
        (case DataFrame_selectMany dataFrame (\<lambda>row. if js_get row ''n'' = Num 1
                       then [Obj [(''v'', Str ''a'')], Obj [(''v'', Str ''b'')]]
                       else [Obj [(''v'', Str ''c'')]]) of
           Inl e \<Rightarrow> None
         | Inr expanded \<Rightarrow> Some (Index_toValues (DataFrame_getIndex expanded))))
     = Some [Num 0, Num 1]
   \<and> Series_toValues
        (Series_selectMany
           (Series_of (array_cursor [Num 1, Num 2]) (Index_of_array [Num 0, Num 1]))
           (\<lambda>value. if value = Num 1 then [Str ''a'', Str ''b''] else [Str ''c'']))
     = [Str ''a'', Str ''b'', Str ''c'']
   \<and> Index_toValues (Series_getIndex
        (Series_selectMany
           (Series_of (array_cursor [Num 1, Num 2]) (Index_of_array [Num 0, Num 1]))
           (\<lambda>value. if value = Num 1 then [Str ''a'', Str ''b''] else [Str ''c''])))
     = [Num 0, Num 0, Num 1]"
  by code_simp

section \<open>What an operator leaves of the object it is called on\<close>

text \<open>Rules for computations over agreeing stores.\<close>

lemma agrees_mono: "G \<subseteq>\<^sub>m G' \<Longrightarrow> agrees G' s \<Longrightarrow> agrees G s"
  unfolding agrees_def map_le_def by (metis domI)

lemma computesD:
  assumes "computes G m Q" "agrees G s" "run_state m s = (v, s')"
  shows "Q v" "agrees G s'" "next_id s \<le> next_id s'" "\<And>a. G a = None \<Longrightarrow> cells s' a = cells s a"
proof -
  note assms(1) [unfolded computes_def, rule_format, OF assms(2)]
  with assms(3) show "Q v" "agrees G s'" "next_id s \<le> next_id s'"
      "\<And>a. G a = None \<Longrightarrow> cells s' a = cells s a"
    by simp_all
qed

lemma computesI:
  assumes "\<And>s v s'. agrees G s \<Longrightarrow> run_state m s = (v, s') \<Longrightarrow>
            Q v \<and> agrees G s' \<and> next_id s \<le> next_id s' \<and> (\<forall>a. G a = None \<longrightarrow> cells s' a = cells s a)"
  shows "computes G m Q"
  unfolding computes_def using assms by (auto split: prod.splits)

lemma computes_return: "Q v \<Longrightarrow> computes G (return v) Q"
  by (simp add: computes_def)

lemma computes_bind:
  assumes "computes G m P" "\<And>v. P v \<Longrightarrow> computes G (f v) Q"
  shows "computes G (State_Monad.bind m f) Q"
proof (rule computesI)
  fix s v s' assume s: "agrees G s" and run: "run_state (State_Monad.bind m f) s = (v, s')"
  obtain u s1 where m: "run_state m s = (u, s1)" by (cases "run_state m s")
  with run have f: "run_state (f u) s1 = (v, s')" by simp
  note 1 = computesD [OF assms(1) s m]
  note 2 = computesD [OF assms(2) [OF 1(1)] 1(2) f]
  show "Q v \<and> agrees G s' \<and> next_id s \<le> next_id s' \<and> (\<forall>a. G a = None \<longrightarrow> cells s' a = cells s a)"
    using 1 2 by auto
qed

lemma computes_weaken:
  assumes "computes G m P" "\<And>v. P v \<Longrightarrow> Q v"
  shows "computes G m Q"
proof (rule computesI)
  fix s v s' assume "agrees G s" "run_state m s = (v, s')"
  from computesD [OF assms(1) this] assms(2)
  show "Q v \<and> agrees G s' \<and> next_id s \<le> next_id s' \<and> (\<forall>a. G a = None \<longrightarrow> cells s' a = cells s a)"
    by simp
qed

lemma computes_alloc: "computes G alloc (\<lambda>a. True)"
  unfolding computes_def alloc_def agrees_def by (auto simp: less_Suc_eq)

lemma computes_mono:
  assumes le: "G \<subseteq>\<^sub>m G'" and m: "computes G m Q"
  shows "computes G' m Q"
proof (rule computesI)
  fix s v s' assume s: "agrees G' s" and run: "run_state m s = (v, s')"
  note 1 = computesD [OF m agrees_mono [OF le s] run]
  have dom: "dom G \<subseteq> dom G'" using le by (rule map_le_implies_dom_le)
  have "agrees G' s'"
    unfolding agrees_def
  proof (intro conjI allI impI)
    fix a c assume a: "G' a = Some c"
    show "a < next_id s'" using a s 1(3) unfolding agrees_def by fastforce
    show "cells s' a = None \<or> cells s' a = Some c"
    proof (cases "a \<in> dom G")
      case True
      then have "G a = Some c" using le a unfolding map_le_def by force
      then show ?thesis using 1(2) unfolding agrees_def by blast
    next
      case False
      then have "cells s' a = cells s a" by (intro 1(4)) (simp add: domIff)
      then show ?thesis using a s unfolding agrees_def by auto
    qed
  next
    fix a assume "next_id s' \<le> a"
    then show "cells s' a = None" using 1(2) unfolding agrees_def by blast
  qed
  then show "Q v \<and> agrees G' s' \<and> next_id s \<le> next_id s' \<and> (\<forall>a. G' a = None \<longrightarrow> cells s' a = cells s a)"
    using 1 dom by (auto simp: domIff)
qed

lemma returns_return: "returns G (return v) v"
  by (simp add: returns_def computes_return)

lemma returns_bind:
  "returns G m u \<Longrightarrow> returns G (f u) v \<Longrightarrow> returns G (State_Monad.bind m f) v"
  unfolding returns_def by (erule computes_bind) simp

lemma returns_mono: "G \<subseteq>\<^sub>m G' \<Longrightarrow> returns G m v \<Longrightarrow> returns G' m v"
  unfolding returns_def by (rule computes_mono)

lemma returns_cached:
  assumes G: "G a = Some v" and m: "returns G compute v"
  shows "returns G (cached a compute) v"
  unfolding returns_def
proof (rule computesI)
  fix s x s' assume s: "agrees G s" and run: "run_state (cached a compute) s = (x, s')"
  from s G have a: "a < next_id s" and c: "cells s a = None \<or> cells s a = Some v"
    unfolding agrees_def by auto
  show "x = v \<and> agrees G s' \<and> next_id s \<le> next_id s' \<and> (\<forall>a. G a = None \<longrightarrow> cells s' a = cells s a)"
  proof (cases "cells s a")
    case (Some w)
    with c run s show ?thesis by (auto simp: cached_def read_cell_def)
  next
    case None
    obtain u s1 where cm: "run_state compute s = (u, s1)" by (cases "run_state compute s")
    note 1 = computesD [OF m [unfolded returns_def] s cm]
    from run None cm have x: "x = u" and s': "s' = s1\<lparr>cells := (cells s1)(a \<mapsto> u)\<rparr>"
      by (auto simp: cached_def read_cell_def write_cell_def)
    have "agrees G s'" using 1(1,2) G a 1(3) unfolding s' agrees_def by auto
    moreover have "\<forall>b. G b = None \<longrightarrow> cells s' b = cells s b"
      using 1(4) G unfolding s' by auto
    ultimately show ?thesis using x 1(1,3) unfolding s' by simp
  qed
qed


lemma createsI:
  assumes "\<And>s d s'. agrees G s \<Longrightarrow> run_state m s = (d, s') \<Longrightarrow>
            next_id s \<le> next_id s'
            \<and> (\<forall>i. ident d = Some i \<longrightarrow> next_id s \<le> i \<and> i < next_id s')
            \<and> (\<exists>G'. G \<subseteq>\<^sub>m G' \<and> agrees G' s' \<and> Q G' d)"
  shows "creates G m ident Q"
  unfolding creates_def using assms by (auto split: prod.splits)

lemma createsD:
  assumes "creates G m ident Q" "agrees G s" "run_state m s = (d, s')"
  shows "next_id s \<le> next_id s'"
    "\<And>i. ident d = Some i \<Longrightarrow> next_id s \<le> i \<and> i < next_id s'"
    "\<exists>G'. G \<subseteq>\<^sub>m G' \<and> agrees G' s' \<and> Q G' d"
proof -
  note assms(1) [unfolded creates_def, rule_format, OF assms(2)]
  with assms(3) show "next_id s \<le> next_id s'"
    "\<And>i. ident d = Some i \<Longrightarrow> next_id s \<le> i \<and> i < next_id s'"
    "\<exists>G'. G \<subseteq>\<^sub>m G' \<and> agrees G' s' \<and> Q G' d"
    by simp_all
qed

lemma creates_bind:
  assumes m: "computes G m P" and f: "\<And>v. P v \<Longrightarrow> creates G (f v) ident Q"
  shows "creates G (State_Monad.bind m f) ident Q"
proof (rule createsI)
  fix s d s' assume s: "agrees G s" and run: "run_state (State_Monad.bind m f) s = (d, s')"
  obtain u s1 where ms: "run_state m s = (u, s1)" by (cases "run_state m s")
  with run have fs: "run_state (f u) s1 = (d, s')" by simp
  note 1 = computesD [OF m s ms]
  note 2 = createsD [OF f [OF 1(1)] 1(2) fs]
  show "next_id s \<le> next_id s'
        \<and> (\<forall>i. ident d = Some i \<longrightarrow> next_id s \<le> i \<and> i < next_id s')
        \<and> (\<exists>G'. G \<subseteq>\<^sub>m G' \<and> agrees G' s' \<and> Q G' d)"
    using 1(3) 2 by force
qed

lemma creates_alloc_cell:
  assumes f: "\<And>a. G a = None \<Longrightarrow> creates (G(a \<mapsto> c)) (f a) ident Q"
  shows "creates G (State_Monad.bind alloc f) ident Q"
proof (rule createsI)
  fix s d s' assume s: "agrees G s" and run: "run_state (State_Monad.bind alloc f) s = (d, s')"
  let ?a = "next_id s"
  let ?s1 = "s\<lparr>next_id := Suc ?a\<rparr>"
  have none: "G ?a = None" using s unfolding agrees_def by (cases "G ?a") auto
  have le: "G \<subseteq>\<^sub>m G(?a \<mapsto> c)" using none by (auto simp: map_le_def)
  have s1: "agrees (G(?a \<mapsto> c)) ?s1" using s unfolding agrees_def by (auto simp: less_Suc_eq)
  from run have fs: "run_state (f ?a) ?s1 = (d, s')" by (simp add: alloc_def)
  note 2 = createsD [OF f [OF none] s1 fs]
  from 2(3) obtain G' where G': "G(?a \<mapsto> c) \<subseteq>\<^sub>m G'" "agrees G' s'" "Q G' d" by blast
  from le G'(1) have "G \<subseteq>\<^sub>m G'" by (rule map_le_trans)
  with G' 2(1,2) show "next_id s \<le> next_id s'
        \<and> (\<forall>i. ident d = Some i \<longrightarrow> next_id s \<le> i \<and> i < next_id s')
        \<and> (\<exists>G'. G \<subseteq>\<^sub>m G' \<and> agrees G' s' \<and> Q G' d)"
    by force
qed

lemma creates_return: "Q G d \<Longrightarrow> ident d = None \<Longrightarrow> creates G (return d) ident Q"
  by (rule createsI) (auto intro!: exI [of _ G])

lemma creates_weaken:
  assumes "creates G m ident Q" "\<And>G' d. G \<subseteq>\<^sub>m G' \<Longrightarrow> Q G' d \<Longrightarrow> R G' d"
  shows "creates G m ident R"
proof (rule createsI)
  fix s d s' assume "agrees G s" "run_state m s = (d, s')"
  from createsD [OF assms(1) this] assms(2)
  show "next_id s \<le> next_id s'
        \<and> (\<forall>i. ident d = Some i \<longrightarrow> next_id s \<le> i \<and> i < next_id s')
        \<and> (\<exists>G'. G \<subseteq>\<^sub>m G' \<and> agrees G' s' \<and> R G' d)"
    by blast
qed

lemma agrees_alloc: "agrees G s \<Longrightarrow> agrees G (s\<lparr>next_id := Suc (next_id s)\<rparr>)"
  unfolding agrees_def by (auto simp: less_Suc_eq)

lemma returns_bind_computes:
  "computes G m P \<Longrightarrow> (\<And>u. P u \<Longrightarrow> returns G (f u) v) \<Longrightarrow> returns G (State_Monad.bind m f) v"
  unfolding returns_def by (rule computes_bind)

lemma determinedI: "returns G m v \<Longrightarrow> determined G m"
  unfolding determined_def by blast

lemma determined_return: "determined G (return x)"
  by (rule determinedI) (rule returns_return)

lemma determined_bind:
  assumes "determined G m" "\<And>u. determined G (f u)"
  shows "determined G (State_Monad.bind m f)"
proof -
  from assms(1) obtain u where u: "returns G m u" unfolding determined_def by blast
  from assms(2) obtain v where "returns G (f u) v" unfolding determined_def by blast
  with u show ?thesis by (intro determinedI returns_bind)
qed

lemma determined_mono:
  assumes "G \<subseteq>\<^sub>m G'" "determined G m"
  shows "determined G' m"
proof -
  from assms(2) obtain v where "returns G m v" unfolding determined_def by blast
  from returns_mono [OF assms(1) this] show ?thesis by (rule determinedI)
qed

lemma determined_computes:
  assumes "determined G m"
  shows "computes G m (\<lambda>x. True)"
proof -
  from assms obtain v where "computes G m (\<lambda>x. x = v)" unfolding determined_def returns_def by blast
  then show ?thesis by (rule computes_weaken) simp
qed

lemma computes_new_Index: "computes G (new_Index p) (\<lambda>ix. index_iterable ix = p)"
  by (rule computesI) (auto simp: new_Index_def alloc_def agrees_alloc)

lemma creates_new_Index:
  assumes "determined G p"
    and "\<And>ix. wf_Index G ix \<Longrightarrow> index_iterable ix = p \<Longrightarrow> creates G (f ix) ident Q"
  shows "creates G (State_Monad.bind (new_Index p) f) ident Q"
  using assms by (intro creates_bind [OF computes_new_Index]) (simp add: wf_Index_def)

lemma creates_new_Series:
  assumes "determined G p" "wf_Index G ix"
  shows "creates G (new_Series_st p ix) (\<lambda>d. Some (series_id d)) wf_Series"
proof (rule createsI)
  fix s d s' assume s: "agrees G s" and run: "run_state (new_Series_st p ix) s = (d, s')"
  from run have d: "d = \<lparr>series_id = next_id s, series_iterable = p, series_index = ix\<rparr>"
    and s': "s' = s\<lparr>next_id := Suc (next_id s)\<rparr>"
    by (auto simp: new_Series_st_def alloc_def)
  have "wf_Series G d" using assms by (simp add: d wf_Series_def)
  moreover have "agrees G s'" unfolding s' using s by (rule agrees_alloc)
  ultimately show "next_id s \<le> next_id s'
        \<and> (\<forall>i. Some (series_id d) = Some i \<longrightarrow> next_id s \<le> i \<and> i < next_id s')
        \<and> (\<exists>G'. G \<subseteq>\<^sub>m G' \<and> agrees G' s' \<and> wf_Series G' d)"
    by (auto simp: d s' intro!: exI [of _ G])
qed

lemma wf_Series_iterator: "wf_Series G self \<Longrightarrow> determined G (Series_getIterator_st self)"
  by (simp add: wf_Series_def Series_getIterator_st_def)

lemma wf_Series_index: "wf_Series G self \<Longrightarrow> wf_Index G (Series_getIndex_st self)"
  by (simp add: wf_Series_def Series_getIndex_st_def)

lemma wf_Index_iterator: "wf_Index G ix \<Longrightarrow> determined G (Index_getIterator_st ix)"
  by (simp add: wf_Index_def Index_getIterator_st_def)

lemma wf_Index_toValues: "wf_Index G ix \<Longrightarrow> determined G (Index_toValues_st ix)"
  unfolding Index_toValues_st_def
  by (intro determined_bind determined_return wf_Index_iterator)

lemma wf_Series_toValues: "wf_Series G self \<Longrightarrow> determined G (Series_toValues_st self)"
  unfolding Series_toValues_st_def
  by (intro determined_bind determined_return wf_Series_iterator)

lemma wf_Series_multiIterator: "wf_Series G self \<Longrightarrow> determined G (Series_multiIterator self)"
  unfolding Series_multiIterator_def
  by (intro determined_bind determined_return wf_Series_iterator wf_Index_iterator wf_Series_index)

lemmas Series_determined =
  determined_bind determined_return wf_Series_iterator wf_Index_iterator wf_Series_index
  wf_Index_toValues wf_Series_toValues wf_Series_multiIterator


lemma observe_Series_determined: "wf_Series G self \<Longrightarrow> determined G (observe_Series self)"
  unfolding observe_Series_def by (intro Series_determined)

lemma Series_skip_creates:
  assumes "wf_Series G self"
  shows "creates G (Series_skip_st self n) (\<lambda>d. Some (series_id d)) wf_Series"
  unfolding Series_skip_st_def Index_skip_st_def using assms
  by (intro creates_new_Index creates_new_Series Series_determined)

lemma Series_take_creates:
  assumes "wf_Series G self"
  shows "creates G (Series_take_st self n) (\<lambda>d. Some (series_id d)) wf_Series"
  unfolding Series_take_st_def Index_take_st_def using assms
  by (intro creates_new_Index creates_new_Series Series_determined)

lemma Series_skipWhile_creates:
  assumes "wf_Series G self"
  shows "creates G (Series_skipWhile_st self p) (\<lambda>d. Some (series_id d)) wf_Series"
  unfolding Series_skipWhile_st_def using assms
  by (intro creates_new_Index creates_new_Series Series_determined)

lemma Series_takeWhile_creates:
  assumes "wf_Series G self"
  shows "creates G (Series_takeWhile_st self p) (\<lambda>d. Some (series_id d)) wf_Series"
  unfolding Series_takeWhile_st_def using assms
  by (intro creates_new_Index creates_new_Series Series_determined)

lemma Series_select_creates:
  assumes "wf_Series G self"
  shows "creates G (Series_select_st self f) (\<lambda>d. Some (series_id d)) wf_Series"
  unfolding Series_select_st_def using assms
  by (intro creates_new_Index creates_new_Series Series_determined)

lemma computes_Index_bake:
  "wf_Index G ix \<Longrightarrow> computes G (Index_bake_st ix) (wf_Index G)"
  unfolding Index_bake_st_def
  by (rule computes_bind [OF determined_computes [OF wf_Index_toValues]], assumption,
      rule computes_weaken [OF computes_new_Index])
     (simp add: wf_Index_def determined_return)

lemma computes_Index_reverse:
  "wf_Index G ix \<Longrightarrow> computes G (Index_reverse_st ix) (wf_Index G)"
  unfolding Index_reverse_st_def
  by (rule computes_bind [OF determined_computes [OF wf_Index_toValues]], assumption,
      rule computes_weaken [OF computes_new_Index])
     (simp add: wf_Index_def determined_return)

lemma Series_bake_creates:
  assumes "wf_Series G self"
  shows "creates G (Series_bake_st self) (\<lambda>d. Some (series_id d)) wf_Series"
  unfolding Series_bake_st_def
  by (rule creates_bind [OF determined_computes [OF wf_Series_toValues [OF assms]]],
      rule creates_bind [OF computes_Index_bake [OF wf_Series_index [OF assms]]],
      rule creates_new_Series [OF determined_return])

lemma Series_reverse_creates:
  assumes "wf_Series G self"
  shows "creates G (Series_reverse_st self) (\<lambda>d. Some (series_id d)) wf_Series"
  unfolding Series_reverse_st_def
  by (rule creates_bind [OF determined_computes [OF wf_Series_toValues [OF assms]]],
      rule creates_bind [OF computes_Index_reverse [OF wf_Series_index [OF assms]]],
      rule creates_new_Series [OF determined_return])

lemma wf_Index_mono: "G \<subseteq>\<^sub>m G' \<Longrightarrow> wf_Index G ix \<Longrightarrow> wf_Index G' ix"
  unfolding wf_Index_def by (rule determined_mono)

lemma wf_Series_mono: "G \<subseteq>\<^sub>m G' \<Longrightarrow> wf_Series G self \<Longrightarrow> wf_Series G' self"
  unfolding wf_Series_def using determined_mono wf_Index_mono by blast

lemma map_le_fresh: "G a = None \<Longrightarrow> G \<subseteq>\<^sub>m G(a \<mapsto> c)"
  by (auto simp: map_le_def)

lemma Series_executeLazyWhere_returns:
  assumes iv: "returns G (Index_toValues_st (Series_getIndex_st self)) iv"
    and vs: "returns G (Series_toValues_st self) vs"
    and G: "G a = Some (CachedFiltered (filter (\<lambda>data. p (snd data)) (E_zip iv vs Pair)))"
  shows "returns G (Series_executeLazyWhere_st self p a)
           (filter (\<lambda>data. p (snd data)) (E_zip iv vs Pair))"
  unfolding Series_executeLazyWhere_st_def
proof (rule returns_bind [OF returns_cached [of G a, OF G]])
  show "returns G
     (State_Monad.bind (Index_toValues_st (Series_getIndex_st self)) (\<lambda>indexValues.
        State_Monad.bind (Series_toValues_st self) (\<lambda>vs.
          return (CachedFiltered (filter (\<lambda>data. p (snd data)) (E_zip indexValues vs Pair))))))
     (CachedFiltered (filter (\<lambda>data. p (snd data)) (E_zip iv vs Pair)))"
    by (rule returns_bind [OF iv], rule returns_bind [OF vs], rule returns_return)
  show "returns G
     (return (case CachedFiltered (filter (\<lambda>data. p (snd data)) (E_zip iv vs Pair)) of
                CachedFiltered pairs \<Rightarrow> pairs | _ \<Rightarrow> []))
     (filter (\<lambda>data. p (snd data)) (E_zip iv vs Pair))"
    by (simp add: returns_return)
qed

lemma Series_where_creates:
  assumes wf: "wf_Series G self"
  shows "creates G (Series_where_st self p) (\<lambda>d. Some (series_id d)) wf_Series"
proof -
  from wf_Index_toValues [OF wf_Series_index [OF wf]] obtain iv
    where iv: "returns G (Index_toValues_st (Series_getIndex_st self)) iv"
    unfolding determined_def by blast
  from wf_Series_toValues [OF wf] obtain vs where vs: "returns G (Series_toValues_st self) vs"
    unfolding determined_def by blast
  let ?pairs = "filter (\<lambda>data. p (snd data)) (E_zip iv vs Pair)"
  show ?thesis
    unfolding Series_where_st_def
  proof (rule creates_alloc_cell [where c = "CachedFiltered ?pairs"])
    fix a assume a: "G a = None"
    let ?G = "G(a \<mapsto> CachedFiltered ?pairs)"
    note le = map_le_fresh [of G a "CachedFiltered ?pairs", OF a]
    have lazy: "determined ?G (Series_executeLazyWhere_st self p a)"
      by (rule determinedI, rule Series_executeLazyWhere_returns
            [OF returns_mono [OF le iv] returns_mono [OF le vs]]) simp
    show "creates ?G
       (State_Monad.bind
          (new_Index (State_Monad.bind (Series_executeLazyWhere_st self p a)
                        (\<lambda>pairs. return (array_cursor (map fst pairs)))))
          (new_Series_st (State_Monad.bind (Series_executeLazyWhere_st self p a)
                        (\<lambda>pairs. return (array_cursor (map snd pairs))))))
       (\<lambda>d. Some (series_id d)) wf_Series"
      by (intro creates_new_Index creates_new_Series determined_bind determined_return lazy)
  qed
qed

lemma Series_lazyEvaluate_returns:
  assumes iv: "returns G (Index_toValues_st (Series_getIndex_st self)) iv"
    and vs: "returns G (Series_toValues_st self) vs"
    and G: "G a = Some (Expanded (E_zip iv vs (\<lambda>index value. (index, f value)))
                     (concat (map snd (E_zip iv vs (\<lambda>index value. (index, f value))))))"
  shows "determined G (Series_lazyEvaluate_st self f a)"
  unfolding Series_lazyEvaluate_st_def
proof (rule determined_bind [OF determinedI [OF returns_cached [of G a, OF G]]])
  show "returns G
     (State_Monad.bind (Index_toValues_st (Series_getIndex_st self)) (\<lambda>indexValues.
        State_Monad.bind (Series_toValues_st self) (\<lambda>vs.
          let pairs = E_zip indexValues vs (\<lambda>index value. (index, f value))
          in return (Expanded pairs (concat (map snd pairs))))))
     (Expanded (E_zip iv vs (\<lambda>index value. (index, f value)))
        (concat (map snd (E_zip iv vs (\<lambda>index value. (index, f value))))))"
    by (rule returns_bind [OF iv], rule returns_bind [OF vs]) (simp add: returns_return Let_def)
qed (rule determined_return)

lemma determined_case_prod:
  "(\<And>a b. determined G (f a b)) \<Longrightarrow> determined G (case x of (a, b) \<Rightarrow> f a b)"
  by (cases x) simp

lemma Series_selectMany_creates:
  assumes wf: "wf_Series G self"
  shows "creates G (Series_selectMany_st self f) (\<lambda>d. Some (series_id d)) wf_Series"
proof -
  from wf_Index_toValues [OF wf_Series_index [OF wf]] obtain iv
    where iv: "returns G (Index_toValues_st (Series_getIndex_st self)) iv"
    unfolding determined_def by blast
  from wf_Series_toValues [OF wf] obtain vs where vs: "returns G (Series_toValues_st self) vs"
    unfolding determined_def by blast
  let ?pairs = "E_zip iv vs (\<lambda>index value. (index, f value))"
  let ?c = "Expanded ?pairs (concat (map snd ?pairs))"
  show ?thesis
    unfolding Series_selectMany_st_def
  proof (rule creates_alloc_cell [where c = ?c])
    fix a assume a: "G a = None"
    let ?G = "G(a \<mapsto> ?c)"
    note le = map_le_fresh [of G a ?c, OF a]
    have lazy: "determined ?G (Series_lazyEvaluate_st self f a)"
      by (rule Series_lazyEvaluate_returns
            [OF returns_mono [OF le iv] returns_mono [OF le vs]]) simp
    show "creates ?G
       (State_Monad.bind
          (new_Index (State_Monad.bind (Series_lazyEvaluate_st self f a)
             (\<lambda>(pairs, newValues). return (array_cursor
                (concat (map (\<lambda>data. map (\<lambda>_. fst data) [0..<length (snd data)]) pairs))))))
          (new_Series_st (State_Monad.bind (Series_lazyEvaluate_st self f a)
             (\<lambda>(pairs, newValues). return (array_cursor newValues)))))
       (\<lambda>d. Some (series_id d)) wf_Series"
      by (intro creates_new_Index creates_new_Series determined_bind determined_case_prod
            determined_return lazy)
  qed
qed


lemma returns_read_cell:
  assumes G: "G a = Some c" and hit: "returns G (f (Some c)) v" and miss: "returns G (f None) v"
  shows "returns G (State_Monad.bind (read_cell a) f) v"
  unfolding returns_def
proof (rule computesI)
  fix s x s' assume s: "agrees G s" and run: "run_state (State_Monad.bind (read_cell a) f) s = (x, s')"
  from s G have "cells s a = None \<or> cells s a = Some c" unfolding agrees_def by auto
  then show "x = v \<and> agrees G s' \<and> next_id s \<le> next_id s' \<and> (\<forall>a. G a = None \<longrightarrow> cells s' a = cells s a)"
  proof
    assume "cells s a = None"
    with run have "run_state (f None) s = (x, s')" by (simp add: read_cell_def)
    from computesD [OF miss [unfolded returns_def] s this] show ?thesis by simp
  next
    assume "cells s a = Some c"
    with run have "run_state (f (Some c)) s = (x, s')" by (simp add: read_cell_def)
    from computesD [OF hit [unfolded returns_def] s this] show ?thesis by simp
  qed
qed

lemma returns_write_cell:
  assumes G: "G a = Some c"
  shows "returns G (write_cell a c) ()"
  unfolding returns_def
proof (rule computesI)
  fix s and x :: unit and s'
  assume s: "agrees G s" and run: "run_state (write_cell a c) s = (x, s')"
  from run have s': "s' = s\<lparr>cells := (cells s)(a \<mapsto> c)\<rparr>" by (simp add: write_cell_def)
  have "agrees G s'"
    unfolding agrees_def
  proof (intro conjI allI impI)
    fix b d assume b: "G b = Some d"
    with s show "b < next_id s'" unfolding agrees_def s' by simp
    from b s have "cells s b = None \<or> cells s b = Some d" unfolding agrees_def by blast
    with b G show "cells s' b = None \<or> cells s' b = Some d" unfolding s' by (cases "b = a") auto
  next
    fix b assume "next_id s' \<le> b"
    moreover from s G have "a < next_id s" unfolding agrees_def by blast
    ultimately show "cells s' b = None" using s unfolding agrees_def s' by auto
  qed
  then show "x = () \<and> agrees G s' \<and> next_id s \<le> next_id s' \<and> (\<forall>a. G a = None \<longrightarrow> cells s' a = cells s a)"
    using G by (auto simp: s')
qed

lemma order_chain_nonempty: "order_chain batch \<Longrightarrow> executeOrderBy_call batch = Inr ()"
  by (cases batch) (simp_all add: executeOrderBy_call_def)

lemma order_chain_first:
  "m = ''orderBy'' \<or> m = ''orderByDescending'' \<Longrightarrow>
   order_chain [\<lparr>sortSelector = f, sortMethod = m\<rparr>]"
  by simp

lemma Series_executeLazySort_returns:
  assumes iv: "returns G (Index_toValues_st (Series_getIndex_st (sorted_source sd))) iv"
    and vs: "returns G (Series_toValues_st (sorted_source sd)) vs"
    and chain: "order_chain (sorted_cmds sd)"
    and ab: "apply_batch (\<lambda>orderCmd row. sortSelector orderCmd (js_at row 1)) (sorted_cmds sd)
               (E_zip iv vs (\<lambda>index value. Arr [index, value])) = Inr ordered"
    and G: "G (sorted_cache sd) = Some (CachedSorted (E_toArray ordered))"
  shows "returns G (Series_executeLazySort_st sd) (Inr (E_toArray ordered))"
  unfolding Series_executeLazySort_st_def
proof (rule returns_read_cell [of G "sorted_cache sd", OF G])
  show "returns G
     (case Some (CachedSorted (E_toArray ordered)) of
        Some (CachedSorted cachedSorted) \<Rightarrow> return (Inr cachedSorted)
      | _ \<Rightarrow>
          if list_ex (\<lambda>orderCmd. isl (validateSortMethod (sortMethod orderCmd))) (sorted_cmds sd)
          then return (Inl AssertionError)
          else State_Monad.bind (Index_toValues_st (Series_getIndex_st (sorted_source sd))) (\<lambda>indexValues.
               State_Monad.bind (Series_toValues_st (sorted_source sd)) (\<lambda>vs.
                 let valuesWithIndex = E_zip indexValues vs (\<lambda>index value. Arr [index, value])
                 in case apply_batch (\<lambda>orderCmd row. sortSelector orderCmd (js_at row 1))
                           (sorted_cmds sd) valuesWithIndex of
                      Inl e \<Rightarrow> return (Inl e)
                    | Inr ordered \<Rightarrow>
                        State_Monad.bind (write_cell (sorted_cache sd) (CachedSorted (E_toArray ordered)))
                          (\<lambda>_. return (Inr (E_toArray ordered))))))
     (Inr (E_toArray ordered))"
    by (simp add: returns_return)
  have "returns G
     (State_Monad.bind (Index_toValues_st (Series_getIndex_st (sorted_source sd))) (\<lambda>indexValues.
        State_Monad.bind (Series_toValues_st (sorted_source sd)) (\<lambda>vs.
          let valuesWithIndex = E_zip indexValues vs (\<lambda>index value. Arr [index, value])
          in case apply_batch (\<lambda>orderCmd row. sortSelector orderCmd (js_at row 1))
                    (sorted_cmds sd) valuesWithIndex of
               Inl e \<Rightarrow> return (Inl e)
             | Inr ordered \<Rightarrow>
                 State_Monad.bind (write_cell (sorted_cache sd) (CachedSorted (E_toArray ordered)))
                   (\<lambda>_. return (Inr (E_toArray ordered))))))
     (Inr (E_toArray ordered))"
    by (rule returns_bind [OF iv], rule returns_bind [OF vs], simp only: Let_def ab sum.case,
        rule returns_bind [OF returns_write_cell [of G "sorted_cache sd", OF G]],
        rule returns_return)
  then show "returns G
     (case None of
        Some (CachedSorted cachedSorted) \<Rightarrow> return (Inr cachedSorted)
      | _ \<Rightarrow>
          if list_ex (\<lambda>orderCmd. isl (validateSortMethod (sortMethod orderCmd))) (sorted_cmds sd)
          then return (Inl AssertionError)
          else State_Monad.bind (Index_toValues_st (Series_getIndex_st (sorted_source sd))) (\<lambda>indexValues.
               State_Monad.bind (Series_toValues_st (sorted_source sd)) (\<lambda>vs.
                 let valuesWithIndex = E_zip indexValues vs (\<lambda>index value. Arr [index, value])
                 in case apply_batch (\<lambda>orderCmd row. sortSelector orderCmd (js_at row 1))
                           (sorted_cmds sd) valuesWithIndex of
                      Inl e \<Rightarrow> return (Inl e)
                    | Inr ordered \<Rightarrow>
                        State_Monad.bind (write_cell (sorted_cache sd) (CachedSorted (E_toArray ordered)))
                          (\<lambda>_. return (Inr (E_toArray ordered))))))
     (Inr (E_toArray ordered))"
    by (simp add: validate_chain [OF chain])
qed

lemma creates_alloc_object:
  assumes "\<And>i. ident (obj i) = Some i" "\<And>i. Q G (obj i)"
  shows "creates G (State_Monad.bind alloc (\<lambda>i. return (obj i))) ident Q"
proof (rule createsI)
  fix s d s' assume s: "agrees G s"
    and run: "run_state (State_Monad.bind alloc (\<lambda>i. return (obj i))) s = (d, s')"
  from run have d: "d = obj (next_id s)" and s': "s' = s\<lparr>next_id := Suc (next_id s)\<rparr>"
    by (auto simp: alloc_def)
  have "agrees G s'" unfolding s' using s by (rule agrees_alloc)
  with assms show "next_id s \<le> next_id s'
        \<and> (\<forall>i. ident d = Some i \<longrightarrow> next_id s \<le> i \<and> i < next_id s')
        \<and> (\<exists>G'. G \<subseteq>\<^sub>m G' \<and> agrees G' s' \<and> Q G' d)"
    by (auto simp: d s' intro!: exI [of _ G])
qed

lemma Series_executeOrderBy_creates:
  assumes wf: "wf_Series G self" and chain: "order_chain batch"
  shows "creates G (Series_executeOrderBy_st self batch) (identity_of sorted_id)
           (\<lambda>G' d. \<forall>sd. d = Inr sd \<longrightarrow> wf_SortedSeries G' sd)"
proof -
  from wf_Index_toValues [OF wf_Series_index [OF wf]] obtain iv
    where iv: "returns G (Index_toValues_st (Series_getIndex_st self)) iv"
    unfolding determined_def by blast
  from wf_Series_toValues [OF wf] obtain vs where vs: "returns G (Series_toValues_st self) vs"
    unfolding determined_def by blast
  from apply_batch_chain [OF chain] obtain ordered
    where ab: "apply_batch (\<lambda>orderCmd row. sortSelector orderCmd (js_at row 1)) batch
                 (E_zip iv vs (\<lambda>index value. Arr [index, value])) = Inr ordered"
    by blast
  let ?c = "CachedSorted (E_toArray ordered)"
  have "creates G
     (State_Monad.bind alloc (\<lambda>cachedSorted.
        State_Monad.bind alloc (\<lambda>ix.
          State_Monad.bind alloc (\<lambda>i.
            return (Inr \<lparr>sorted_id = i, sorted_index_id = ix, sorted_source = self,
                          sorted_cmds = batch, sorted_cache = cachedSorted\<rparr>)))))
     (identity_of sorted_id) (\<lambda>G' d. \<forall>sd. d = Inr sd \<longrightarrow> wf_SortedSeries G' sd)"
  proof (rule creates_alloc_cell [where c = ?c], rule creates_bind [OF computes_alloc],
      rule creates_alloc_object)
    fix a ix i assume a: "G a = None"
    let ?G = "G(a \<mapsto> ?c)"
    let ?sd = "\<lparr>sorted_id = i, sorted_index_id = ix, sorted_source = self,
                 sorted_cmds = batch, sorted_cache = a\<rparr>"
    note le = map_le_fresh [of G a ?c, OF a]
    show "identity_of sorted_id (Inr ?sd) = Some i" by simp
    have "returns ?G (Series_executeLazySort_st ?sd) (Inr (E_toArray ordered))"
    proof (rule Series_executeLazySort_returns [where iv = iv and vs = vs])
      show "returns ?G (Index_toValues_st (Series_getIndex_st (sorted_source ?sd))) iv"
        using returns_mono [OF le iv] by simp
      show "returns ?G (Series_toValues_st (sorted_source ?sd)) vs"
        using returns_mono [OF le vs] by simp
      show "order_chain (sorted_cmds ?sd)" using chain by simp
      show "apply_batch (\<lambda>orderCmd row. sortSelector orderCmd (js_at row 1)) (sorted_cmds ?sd)
               (E_zip iv vs (\<lambda>index value. Arr [index, value])) = Inr ordered"
        using ab by (simp only: SortedSeriesS.simps)
      show "?G (sorted_cache ?sd) = Some (CachedSorted (E_toArray ordered))" by simp
    qed
    then have "wf_SortedSeries ?G ?sd"
      unfolding wf_SortedSeries_def using wf_Series_mono [OF le wf] chain by auto
    then show "\<forall>sd. Inr ?sd = Inr sd \<longrightarrow> wf_SortedSeries ?G sd" by simp
  qed
  then show ?thesis
    by (simp add: Series_executeOrderBy_st_def order_chain_nonempty [OF chain])
qed

lemma Series_orderBy_helper_creates:
  assumes wf: "wf_Series G self" and m: "m = ''orderBy'' \<or> m = ''orderByDescending''"
  shows "creates G (Series_orderBy_helper_st self m arg) (identity_of sorted_id)
           (\<lambda>G' d. \<forall>sd. d = Inr sd \<longrightarrow> wf_SortedSeries G' sd)"
proof (cases arg)
  case (IsFunction f)
  have "validateSortMethod m = Inr ()" using m by (auto simp: validateSortMethod_def)
  then show ?thesis
    using Series_executeOrderBy_creates [OF wf order_chain_first [OF m, of f]]
    by (simp add: IsFunction)
next
  case (NotFunction v)
  have "validateSortMethod m = Inr ()" using m by (auto simp: validateSortMethod_def)
  then show ?thesis by (simp add: NotFunction creates_return)
qed

lemma Series_orderThenBy_creates:
  assumes wf: "wf_SortedSeries G sd" and m: "m = ''thenBy'' \<or> m = ''thenByDescending''"
  shows "creates G (Series_orderThenBy_st (sorted_source sd) (sorted_cmds sd) m arg)
           (identity_of sorted_id) (\<lambda>G' d. \<forall>sd. d = Inr sd \<longrightarrow> wf_SortedSeries G' sd)"
proof (cases arg)
  case (IsFunction f)
  from wf have "wf_Series G (sorted_source sd)" "order_chain (sorted_cmds sd)"
    by (simp_all add: wf_SortedSeries_def)
  from Series_executeOrderBy_creates [OF this(1) order_chain_snoc [OF this(2) m, of f]]
  show ?thesis by (simp add: IsFunction)
next
  case (NotFunction v)
  then show ?thesis by (simp add: creates_return)
qed

lemma observe_SortedSeries_determined:
  assumes "wf_SortedSeries G sd"
  shows "determined G (observe_SortedSeries sd)"
proof -
  from assms have "determined G (Series_executeLazySort_st sd)"
    unfolding wf_SortedSeries_def determined_def by blast
  then show ?thesis
    unfolding observe_SortedSeries_def SortedSeries_toValues_st_def SortedSeries_index_toValues_st_def
    by (intro determined_bind determined_return)
qed


lemma leaves_originalI:
  assumes obs: "determined G observe"
    and cr: "creates G call ident Q"
    and use: "\<And>G' d. G \<subseteq>\<^sub>m G' \<Longrightarrow> Q G' d \<Longrightarrow> computes G' (use d) (\<lambda>r. True)"
    and s: "agrees G s" and orig: "original < next_id s"
  shows "leaves_original observe original call ident use s"
proof -
  from obs obtain v where v: "computes G observe (\<lambda>x. x = v)"
    unfolding determined_def returns_def by blast
  obtain before s0 where r0: "run_state observe s = (before, s0)" by (cases "run_state observe s")
  note 0 = computesD [OF v s r0]
  obtain d s1 where r1: "run_state call s0 = (d, s1)" by (cases "run_state call s0")
  note 1 = createsD [OF cr 0(2) r1]
  from 1(3) obtain G' where G': "G \<subseteq>\<^sub>m G'" "agrees G' s1" "Q G' d" by blast
  note v' = computes_mono [OF G'(1) v]
  obtain after_call s2 where r2: "run_state observe s1 = (after_call, s2)"
    by (cases "run_state observe s1")
  note 2 = computesD [OF v' G'(2) r2]
  obtain r s3 where r3: "run_state (use d) s2 = (r, s3)" by (cases "run_state (use d) s2")
  note 3 = computesD [OF use [OF G'(1,3)] 2(2) r3]
  obtain after_use s4 where r4: "run_state observe s3 = (after_use, s4)"
    by (cases "run_state observe s3")
  note 4 = computesD [OF v' 3(2) r4]
  have "ident d \<noteq> Some original"
  proof
    assume "ident d = Some original"
    from 1(2) [OF this] 0(3) orig show False by simp
  qed
  then show ?thesis
    unfolding leaves_original_def by (simp add: r0 r1 r2 r3 r4 0(1) 2(1) 4(1))
qed

lemma Series_frameI:
  assumes "wf_Series G self" "agrees G s" "series_id self < next_id s"
    and "creates G call (\<lambda>d. Some (series_id d)) wf_Series"
  shows "Series_frame self call s"
  unfolding Series_frame_def
  by (rule leaves_originalI [OF observe_Series_determined [OF assms(1)] assms(4) _ assms(2,3)])
     (rule determined_computes [OF observe_Series_determined])

lemma if_returned_SortedSeries:
  assumes "\<forall>sd. d = Inr sd \<longrightarrow> wf_SortedSeries G sd"
  shows "computes G (if_returned observe_SortedSeries d) (\<lambda>r. True)"
proof (cases d)
  case (Inl e)
  then show ?thesis by (simp add: computes_return)
next
  case (Inr sd)
  with assms have "determined G (observe_SortedSeries sd)"
    by (simp add: observe_SortedSeries_determined)
  then have "determined G (State_Monad.bind (observe_SortedSeries sd) (\<lambda>r. return (Some r)))"
    by (intro determined_bind determined_return)
  then show ?thesis by (simp add: Inr determined_computes)
qed

lemma Series_sort_frameI:
  assumes "wf_Series G self" "agrees G s" "series_id self < next_id s"
    and "creates G call (identity_of sorted_id) (\<lambda>G' d. \<forall>sd. d = Inr sd \<longrightarrow> wf_SortedSeries G' sd)"
  shows "Series_sort_frame self call s"
  unfolding Series_sort_frame_def
  by (rule leaves_originalI [OF observe_Series_determined [OF assms(1)] assms(4) _ assms(2,3)])
     (rule if_returned_SortedSeries)

lemma SortedSeries_frameI:
  assumes "wf_SortedSeries G sd" "agrees G s" "sorted_id sd < next_id s"
    and "creates G call (identity_of sorted_id) (\<lambda>G' d. \<forall>sd. d = Inr sd \<longrightarrow> wf_SortedSeries G' sd)"
  shows "SortedSeries_frame sd call s"
  unfolding SortedSeries_frame_def
  by (rule leaves_originalI [OF observe_SortedSeries_determined [OF assms(1)] assms(4) _ assms(2,3)])
     (rule if_returned_SortedSeries)

lemma Series_operators_frame:
  assumes wf: "wf_Series G self" and s: "agrees G s" and i: "series_id self < next_id s"
  shows "Series_frame self (Series_skip_st self n) s"
    "Series_frame self (Series_take_st self n) s"
    "Series_frame self (Series_skipWhile_st self p) s"
    "Series_frame self (Series_takeWhile_st self p) s"
    "Series_frame self (Series_where_st self p) s"
    "Series_frame self (Series_select_st self f) s"
    "Series_frame self (Series_selectMany_st self g) s"
    "Series_frame self (Series_reverse_st self) s"
    "Series_frame self (Series_bake_st self) s"
    "Series_sort_frame self (Series_orderBy_st self arg) s"
    "Series_sort_frame self (Series_orderByDescending_st self arg) s"
  unfolding Series_orderBy_st_def Series_orderByDescending_st_def
  by (intro Series_frameI [OF wf s i] Series_sort_frameI [OF wf s i]
        Series_skip_creates Series_take_creates Series_skipWhile_creates Series_takeWhile_creates
        Series_where_creates Series_select_creates Series_selectMany_creates
        Series_reverse_creates Series_bake_creates Series_orderBy_helper_creates wf disjI1 disjI2 refl)+

lemma SortedSeries_operators_frame:
  assumes wf: "wf_SortedSeries G sd" and s: "agrees G s" and i: "sorted_id sd < next_id s"
    and j: "series_id (sorted_source sd) < next_id s"
  shows "SortedSeries_frame sd (SortedSeries_thenBy_st sd arg) s"
    "SortedSeries_frame sd (SortedSeries_thenByDescending_st sd arg) s"
    "Series_sort_frame (sorted_source sd) (SortedSeries_thenBy_st sd arg) s"
    "Series_sort_frame (sorted_source sd) (SortedSeries_thenByDescending_st sd arg) s"
proof -
  from wf have src: "wf_Series G (sorted_source sd)" by (simp add: wf_SortedSeries_def)
  show "SortedSeries_frame sd (SortedSeries_thenBy_st sd arg) s"
    unfolding SortedSeries_thenBy_st_def
    by (rule SortedSeries_frameI [OF wf s i], rule Series_orderThenBy_creates [OF wf]) simp
  show "SortedSeries_frame sd (SortedSeries_thenByDescending_st sd arg) s"
    unfolding SortedSeries_thenByDescending_st_def
    by (rule SortedSeries_frameI [OF wf s i], rule Series_orderThenBy_creates [OF wf]) simp
  show "Series_sort_frame (sorted_source sd) (SortedSeries_thenBy_st sd arg) s"
    unfolding SortedSeries_thenBy_st_def
    by (rule Series_sort_frameI [OF src s j], rule Series_orderThenBy_creates [OF wf]) simp
  show "Series_sort_frame (sorted_source sd) (SortedSeries_thenByDescending_st sd arg) s"
    unfolding SortedSeries_thenByDescending_st_def
    by (rule Series_sort_frameI [OF src s j], rule Series_orderThenBy_creates [OF wf]) simp
qed

lemma wf_DataFrame_mono:
  assumes le: "G \<subseteq>\<^sub>m G'" and wf: "wf_DataFrame G self"
  shows "wf_DataFrame G' self"
proof (cases "frame_columnNames self")
  case (NamesArray names)
  with wf determined_mono [OF le] show ?thesis by (simp add: wf_DataFrame_def)
next
  case (NamesFunction f)
  with wf obtain names where n: "G (frame_id self) = Some (ColumnNames names)" "returns G f names"
    by (auto simp: wf_DataFrame_def)
  from n(1) le have "G' (frame_id self) = Some (ColumnNames names)"
    unfolding map_le_def by (metis domI)
  with returns_mono [OF le n(2)] wf determined_mono [OF le] NamesFunction
  show ?thesis by (auto simp: wf_DataFrame_def)
qed

lemma names_determined:
  assumes "case frame_columnNames self of
             NamesArray names \<Rightarrow> True
           | NamesFunction f \<Rightarrow>
               \<exists>names. G (frame_id self) = Some (ColumnNames names) \<and> returns G f names"
  shows "determined G (DataFrame_getColumnNames_st self)"
proof (cases "frame_columnNames self")
  case (NamesArray names)
  then show ?thesis by (simp add: DataFrame_getColumnNames_st_def determined_return)
next
  case (NamesFunction f)
  with assms obtain names where n: "G (frame_id self) = Some (ColumnNames names)" "returns G f names"
    by auto
  have "returns G (State_Monad.bind f (\<lambda>names. return (ColumnNames names))) (ColumnNames names)"
    by (rule returns_bind [OF n(2)], rule returns_return)
  from returns_cached [of G "frame_id self", OF n(1) this]
  show ?thesis
    unfolding DataFrame_getColumnNames_st_def NamesFunction names_field.case
    by (intro determined_bind determined_return determinedI)
qed

lemma wf_DataFrame_names: "wf_DataFrame G self \<Longrightarrow> determined G (DataFrame_getColumnNames_st self)"
  by (rule names_determined) (simp add: wf_DataFrame_def)

lemma wf_DataFrame_iterator: "wf_DataFrame G self \<Longrightarrow> determined G (DataFrame_getIterator_st self)"
  by (simp add: wf_DataFrame_def DataFrame_getIterator_st_def)

lemma wf_DataFrame_toValues: "wf_DataFrame G self \<Longrightarrow> determined G (DataFrame_toValues_st self)"
  unfolding DataFrame_toValues_st_def
  by (intro determined_bind determined_return wf_DataFrame_iterator)

lemma wf_DataFrame_rowMapper: "wf_DataFrame G self \<Longrightarrow> determined G (rowMapper_st self iterator)"
  unfolding rowMapper_st_def
  by (cases "remaining iterator = []")
     (simp_all add: determined_return determined_bind wf_DataFrame_names)

lemma wf_DataFrame_toObjects: "wf_DataFrame G self \<Longrightarrow> determined G (DataFrame_toObjects_st self)"
  unfolding DataFrame_toObjects_st_def
  by (intro determined_bind determined_return wf_DataFrame_iterator wf_DataFrame_rowMapper)

lemma determined_bind_const:
  assumes m: "computes G m P" and f: "\<And>u. P u \<Longrightarrow> f u = m'" and m': "determined G m'"
  shows "determined G (State_Monad.bind m f)"
proof -
  from m' obtain v where "returns G m' v" unfolding determined_def by blast
  with f have "\<And>u. P u \<Longrightarrow> returns G (f u) v" by simp
  from returns_bind_computes [OF m this] show ?thesis by (rule determinedI)
qed

text \<open>The producer of the Index that getIndex makes.\<close>

lemma computes_getIndex:
  "computes G (DataFrame_getIndex_st self)
     (\<lambda>ix. index_iterable ix =
        State_Monad.bind (DataFrame_getIterator_st self)
          (\<lambda>iterator. return (array_cursor (fst (collect_loop getCurrentIndex iterator [])))))"
  unfolding DataFrame_getIndex_st_def by (rule computes_new_Index)

lemma wf_DataFrame_getIndex:
  assumes "wf_DataFrame G self"
  shows "computes G (DataFrame_getIndex_st self) (wf_Index G)"
  by (rule computes_weaken [OF computes_getIndex])
     (simp add: wf_Index_def determined_bind determined_return wf_DataFrame_iterator [OF assms])

lemma determined_with_getIndex:
  assumes wf: "wf_DataFrame G self"
    and g: "\<And>indexIterator. determined G (g indexIterator)"
  shows "determined G
     (State_Monad.bind (DataFrame_getIndex_st self)
        (\<lambda>ix. State_Monad.bind (Index_getIterator_st ix) g))"
proof (rule determined_bind_const [OF computes_getIndex])
  fix ix :: IndexS
  assume "index_iterable ix =
        State_Monad.bind (DataFrame_getIterator_st self)
          (\<lambda>iterator. return (array_cursor (fst (collect_loop getCurrentIndex iterator []))))"
  then show "State_Monad.bind (Index_getIterator_st ix) g
     = State_Monad.bind (State_Monad.bind (DataFrame_getIterator_st self)
          (\<lambda>iterator. return (array_cursor (fst (collect_loop getCurrentIndex iterator []))))) g"
    by (simp only: Index_getIterator_st_def)
next
  show "determined G (State_Monad.bind (State_Monad.bind (DataFrame_getIterator_st self)
          (\<lambda>iterator. return (array_cursor (fst (collect_loop getCurrentIndex iterator []))))) g)"
    by (intro determined_bind determined_return wf_DataFrame_iterator [OF wf] g)
qed

lemma wf_DataFrame_multiIterator:
  "wf_DataFrame G self \<Longrightarrow> determined G (DataFrame_multiIterator self)"
  unfolding DataFrame_multiIterator_def
  by (intro determined_with_getIndex determined_bind determined_return wf_DataFrame_iterator)

lemma determined_with_getIndex_toValues:
  assumes wf: "wf_DataFrame G self"
    and g: "\<And>labels. determined G (g labels)"
  shows "determined G
     (State_Monad.bind (DataFrame_getIndex_st self)
        (\<lambda>ix. State_Monad.bind (Index_toValues_st ix) g))"
  unfolding Index_toValues_st_def State_Monad.bind_assoc
  by (intro determined_with_getIndex determined_bind determined_return g wf)

lemma observe_DataFrame_determined:
  assumes wf: "wf_DataFrame G self"
  shows "determined G (observe_DataFrame self)"
  unfolding observe_DataFrame_def
  by (rule determined_bind [OF wf_DataFrame_toValues [OF wf]],
      rule determined_with_getIndex_toValues [OF wf])
     (intro determined_bind determined_return wf_DataFrame_names wf)

lemmas DataFrame_determined =
  determined_bind determined_return wf_DataFrame_iterator wf_DataFrame_names
  wf_DataFrame_toValues wf_DataFrame_rowMapper wf_DataFrame_toObjects wf_DataFrame_multiIterator
  wf_Index_iterator wf_Index_toValues


lemma wf_config_mono:
  assumes le: "G \<subseteq>\<^sub>m G'" and wf: "wf_config G config"
  shows "wf_config G' config"
  using wf unfolding wf_config_def
  by (auto split: option.splits names_field.splits rows_configS.splits
        intro: determined_mono [OF le] wf_Index_mono [OF le])

lemma names_of_config_determined:
  assumes "wf_config G config" "names_of_config config = NamesFunction f"
  shows "determined G f"
  using assms unfolding wf_config_def names_of_config_def
  by (auto split: option.splits names_field.splits rows_configS.splits if_splits
        intro!: determined_bind determined_return)

lemma rows_of_config_determined:
  assumes "wf_config G config" "determined G (DataFrame_getColumnNames_st self)"
  shows "determined G (rows_of_config self config)"
  using assms unfolding wf_config_def rows_of_config_def
  by (auto split: option.splits names_field.splits rows_configS.splits if_splits
        intro!: determined_bind determined_return)

lemma creates_DataFrame_of:
  assumes cfg: "wf_config G config"
  shows "creates G (DataFrame_of_st config) (\<lambda>d. Some (frame_id d)) wf_DataFrame"
proof (rule createsI)
  fix s d s' assume s: "agrees G s" and run: "run_state (DataFrame_of_st config) s = (d, s')"
  let ?i = "next_id s"
  let ?u = "\<lparr>frame_id = ?i, frame_columnNames = names_of_config config,
             frame_iterable = return (array_cursor [])\<rparr>"
  let ?rows = "rows_of_config ?u config"
  from run have s': "s' = s\<lparr>next_id := Suc ?i\<rparr>"
    and d: "d = ?u\<lparr>frame_iterable :=
      (case cfgS_index config of
         Some ix \<Rightarrow> State_Monad.bind ?rows (\<lambda>iterator.
             State_Monad.bind (Index_getIterator_st ix) (\<lambda>indexIterator.
               return (ApplyIndexIterator iterator indexIterator)))
       | None \<Rightarrow> ?rows)\<rparr>"
    by (auto simp: DataFrame_of_st_def alloc_def Let_def)
  have none: "G ?i = None" using s unfolding agrees_def by (cases "G ?i") auto
  have "\<exists>G'. G \<subseteq>\<^sub>m G' \<and> agrees G' s'
          \<and> (case names_of_config config of
                NamesArray names \<Rightarrow> True
              | NamesFunction f \<Rightarrow>
                  \<exists>names. G' ?i = Some (ColumnNames names) \<and> returns G' f names)"
  proof (cases "names_of_config config")
    case (NamesArray names)
    moreover have "agrees G s'" unfolding s' using s by (rule agrees_alloc)
    ultimately show ?thesis by (auto intro!: exI [of _ G])
  next
    case (NamesFunction f)
    from names_of_config_determined [OF cfg this] obtain names where n: "returns G f names"
      unfolding determined_def by blast
    let ?G = "G(?i \<mapsto> ColumnNames names)"
    note le = map_le_fresh [of G ?i "ColumnNames names", OF none]
    have "agrees ?G s'" using s unfolding agrees_def s' by (auto simp: less_Suc_eq)
    with le returns_mono [OF le n] NamesFunction show ?thesis
      by (intro exI [of _ ?G]) auto
  qed
  then obtain G' where G': "G \<subseteq>\<^sub>m G'" "agrees G' s'"
    and names: "case names_of_config config of
                NamesArray names \<Rightarrow> True
              | NamesFunction f \<Rightarrow>
                  \<exists>names. G' ?i = Some (ColumnNames names) \<and> returns G' f names"
    by blast
  note cfg' = wf_config_mono [OF G'(1) cfg]
  have "determined G' (DataFrame_getColumnNames_st ?u)"
    by (rule names_determined) (use names in \<open>auto split: names_field.splits\<close>)
  note rows = rows_of_config_determined [OF cfg' this]
  have "determined G' (frame_iterable d)"
  proof (cases "cfgS_index config")
    case None
    with rows show ?thesis by (simp add: d)
  next
    case (Some ix)
    with cfg' have "wf_Index G' ix" by (simp add: wf_config_def)
    with rows show ?thesis
      unfolding d Some by (auto intro!: determined_bind determined_return wf_Index_iterator)
  qed
  with names have "wf_DataFrame G' d"
    by (auto simp: wf_DataFrame_def d split: names_field.splits)
  with G' show "next_id s \<le> next_id s'
        \<and> (\<forall>i. Some (frame_id d) = Some i \<longrightarrow> next_id s \<le> i \<and> i < next_id s')
        \<and> (\<exists>G'. G \<subseteq>\<^sub>m G' \<and> agrees G' s' \<and> wf_DataFrame G' d)"
    by (auto simp: d s')
qed

lemma wf_configI:
  assumes "\<And>f. names = Some (NamesFunction f) \<Longrightarrow> determined G f"
    and "\<And>producer. rows = Some (RowsFnS producer) \<Longrightarrow> determined G producer"
    and "wf_Index G ix"
  shows "wf_config G \<lparr>cfgS_columnNames = names, cfgS_rows = rows, cfgS_index = Some ix\<rparr>"
  using assms unfolding wf_config_def
  by (auto split: option.splits names_field.splits rows_configS.splits)

lemma creates_DataFrame_of_names:
  assumes "determined G producer" "wf_Index G ix"
  shows "creates G
     (DataFrame_of_st \<lparr>cfgS_columnNames = Some (NamesArray names),
                       cfgS_rows = Some (RowsFnS producer), cfgS_index = Some ix\<rparr>)
     (\<lambda>d. Some (frame_id d)) wf_DataFrame"
  by (rule creates_DataFrame_of, rule wf_configI) (use assms in auto)

lemma creates_DataFrame_of_lazy_names:
  assumes "determined G f" "determined G producer" "wf_Index G ix"
  shows "creates G
     (DataFrame_of_st \<lparr>cfgS_columnNames = Some (NamesFunction f),
                       cfgS_rows = Some (RowsFnS producer), cfgS_index = Some ix\<rparr>)
     (\<lambda>d. Some (frame_id d)) wf_DataFrame"
  by (rule creates_DataFrame_of, rule wf_configI) (use assms in auto)

lemma creates_DataFrame_of_producer:
  assumes "determined G producer" "wf_Index G ix"
  shows "creates G
     (DataFrame_of_st \<lparr>cfgS_columnNames = None,
                       cfgS_rows = Some (RowsFnS producer), cfgS_index = Some ix\<rparr>)
     (\<lambda>d. Some (frame_id d)) wf_DataFrame"
  by (rule creates_DataFrame_of, rule wf_configI) (use assms in auto)

lemma creates_DataFrame_of_array:
  assumes "wf_Index G ix"
  shows "creates G
     (DataFrame_of_st \<lparr>cfgS_columnNames = None,
                       cfgS_rows = Some (RowsArrayS rs), cfgS_index = Some ix\<rparr>)
     (\<lambda>d. Some (frame_id d)) wf_DataFrame"
  by (rule creates_DataFrame_of, rule wf_configI) (use assms in auto)

lemma creates_DataFrame_of_names_array:
  assumes "wf_Index G ix"
  shows "creates G
     (DataFrame_of_st \<lparr>cfgS_columnNames = Some (NamesArray names),
                       cfgS_rows = Some (RowsArrayS rs), cfgS_index = Some ix\<rparr>)
     (\<lambda>d. Some (frame_id d)) wf_DataFrame"
  by (rule creates_DataFrame_of, rule wf_configI) (use assms in auto)

lemma creates_getColumnNames:
  assumes "wf_DataFrame G self" "\<And>names. creates G (f names) ident Q"
  shows "creates G (State_Monad.bind (DataFrame_getColumnNames_st self) f) ident Q"
  by (rule creates_bind [OF determined_computes [OF wf_DataFrame_names [OF assms(1)]]])
     (rule assms(2))

lemma creates_toValues:
  assumes "wf_DataFrame G self" "\<And>rows. creates G (f rows) ident Q"
  shows "creates G (State_Monad.bind (DataFrame_toValues_st self) f) ident Q"
  by (rule creates_bind [OF determined_computes [OF wf_DataFrame_toValues [OF assms(1)]]])
     (rule assms(2))

lemma creates_toObjects:
  assumes "wf_DataFrame G self" "\<And>rows. creates G (f rows) ident Q"
  shows "creates G (State_Monad.bind (DataFrame_toObjects_st self) f) ident Q"
  by (rule creates_bind [OF determined_computes [OF wf_DataFrame_toObjects [OF assms(1)]]])
     (rule assms(2))

lemma creates_getIndex:
  assumes "wf_DataFrame G self" "\<And>ix. wf_Index G ix \<Longrightarrow> creates G (f ix) ident Q"
  shows "creates G (State_Monad.bind (DataFrame_getIndex_st self) f) ident Q"
  by (rule creates_bind [OF wf_DataFrame_getIndex [OF assms(1)]]) (rule assms(2))

lemma computes_Index_skip:
  "wf_Index G ix \<Longrightarrow> computes G (Index_skip_st ix n) (wf_Index G)"
  unfolding Index_skip_st_def
  by (rule computes_weaken [OF computes_new_Index])
     (simp add: wf_Index_def determined_bind determined_return wf_Index_iterator)

lemma computes_Index_take:
  "wf_Index G ix \<Longrightarrow> computes G (Index_take_st ix n) (wf_Index G)"
  unfolding Index_take_st_def
  by (rule computes_weaken [OF computes_new_Index])
     (simp add: wf_Index_def determined_bind determined_return wf_Index_iterator)

lemma creates_Index_skip:
  assumes "wf_Index G ix" "\<And>ix. wf_Index G ix \<Longrightarrow> creates G (f ix) ident Q"
  shows "creates G (State_Monad.bind (Index_skip_st ix n) f) ident Q"
  by (rule creates_bind [OF computes_Index_skip [OF assms(1)]]) (rule assms(2))

lemma creates_Index_take:
  assumes "wf_Index G ix" "\<And>ix. wf_Index G ix \<Longrightarrow> creates G (f ix) ident Q"
  shows "creates G (State_Monad.bind (Index_take_st ix n) f) ident Q"
  by (rule creates_bind [OF computes_Index_take [OF assms(1)]]) (rule assms(2))

lemma creates_Index_bake:
  assumes "wf_Index G ix" "\<And>ix. wf_Index G ix \<Longrightarrow> creates G (f ix) ident Q"
  shows "creates G (State_Monad.bind (Index_bake_st ix) f) ident Q"
  by (rule creates_bind [OF computes_Index_bake [OF assms(1)]]) (rule assms(2))

lemma creates_Index_reverse:
  assumes "wf_Index G ix" "\<And>ix. wf_Index G ix \<Longrightarrow> creates G (f ix) ident Q"
  shows "creates G (State_Monad.bind (Index_reverse_st ix) f) ident Q"
  by (rule creates_bind [OF computes_Index_reverse [OF assms(1)]]) (rule assms(2))

lemmas DataFrame_creates =
  creates_getColumnNames creates_toValues creates_toObjects creates_getIndex
  creates_Index_skip creates_Index_take creates_Index_bake creates_Index_reverse
  creates_new_Index creates_DataFrame_of_names creates_DataFrame_of_lazy_names
  creates_DataFrame_of_producer creates_DataFrame_of_array creates_DataFrame_of_names_array

lemma DataFrame_skip_creates:
  assumes wf: "wf_DataFrame G self"
  shows "creates G (DataFrame_skip_st self n) (\<lambda>d. Some (frame_id d)) wf_DataFrame"
  unfolding DataFrame_skip_st_def
  by (intro DataFrame_creates DataFrame_determined wf)

lemma DataFrame_take_creates:
  assumes wf: "wf_DataFrame G self"
  shows "creates G (DataFrame_take_st self n) (\<lambda>d. Some (frame_id d)) wf_DataFrame"
  unfolding DataFrame_take_st_def
  by (intro DataFrame_creates DataFrame_determined wf)

lemma DataFrame_skipWhile_creates:
  assumes wf: "wf_DataFrame G self"
  shows "creates G (DataFrame_skipWhile_st self p) (\<lambda>d. Some (frame_id d)) wf_DataFrame"
  unfolding DataFrame_skipWhile_st_def
  by (intro DataFrame_creates DataFrame_determined wf)

lemma DataFrame_takeWhile_creates:
  assumes wf: "wf_DataFrame G self"
  shows "creates G (DataFrame_takeWhile_st self p) (\<lambda>d. Some (frame_id d)) wf_DataFrame"
  unfolding DataFrame_takeWhile_st_def
  by (intro DataFrame_creates DataFrame_determined wf)

lemma DataFrame_where_creates:
  assumes wf: "wf_DataFrame G self"
  shows "creates G (DataFrame_where_st self p) (\<lambda>d. Some (frame_id d)) wf_DataFrame"
  unfolding DataFrame_where_st_def
  by (intro DataFrame_creates DataFrame_determined wf)

lemma DataFrame_selectMany_creates:
  assumes wf: "wf_DataFrame G self"
  shows "creates G (DataFrame_selectMany_st self f) (\<lambda>d. Some (frame_id d)) wf_DataFrame"
  unfolding DataFrame_selectMany_st_def
  by (intro DataFrame_creates DataFrame_determined wf)

lemma DataFrame_bake_creates:
  assumes wf: "wf_DataFrame G self"
  shows "creates G (DataFrame_bake_st self) (\<lambda>d. Some (frame_id d)) wf_DataFrame"
  unfolding DataFrame_bake_st_def
  by (intro DataFrame_creates DataFrame_determined wf)

lemma DataFrame_reverse_creates:
  assumes wf: "wf_DataFrame G self"
  shows "creates G (DataFrame_reverse_st self) (\<lambda>d. Some (frame_id d)) wf_DataFrame"
  unfolding DataFrame_reverse_st_def
  by (intro DataFrame_creates DataFrame_determined wf)

lemma select_determineColumnNames_determined:
  assumes wf: "wf_DataFrame G self"
  shows "determined G (DataFrame_select_determineColumnNames_st self f)"
  unfolding DataFrame_select_determineColumnNames_st_def
proof (rule determined_bind [OF wf_DataFrame_iterator [OF wf]])
  fix iterator
  show "determined G
     (let (ok, moved) = moveNext iterator
      in if \<not> ok then return []
         else State_Monad.bind (rowMapper_st self iterator)
                (\<lambda>mapRow. return (own_keys (f (mapRow (getCurrent moved))))))"
    by (cases "moveNext iterator")
       (simp add: determined_return determined_bind wf_DataFrame_rowMapper [OF wf])
qed

lemma DataFrame_select_creates:
  assumes wf: "wf_DataFrame G self"
  shows "creates G (DataFrame_select_st self f) (\<lambda>d. Some (frame_id d)) wf_DataFrame"
  unfolding DataFrame_select_st_def
  by (intro DataFrame_creates DataFrame_determined select_determineColumnNames_determined wf)


lemma returns_getIndex_toValues:
  assumes c: "returns G (DataFrame_getIterator_st self) c"
    and g: "returns G
      (g (fst (collect_loop getCurrent
                 (array_cursor (fst (collect_loop getCurrentIndex c []))) []))) v"
  shows "returns G
     (State_Monad.bind (DataFrame_getIndex_st self)
        (\<lambda>ix. State_Monad.bind (Index_toValues_st ix) g)) v"
proof (rule returns_bind_computes [OF computes_getIndex])
  fix ix :: IndexS
  let ?P = "State_Monad.bind (DataFrame_getIterator_st self)
          (\<lambda>iterator. return (array_cursor (fst (collect_loop getCurrentIndex iterator []))))"
  assume eq: "index_iterable ix = ?P"
  have "Index_toValues_st ix
    = State_Monad.bind ?P (\<lambda>iterator. return (fst (collect_loop getCurrent iterator [])))"
    by (simp only: Index_toValues_st_def Index_getIterator_st_def eq)
  moreover have "returns G ?P (array_cursor (fst (collect_loop getCurrentIndex c [])))"
    by (rule returns_bind [OF c], rule returns_return)
  then have "returns G
      (State_Monad.bind ?P (\<lambda>iterator. return (fst (collect_loop getCurrent iterator []))))
      (fst (collect_loop getCurrent (array_cursor (fst (collect_loop getCurrentIndex c []))) []))"
    by (rule returns_bind) (rule returns_return)
  ultimately show "returns G (State_Monad.bind (Index_toValues_st ix) g) v"
    using g by (simp only: returns_bind)
qed

lemma DataFrame_executeLazySort_returns:
  assumes c: "returns G (DataFrame_getIterator_st (sortedf_source sd)) c"
    and iv: "iv = fst (collect_loop getCurrent
                    (array_cursor (fst (collect_loop getCurrentIndex c []))) [])"
    and vs: "returns G (DataFrame_toValues_st (sortedf_source sd)) vs"
    and mr: "returns G (rowMapper_st (sortedf_source sd)
               (array_cursor (E_zip iv vs (\<lambda>index values. Arr (js_concat [index] values))))) mapRow"
    and chain: "order_chain (sortedf_cmds sd)"
    and ab: "apply_batch (\<lambda>orderCmd row. sortSelector orderCmd (mapRow (Arr (drop 1 (E_from row)))))
               (sortedf_cmds sd) (E_zip iv vs (\<lambda>index values. Arr (js_concat [index] values)))
             = Inr ordered"
    and G: "G (sortedf_cache sd) = Some (CachedSorted (E_toArray ordered))"
  shows "returns G (DataFrame_executeLazySort_st sd) (Inr (E_toArray ordered))"
  unfolding DataFrame_executeLazySort_st_def
proof (rule returns_read_cell [of G "sortedf_cache sd", OF G])
  let ?miss = "State_Monad.bind (DataFrame_getIndex_st (sortedf_source sd)) (\<lambda>ix.
      State_Monad.bind (Index_toValues_st ix) (\<lambda>indexValues.
        State_Monad.bind (DataFrame_toValues_st (sortedf_source sd)) (\<lambda>vs.
          let valuesWithIndex = E_zip indexValues vs (\<lambda>index values. Arr (js_concat [index] values))
          in State_Monad.bind (rowMapper_st (sortedf_source sd) (array_cursor valuesWithIndex)) (\<lambda>mapRow.
               case apply_batch
                      (\<lambda>orderCmd row. sortSelector orderCmd (mapRow (Arr (drop 1 (E_from row)))))
                      (sortedf_cmds sd) valuesWithIndex of
                 Inl e \<Rightarrow> return (Inl e)
               | Inr ordered \<Rightarrow>
                   State_Monad.bind (write_cell (sortedf_cache sd) (CachedSorted (E_toArray ordered)))
                     (\<lambda>_. return (Inr (E_toArray ordered)))))))"
  show "returns G
     (case Some (CachedSorted (E_toArray ordered)) of
        Some (CachedSorted cachedSorted) \<Rightarrow> return (Inr cachedSorted)
      | _ \<Rightarrow>
          if list_ex (\<lambda>orderCmd. isl (validateSortMethod (sortMethod orderCmd))) (sortedf_cmds sd)
          then return (Inl AssertionError)
          else ?miss)
     (Inr (E_toArray ordered))"
    by (simp add: returns_return)
  have "returns G ?miss (Inr (E_toArray ordered))"
    by (rule returns_getIndex_toValues [OF c], fold iv, rule returns_bind [OF vs],
        unfold Let_def, rule returns_bind [OF mr], simp only: ab sum.case,
        rule returns_bind [OF returns_write_cell [of G "sortedf_cache sd", OF G]],
        rule returns_return)
  then show "returns G
     (case None of
        Some (CachedSorted cachedSorted) \<Rightarrow> return (Inr cachedSorted)
      | _ \<Rightarrow>
          if list_ex (\<lambda>orderCmd. isl (validateSortMethod (sortMethod orderCmd))) (sortedf_cmds sd)
          then return (Inl AssertionError)
          else ?miss)
     (Inr (E_toArray ordered))"
    by (simp add: validate_chain [OF chain])
qed

lemma DataFrame_executeOrderBy_creates:
  assumes wf: "wf_DataFrame G self" and chain: "order_chain batch"
  shows "creates G (DataFrame_executeOrderBy_st self batch) (identity_of sortedf_id)
           (\<lambda>G' d. \<forall>sd. d = Inr sd \<longrightarrow> wf_SortedDataFrame G' sd)"
proof -
  from wf_DataFrame_iterator [OF wf] obtain c where c: "returns G (DataFrame_getIterator_st self) c"
    unfolding determined_def by blast
  define iv where "iv = fst (collect_loop getCurrent
                    (array_cursor (fst (collect_loop getCurrentIndex c []))) [])"
  from wf_DataFrame_toValues [OF wf] obtain vs where vs: "returns G (DataFrame_toValues_st self) vs"
    unfolding determined_def by blast
  let ?vwi = "E_zip iv vs (\<lambda>index values. Arr (js_concat [index] values))"
  from wf_DataFrame_rowMapper [OF wf, of "array_cursor ?vwi"] obtain mapRow
    where mr: "returns G (rowMapper_st self (array_cursor ?vwi)) mapRow"
    unfolding determined_def by blast
  from apply_batch_chain [OF chain] obtain ordered
    where ab: "apply_batch (\<lambda>orderCmd row. sortSelector orderCmd (mapRow (Arr (drop 1 (E_from row)))))
                 batch ?vwi = Inr ordered"
    by blast
  let ?c = "CachedSorted (E_toArray ordered)"
  have "creates G
     (State_Monad.bind alloc (\<lambda>cachedSorted.
        State_Monad.bind (DataFrame_getColumnNames_st self) (\<lambda>names.
          State_Monad.bind alloc (\<lambda>ix.
            State_Monad.bind alloc (\<lambda>i.
              return (Inr \<lparr>sortedf_id = i, sortedf_index_id = ix, sortedf_columnNames = names,
                            sortedf_source = self, sortedf_cmds = batch,
                            sortedf_cache = cachedSorted\<rparr>))))))
     (identity_of sortedf_id) (\<lambda>G' d. \<forall>sd. d = Inr sd \<longrightarrow> wf_SortedDataFrame G' sd)"
  proof (rule creates_alloc_cell [where c = ?c])
    fix a assume a: "G a = None"
    let ?G = "G(a \<mapsto> ?c)"
    note le = map_le_fresh [of G a ?c, OF a]
    note wf' = wf_DataFrame_mono [OF le wf]
    show "creates ?G
       (State_Monad.bind (DataFrame_getColumnNames_st self) (\<lambda>names.
          State_Monad.bind alloc (\<lambda>ix.
            State_Monad.bind alloc (\<lambda>i.
              return (Inr \<lparr>sortedf_id = i, sortedf_index_id = ix, sortedf_columnNames = names,
                            sortedf_source = self, sortedf_cmds = batch,
                            sortedf_cache = a\<rparr>)))))
       (identity_of sortedf_id) (\<lambda>G' d. \<forall>sd. d = Inr sd \<longrightarrow> wf_SortedDataFrame G' sd)"
    proof (rule creates_getColumnNames [OF wf'], rule creates_bind [OF computes_alloc],
        rule creates_alloc_object)
      fix names ix i
      let ?sd = "\<lparr>sortedf_id = i, sortedf_index_id = ix, sortedf_columnNames = names,
                   sortedf_source = self, sortedf_cmds = batch, sortedf_cache = a\<rparr>"
      show "identity_of sortedf_id (Inr ?sd) = Some i" by simp
      have "returns ?G (DataFrame_executeLazySort_st ?sd) (Inr (E_toArray ordered))"
      proof (rule DataFrame_executeLazySort_returns [where c = c and iv = iv and vs = vs
            and mapRow = mapRow])
        show "returns ?G (DataFrame_getIterator_st (sortedf_source ?sd)) c"
          using returns_mono [OF le c] by simp
        show "iv = fst (collect_loop getCurrent
                    (array_cursor (fst (collect_loop getCurrentIndex c []))) [])"
          by (rule iv_def)
        show "returns ?G (DataFrame_toValues_st (sortedf_source ?sd)) vs"
          using returns_mono [OF le vs] by simp
        show "returns ?G (rowMapper_st (sortedf_source ?sd) (array_cursor ?vwi)) mapRow"
          using returns_mono [OF le mr] by simp
        show "order_chain (sortedf_cmds ?sd)" using chain by simp
        show "apply_batch (\<lambda>orderCmd row. sortSelector orderCmd (mapRow (Arr (drop 1 (E_from row)))))
               (sortedf_cmds ?sd) ?vwi = Inr ordered"
          using ab by (simp only: SortedDataFrameS.simps)
        show "?G (sortedf_cache ?sd) = Some (CachedSorted (E_toArray ordered))" by simp
      qed
      then have "wf_SortedDataFrame ?G ?sd"
        unfolding wf_SortedDataFrame_def using wf' chain by auto
      then show "\<forall>sd. Inr ?sd = Inr sd \<longrightarrow> wf_SortedDataFrame ?G sd" by simp
    qed
  qed
  then show ?thesis
    by (simp add: DataFrame_executeOrderBy_st_def order_chain_nonempty [OF chain])
qed

lemma processColumnSelector_computes:
  assumes wf: "wf_DataFrame G self"
  shows "computes G (processColumnSelector_st self arg) (\<lambda>r. True)"
proof (cases arg)
  case (SelectorFunction f)
  then show ?thesis
    by (simp add: determined_computes determined_return)
next
  case (SelectorValue v)
  show ?thesis
    unfolding SelectorValue processColumnSelector_st.simps
    by (auto intro!: determined_computes determined_return determined_bind
                     wf_DataFrame_names [OF wf])
qed

lemma DataFrame_orderBy_helper_creates:
  assumes wf: "wf_DataFrame G self" and m: "m = ''orderBy'' \<or> m = ''orderByDescending''"
  shows "creates G
     (State_Monad.bind (processColumnSelector_st self arg)
        (\<lambda>r. case r of Inl e \<Rightarrow> return (Inl e)
              | Inr selector \<Rightarrow> DataFrame_orderBy_helper_st self m selector))
     (identity_of sortedf_id) (\<lambda>G' d. \<forall>sd. d = Inr sd \<longrightarrow> wf_SortedDataFrame G' sd)"
proof (rule creates_bind [OF processColumnSelector_computes [OF wf]])
  fix r :: "error + (jsval \<Rightarrow> jsval)"
  have v: "validateSortMethod m = Inr ()" using m by (auto simp: validateSortMethod_def)
  show "creates G
     (case r of Inl e \<Rightarrow> return (Inl e)
      | Inr selector \<Rightarrow> DataFrame_orderBy_helper_st self m selector)
     (identity_of sortedf_id) (\<lambda>G' d. \<forall>sd. d = Inr sd \<longrightarrow> wf_SortedDataFrame G' sd)"
  proof (cases r)
    case (Inl e)
    then show ?thesis by (simp add: creates_return)
  next
    case (Inr f)
    from DataFrame_executeOrderBy_creates [OF wf order_chain_first [OF m, of f]]
    show ?thesis by (simp add: Inr DataFrame_orderBy_helper_st_def v)
  qed
qed

lemma DataFrame_orderThenBy_creates:
  assumes wf: "wf_SortedDataFrame G sd" and m: "m = ''thenBy'' \<or> m = ''thenByDescending''"
  shows "creates G (DataFrame_orderThenBy_st (sortedf_source sd) (sortedf_cmds sd) m arg)
           (identity_of sortedf_id) (\<lambda>G' d. \<forall>sd. d = Inr sd \<longrightarrow> wf_SortedDataFrame G' sd)"
proof -
  from wf have src: "wf_DataFrame G (sortedf_source sd)" and chain: "order_chain (sortedf_cmds sd)"
    by (simp_all add: wf_SortedDataFrame_def)
  show ?thesis
    unfolding DataFrame_orderThenBy_st_def
  proof (rule creates_bind [OF processColumnSelector_computes [OF src]])
    fix r :: "error + (jsval \<Rightarrow> jsval)"
    show "creates G
       (case r of Inl e \<Rightarrow> return (Inl e)
        | Inr selector \<Rightarrow>
            DataFrame_executeOrderBy_st (sortedf_source sd)
              (sortedf_cmds sd @ [\<lparr>sortSelector = selector, sortMethod = m\<rparr>]))
       (identity_of sortedf_id) (\<lambda>G' d. \<forall>sd. d = Inr sd \<longrightarrow> wf_SortedDataFrame G' sd)"
    proof (cases r)
      case (Inl e)
      then show ?thesis by (simp add: creates_return)
    next
      case (Inr f)
      from DataFrame_executeOrderBy_creates [OF src order_chain_snoc [OF chain m, of f]]
      show ?thesis by (simp add: Inr)
    qed
  qed
qed

lemma observe_SortedDataFrame_determined:
  assumes "wf_SortedDataFrame G sd"
  shows "determined G (observe_SortedDataFrame sd)"
proof -
  from assms obtain rows where lazy: "returns G (DataFrame_executeLazySort_st sd) (Inr rows)"
    unfolding wf_SortedDataFrame_def by blast
  have it: "determined G (SortedDataFrame_getIterator_st sd)"
    unfolding SortedDataFrame_getIterator_st_def
    by (rule determinedI, rule returns_bind [OF lazy], simp only: sum.case,
        rule returns_bind [OF lazy], simp only: sum.case, rule returns_return)
  have "determined G (SortedDataFrame_index_toValues_st sd)"
    unfolding SortedDataFrame_index_toValues_st_def
    by (rule determined_bind_const [OF computes_alloc refl])
       (intro determined_bind determined_return it)
  then show ?thesis
    unfolding observe_SortedDataFrame_def SortedDataFrame_toValues_st_def
    by (intro determined_bind determined_return it)
qed

lemma if_returned_SortedDataFrame:
  assumes "\<forall>sd. d = Inr sd \<longrightarrow> wf_SortedDataFrame G sd"
  shows "computes G (if_returned observe_SortedDataFrame d) (\<lambda>r. True)"
proof (cases d)
  case (Inl e)
  then show ?thesis by (simp add: computes_return)
next
  case (Inr sd)
  with assms have "determined G (observe_SortedDataFrame sd)"
    by (simp add: observe_SortedDataFrame_determined)
  then have "determined G (State_Monad.bind (observe_SortedDataFrame sd) (\<lambda>r. return (Some r)))"
    by (intro determined_bind determined_return)
  then show ?thesis by (simp add: Inr determined_computes)
qed

lemma DataFrame_frameI:
  assumes "wf_DataFrame G self" "agrees G s" "frame_id self < next_id s"
    and "creates G call (\<lambda>d. Some (frame_id d)) wf_DataFrame"
  shows "DataFrame_frame self call s"
  unfolding DataFrame_frame_def
  by (rule leaves_originalI [OF observe_DataFrame_determined [OF assms(1)] assms(4) _ assms(2,3)])
     (rule determined_computes [OF observe_DataFrame_determined])

lemma DataFrame_sort_frameI:
  assumes "wf_DataFrame G self" "agrees G s" "frame_id self < next_id s"
    and "creates G call (identity_of sortedf_id)
           (\<lambda>G' d. \<forall>sd. d = Inr sd \<longrightarrow> wf_SortedDataFrame G' sd)"
  shows "DataFrame_sort_frame self call s"
  unfolding DataFrame_sort_frame_def
  by (rule leaves_originalI [OF observe_DataFrame_determined [OF assms(1)] assms(4) _ assms(2,3)])
     (rule if_returned_SortedDataFrame)

lemma SortedDataFrame_frameI:
  assumes "wf_SortedDataFrame G sd" "agrees G s" "sortedf_id sd < next_id s"
    and "creates G call (identity_of sortedf_id)
           (\<lambda>G' d. \<forall>sd. d = Inr sd \<longrightarrow> wf_SortedDataFrame G' sd)"
  shows "SortedDataFrame_frame_st sd call s"
  unfolding SortedDataFrame_frame_st_def
  by (rule leaves_originalI [OF observe_SortedDataFrame_determined [OF assms(1)] assms(4) _ assms(2,3)])
     (rule if_returned_SortedDataFrame)

lemma DataFrame_operators_frame:
  assumes wf: "wf_DataFrame G self" and s: "agrees G s" and i: "frame_id self < next_id s"
  shows "DataFrame_frame self (DataFrame_skip_st self n) s"
    "DataFrame_frame self (DataFrame_take_st self n) s"
    "DataFrame_frame self (DataFrame_skipWhile_st self p) s"
    "DataFrame_frame self (DataFrame_takeWhile_st self p) s"
    "DataFrame_frame self (DataFrame_where_st self p) s"
    "DataFrame_frame self (DataFrame_select_st self f) s"
    "DataFrame_frame self (DataFrame_selectMany_st self g) s"
    "DataFrame_frame self (DataFrame_reverse_st self) s"
    "DataFrame_frame self (DataFrame_bake_st self) s"
    "DataFrame_sort_frame self (DataFrame_orderBy_st self arg) s"
    "DataFrame_sort_frame self (DataFrame_orderByDescending_st self arg) s"
  unfolding DataFrame_orderBy_st_def DataFrame_orderByDescending_st_def
  by (intro DataFrame_frameI [OF wf s i] DataFrame_sort_frameI [OF wf s i]
        DataFrame_skip_creates DataFrame_take_creates DataFrame_skipWhile_creates
        DataFrame_takeWhile_creates DataFrame_where_creates DataFrame_select_creates
        DataFrame_selectMany_creates DataFrame_reverse_creates DataFrame_bake_creates
        DataFrame_orderBy_helper_creates wf disjI1 disjI2 refl)+

lemma SortedDataFrame_operators_frame:
  assumes wf: "wf_SortedDataFrame G sd" and s: "agrees G s" and i: "sortedf_id sd < next_id s"
    and j: "frame_id (sortedf_source sd) < next_id s"
  shows "SortedDataFrame_frame_st sd (SortedDataFrame_thenBy_st sd arg) s"
    "SortedDataFrame_frame_st sd (SortedDataFrame_thenByDescending_st sd arg) s"
    "DataFrame_sort_frame (sortedf_source sd) (SortedDataFrame_thenBy_st sd arg) s"
    "DataFrame_sort_frame (sortedf_source sd) (SortedDataFrame_thenByDescending_st sd arg) s"
proof -
  from wf have src: "wf_DataFrame G (sortedf_source sd)" by (simp add: wf_SortedDataFrame_def)
  show "SortedDataFrame_frame_st sd (SortedDataFrame_thenBy_st sd arg) s"
    unfolding SortedDataFrame_thenBy_st_def
    by (rule SortedDataFrame_frameI [OF wf s i], rule DataFrame_orderThenBy_creates [OF wf]) simp
  show "SortedDataFrame_frame_st sd (SortedDataFrame_thenByDescending_st sd arg) s"
    unfolding SortedDataFrame_thenByDescending_st_def
    by (rule SortedDataFrame_frameI [OF wf s i], rule DataFrame_orderThenBy_creates [OF wf]) simp
  show "DataFrame_sort_frame (sortedf_source sd) (SortedDataFrame_thenBy_st sd arg) s"
    unfolding SortedDataFrame_thenBy_st_def
    by (rule DataFrame_sort_frameI [OF src s j], rule DataFrame_orderThenBy_creates [OF wf]) simp
  show "DataFrame_sort_frame (sortedf_source sd) (SortedDataFrame_thenByDescending_st sd arg) s"
    unfolding SortedDataFrame_thenByDescending_st_def
    by (rule DataFrame_sort_frameI [OF src s j], rule DataFrame_orderThenBy_creates [OF wf]) simp
qed

text \<open>The objects the constructors make from arrays are well formed, and by the
  lemmas above so is what every operator makes of a well-formed object.\<close>

lemma Series_of_values_creates:
  "creates G (Series_of_values_st vs) (\<lambda>d. Some (series_id d)) wf_Series"
proof (rule createsI)
  fix s d s' assume s: "agrees G s" and run: "run_state (Series_of_values_st vs) s = (d, s')"
  from run have d: "series_id d = next_id s" "series_iterable d = return (array_cursor vs)"
      "index_iterable (series_index d)
         = return (array_cursor (map (\<lambda>k. Num (of_nat k)) [0..<count_loop (array_cursor vs) 0]))"
    and s': "s' = s\<lparr>next_id := Suc (Suc (next_id s))\<rparr>"
    by (auto simp: Series_of_values_st_def new_Index_def alloc_def)
  have "wf_Series G d" by (simp add: wf_Series_def wf_Index_def d determined_return)
  moreover have "agrees G s'" unfolding s' using agrees_alloc [OF agrees_alloc [OF s]] by simp
  ultimately show "next_id s \<le> next_id s'
        \<and> (\<forall>i. Some (series_id d) = Some i \<longrightarrow> next_id s \<le> i \<and> i < next_id s')
        \<and> (\<exists>G'. G \<subseteq>\<^sub>m G' \<and> agrees G' s' \<and> wf_Series G' d)"
    by (auto simp: d s' intro!: exI [of _ G])
qed

lemma DataFrame_of_arrays_creates:
  assumes "\<And>f. names \<noteq> Some (NamesFunction f)"
  shows "creates G
     (DataFrame_of_st \<lparr>cfgS_columnNames = names, cfgS_rows = Some (RowsArrayS rs), cfgS_index = None\<rparr>)
     (\<lambda>d. Some (frame_id d)) wf_DataFrame"
  using assms
  by (intro creates_DataFrame_of)
     (auto simp: wf_config_def split: option.splits names_field.splits)

lemma wf_SortedSeriesI:
  assumes wf: "wf_Series G src" and chain: "order_chain cmds"
    and iv: "returns G (Index_toValues_st (Series_getIndex_st src)) iv"
    and vs: "returns G (Series_toValues_st src) vs"
    and G: "G a = Some (CachedSorted (E_toArray (OrderedEnumerable
               (E_zip iv vs (\<lambda>index value. Arr [index, value]))
               (map (\<lambda>c. (\<lambda>row. sortSelector c (js_at row 1), descending_method (sortMethod c)))
                  cmds))))"
  shows "wf_SortedSeries G \<lparr>sorted_id = i, sorted_index_id = ix, sorted_source = src,
           sorted_cmds = cmds, sorted_cache = a\<rparr>"
proof -
  let ?sd = "\<lparr>sorted_id = i, sorted_index_id = ix, sorted_source = src,
               sorted_cmds = cmds, sorted_cache = a\<rparr>"
  let ?ordered = "OrderedEnumerable
               (E_zip iv vs (\<lambda>index value. Arr [index, value]))
               (map (\<lambda>c. (\<lambda>row. sortSelector c (js_at row 1), descending_method (sortMethod c)))
                  cmds)"
  have "returns G (Series_executeLazySort_st ?sd) (Inr (E_toArray ?ordered))"
  proof (rule Series_executeLazySort_returns [where iv = iv and vs = vs])
    show "returns G (Index_toValues_st (Series_getIndex_st (sorted_source ?sd))) iv"
      using iv by simp
    show "returns G (Series_toValues_st (sorted_source ?sd)) vs" using vs by simp
    show "order_chain (sorted_cmds ?sd)" using chain by simp
    show "apply_batch (\<lambda>orderCmd row. sortSelector orderCmd (js_at row 1)) (sorted_cmds ?sd)
               (E_zip iv vs (\<lambda>index value. Arr [index, value])) = Inr ?ordered"
      using apply_batch_chain [OF chain] by (simp only: SortedSeriesS.simps)
    show "G (sorted_cache ?sd) = Some (CachedSorted (E_toArray ?ordered))" using G by simp
  qed
  then show ?thesis
    unfolding wf_SortedSeries_def using wf chain G by auto
qed

lemma wf_SortedDataFrameI:
  assumes wf: "wf_DataFrame G src" and chain: "order_chain cmds"
    and c: "returns G (DataFrame_getIterator_st src) c"
    and iv: "iv = fst (collect_loop getCurrent
                    (array_cursor (fst (collect_loop getCurrentIndex c []))) [])"
    and vs: "returns G (DataFrame_toValues_st src) vs"
    and mr: "returns G (rowMapper_st src
               (array_cursor (E_zip iv vs (\<lambda>index values. Arr (js_concat [index] values))))) mapRow"
    and G: "G a = Some (CachedSorted (E_toArray (OrderedEnumerable
               (E_zip iv vs (\<lambda>index values. Arr (js_concat [index] values)))
               (map (\<lambda>c. (\<lambda>row. sortSelector c (mapRow (Arr (drop 1 (E_from row)))),
                          descending_method (sortMethod c)))
                  cmds))))"
  shows "wf_SortedDataFrame G \<lparr>sortedf_id = i, sortedf_index_id = ix, sortedf_columnNames = names,
           sortedf_source = src, sortedf_cmds = cmds, sortedf_cache = a\<rparr>"
proof -
  let ?sd = "\<lparr>sortedf_id = i, sortedf_index_id = ix, sortedf_columnNames = names,
               sortedf_source = src, sortedf_cmds = cmds, sortedf_cache = a\<rparr>"
  let ?vwi = "E_zip iv vs (\<lambda>index values. Arr (js_concat [index] values))"
  let ?ordered = "OrderedEnumerable ?vwi
               (map (\<lambda>c. (\<lambda>row. sortSelector c (mapRow (Arr (drop 1 (E_from row)))),
                          descending_method (sortMethod c)))
                  cmds)"
  have "returns G (DataFrame_executeLazySort_st ?sd) (Inr (E_toArray ?ordered))"
  proof (rule DataFrame_executeLazySort_returns [where c = c and iv = iv and vs = vs
        and mapRow = mapRow])
    show "returns G (DataFrame_getIterator_st (sortedf_source ?sd)) c" using c by simp
    show "iv = fst (collect_loop getCurrent
                    (array_cursor (fst (collect_loop getCurrentIndex c []))) [])"
      by (rule iv)
    show "returns G (DataFrame_toValues_st (sortedf_source ?sd)) vs" using vs by simp
    show "returns G (rowMapper_st (sortedf_source ?sd) (array_cursor ?vwi)) mapRow"
      using mr by simp
    show "order_chain (sortedf_cmds ?sd)" using chain by simp
    show "apply_batch (\<lambda>orderCmd row. sortSelector orderCmd (mapRow (Arr (drop 1 (E_from row)))))
               (sortedf_cmds ?sd) ?vwi = Inr ?ordered"
      using apply_batch_chain [OF chain] by (simp only: SortedDataFrameS.simps)
    show "G (sortedf_cache ?sd) = Some (CachedSorted (E_toArray ?ordered))" using G by simp
  qed
  then show ?thesis
    unfolding wf_SortedDataFrame_def using wf chain G by auto
qed

lemma series_example_values:
  "fst (collect_loop getCurrent (array_cursor [Num 0, Num 1, Num 2]) []) = [Num 0, Num 1, Num 2]"
  "fst (collect_loop getCurrent (array_cursor [Num 3, Num 1, Num 2]) []) = [Num 3, Num 1, Num 2]"
  by code_simp+

text \<open>
  C7: the frame effect of the operators. For a Series, a DataFrame and a sorted Series
  and sorted DataFrame that are well formed in a store, each of \<open>skip\<close>, \<open>take\<close>,
  \<open>skipWhile\<close>, \<open>takeWhile\<close>, \<open>where\<close>, \<open>select\<close>, \<open>selectMany\<close>, \<open>reverse\<close>,
  \<open>bake\<close>, \<open>orderBy\<close>, \<open>orderByDescending\<close> and, on the sorted objects, \<open>thenBy\<close> and
  \<open>thenByDescending\<close> returns an object whose identity is not that of the object it
  was called on, and what the original yields for \<open>toValues()\<close>,
  \<open>getIndex().toValues()\<close> and \<open>getColumnNames()\<close> is the same before the call, after
  the call, and after the returned object has been read. For \<open>thenBy\<close> and
  \<open>thenByDescending\<close> this holds of the sorted object they are called on, whose
  ordering is therefore unchanged, and of the object that was sorted.
\<close>

theorem operators_leave_original_unchanged:
  assumes s: "agrees G s"
    and series: "wf_Series G series" "series_id series < next_id s"
    and sortedSeries: "wf_SortedSeries G sortedSeries" "sorted_id sortedSeries < next_id s"
      "series_id (sorted_source sortedSeries) < next_id s"
    and df: "wf_DataFrame G df" "frame_id df < next_id s"
    and sortedDataFrame: "wf_SortedDataFrame G sortedDataFrame"
      "sortedf_id sortedDataFrame < next_id s"
      "frame_id (sortedf_source sortedDataFrame) < next_id s"
  shows "Series_frame series (Series_skip_st series numRows) s
       \<and> Series_frame series (Series_take_st series numRows) s
       \<and> Series_frame series (Series_skipWhile_st series predicate) s
       \<and> Series_frame series (Series_takeWhile_st series predicate) s
       \<and> Series_frame series (Series_where_st series predicate) s
       \<and> Series_frame series (Series_select_st series selector) s
       \<and> Series_frame series (Series_selectMany_st series manySelector) s
       \<and> Series_frame series (Series_reverse_st series) s
       \<and> Series_frame series (Series_bake_st series) s
       \<and> Series_sort_frame series (Series_orderBy_st series sortSelectorArg) s
       \<and> Series_sort_frame series (Series_orderByDescending_st series sortSelectorArg) s
       \<and> SortedSeries_frame sortedSeries (SortedSeries_thenBy_st sortedSeries sortSelectorArg) s
       \<and> SortedSeries_frame sortedSeries
            (SortedSeries_thenByDescending_st sortedSeries sortSelectorArg) s
       \<and> Series_sort_frame (sorted_source sortedSeries)
            (SortedSeries_thenBy_st sortedSeries sortSelectorArg) s
       \<and> Series_sort_frame (sorted_source sortedSeries)
            (SortedSeries_thenByDescending_st sortedSeries sortSelectorArg) s
       \<and> DataFrame_frame df (DataFrame_skip_st df numRows) s
       \<and> DataFrame_frame df (DataFrame_take_st df numRows) s
       \<and> DataFrame_frame df (DataFrame_skipWhile_st df predicate) s
       \<and> DataFrame_frame df (DataFrame_takeWhile_st df predicate) s
       \<and> DataFrame_frame df (DataFrame_where_st df predicate) s
       \<and> DataFrame_frame df (DataFrame_select_st df selector) s
       \<and> DataFrame_frame df (DataFrame_selectMany_st df manySelector) s
       \<and> DataFrame_frame df (DataFrame_reverse_st df) s
       \<and> DataFrame_frame df (DataFrame_bake_st df) s
       \<and> DataFrame_sort_frame df (DataFrame_orderBy_st df columnSelector) s
       \<and> DataFrame_sort_frame df (DataFrame_orderByDescending_st df columnSelector) s
       \<and> SortedDataFrame_frame_st sortedDataFrame
            (SortedDataFrame_thenBy_st sortedDataFrame columnSelector) s
       \<and> SortedDataFrame_frame_st sortedDataFrame
            (SortedDataFrame_thenByDescending_st sortedDataFrame columnSelector) s
       \<and> DataFrame_sort_frame (sortedf_source sortedDataFrame)
            (SortedDataFrame_thenBy_st sortedDataFrame columnSelector) s
       \<and> DataFrame_sort_frame (sortedf_source sortedDataFrame)
            (SortedDataFrame_thenByDescending_st sortedDataFrame columnSelector) s"
  by (intro conjI
        Series_operators_frame [OF series(1) s series(2)]
        SortedSeries_operators_frame [OF sortedSeries(1) s sortedSeries(2,3)]
        DataFrame_operators_frame [OF df(1) s df(2)]
        SortedDataFrame_operators_frame [OF sortedDataFrame(1) s sortedDataFrame(2,3)])

theorem operators_leave_original_unchanged_witness:
  "agrees [(2::nat) \<mapsto> CachedSorted [Arr [Num 1, Num 1], Arr [Num 2, Num 2], Arr [Num 0, Num 3]], 5 \<mapsto> ColumnNames [''n'', ''s''], 6 \<mapsto> CachedSorted [Arr [Num 1, Num 2, Str ''b''], Arr [Num 0, Num 1, Str ''a'']]] \<lparr>next_id = 9, cells = [5 \<mapsto> ColumnNames [''n'', ''s'']]\<rparr>
   \<and> wf_Series [(2::nat) \<mapsto> CachedSorted [Arr [Num 1, Num 1], Arr [Num 2, Num 2], Arr [Num 0, Num 3]], 5 \<mapsto> ColumnNames [''n'', ''s''], 6 \<mapsto> CachedSorted [Arr [Num 1, Num 2, Str ''b''], Arr [Num 0, Num 1, Str ''a'']]] \<lparr>series_id = 1, series_iterable = return (array_cursor [Num 3, Num 1, Num 2]), series_index = \<lparr>index_id = 0, index_iterable = return (array_cursor [Num 0, Num 1, Num 2])\<rparr>\<rparr> \<and> series_id \<lparr>series_id = 1, series_iterable = return (array_cursor [Num 3, Num 1, Num 2]), series_index = \<lparr>index_id = 0, index_iterable = return (array_cursor [Num 0, Num 1, Num 2])\<rparr>\<rparr> < next_id \<lparr>next_id = 9, cells = [5 \<mapsto> ColumnNames [''n'', ''s'']]\<rparr>
   \<and> wf_SortedSeries [(2::nat) \<mapsto> CachedSorted [Arr [Num 1, Num 1], Arr [Num 2, Num 2], Arr [Num 0, Num 3]], 5 \<mapsto> ColumnNames [''n'', ''s''], 6 \<mapsto> CachedSorted [Arr [Num 1, Num 2, Str ''b''], Arr [Num 0, Num 1, Str ''a'']]] \<lparr>sorted_id = 4, sorted_index_id = 3, sorted_source = \<lparr>series_id = 1, series_iterable = return (array_cursor [Num 3, Num 1, Num 2]), series_index = \<lparr>index_id = 0, index_iterable = return (array_cursor [Num 0, Num 1, Num 2])\<rparr>\<rparr>, sorted_cmds = [\<lparr>sortSelector = (\<lambda>v. v), sortMethod = ''orderBy''\<rparr>], sorted_cache = 2\<rparr> \<and> sorted_id \<lparr>sorted_id = 4, sorted_index_id = 3, sorted_source = \<lparr>series_id = 1, series_iterable = return (array_cursor [Num 3, Num 1, Num 2]), series_index = \<lparr>index_id = 0, index_iterable = return (array_cursor [Num 0, Num 1, Num 2])\<rparr>\<rparr>, sorted_cmds = [\<lparr>sortSelector = (\<lambda>v. v), sortMethod = ''orderBy''\<rparr>], sorted_cache = 2\<rparr> < next_id \<lparr>next_id = 9, cells = [5 \<mapsto> ColumnNames [''n'', ''s'']]\<rparr>
   \<and> series_id (sorted_source \<lparr>sorted_id = 4, sorted_index_id = 3, sorted_source = \<lparr>series_id = 1, series_iterable = return (array_cursor [Num 3, Num 1, Num 2]), series_index = \<lparr>index_id = 0, index_iterable = return (array_cursor [Num 0, Num 1, Num 2])\<rparr>\<rparr>, sorted_cmds = [\<lparr>sortSelector = (\<lambda>v. v), sortMethod = ''orderBy''\<rparr>], sorted_cache = 2\<rparr>) < next_id \<lparr>next_id = 9, cells = [5 \<mapsto> ColumnNames [''n'', ''s'']]\<rparr>
   \<and> wf_DataFrame [(2::nat) \<mapsto> CachedSorted [Arr [Num 1, Num 1], Arr [Num 2, Num 2], Arr [Num 0, Num 3]], 5 \<mapsto> ColumnNames [''n'', ''s''], 6 \<mapsto> CachedSorted [Arr [Num 1, Num 2, Str ''b''], Arr [Num 0, Num 1, Str ''a'']]] \<lparr>frame_id = 5, frame_columnNames = NamesFunction (return [''n'', ''s'']), frame_iterable = return (array_cursor [Arr [Num 1, Str ''a''], Arr [Num 2, Str ''b'']])\<rparr> \<and> frame_id \<lparr>frame_id = 5, frame_columnNames = NamesFunction (return [''n'', ''s'']), frame_iterable = return (array_cursor [Arr [Num 1, Str ''a''], Arr [Num 2, Str ''b'']])\<rparr> < next_id \<lparr>next_id = 9, cells = [5 \<mapsto> ColumnNames [''n'', ''s'']]\<rparr>
   \<and> wf_SortedDataFrame [(2::nat) \<mapsto> CachedSorted [Arr [Num 1, Num 1], Arr [Num 2, Num 2], Arr [Num 0, Num 3]], 5 \<mapsto> ColumnNames [''n'', ''s''], 6 \<mapsto> CachedSorted [Arr [Num 1, Num 2, Str ''b''], Arr [Num 0, Num 1, Str ''a'']]] \<lparr>sortedf_id = 8, sortedf_index_id = 7, sortedf_columnNames = [''n'', ''s''], sortedf_source = \<lparr>frame_id = 5, frame_columnNames = NamesFunction (return [''n'', ''s'']), frame_iterable = return (array_cursor [Arr [Num 1, Str ''a''], Arr [Num 2, Str ''b'']])\<rparr>, sortedf_cmds = [\<lparr>sortSelector = (\<lambda>row. js_get row ''n''), sortMethod = ''orderByDescending''\<rparr>], sortedf_cache = 6\<rparr> \<and> sortedf_id \<lparr>sortedf_id = 8, sortedf_index_id = 7, sortedf_columnNames = [''n'', ''s''], sortedf_source = \<lparr>frame_id = 5, frame_columnNames = NamesFunction (return [''n'', ''s'']), frame_iterable = return (array_cursor [Arr [Num 1, Str ''a''], Arr [Num 2, Str ''b'']])\<rparr>, sortedf_cmds = [\<lparr>sortSelector = (\<lambda>row. js_get row ''n''), sortMethod = ''orderByDescending''\<rparr>], sortedf_cache = 6\<rparr> < next_id \<lparr>next_id = 9, cells = [5 \<mapsto> ColumnNames [''n'', ''s'']]\<rparr>
   \<and> frame_id (sortedf_source \<lparr>sortedf_id = 8, sortedf_index_id = 7, sortedf_columnNames = [''n'', ''s''], sortedf_source = \<lparr>frame_id = 5, frame_columnNames = NamesFunction (return [''n'', ''s'']), frame_iterable = return (array_cursor [Arr [Num 1, Str ''a''], Arr [Num 2, Str ''b'']])\<rparr>, sortedf_cmds = [\<lparr>sortSelector = (\<lambda>row. js_get row ''n''), sortMethod = ''orderByDescending''\<rparr>], sortedf_cache = 6\<rparr>) < next_id \<lparr>next_id = 9, cells = [5 \<mapsto> ColumnNames [''n'', ''s'']]\<rparr>
   \<and> Series_frame \<lparr>series_id = 1, series_iterable = return (array_cursor [Num 3, Num 1, Num 2]), series_index = \<lparr>index_id = 0, index_iterable = return (array_cursor [Num 0, Num 1, Num 2])\<rparr>\<rparr> (Series_skip_st \<lparr>series_id = 1, series_iterable = return (array_cursor [Num 3, Num 1, Num 2]), series_index = \<lparr>index_id = 0, index_iterable = return (array_cursor [Num 0, Num 1, Num 2])\<rparr>\<rparr> 1) \<lparr>next_id = 9, cells = [5 \<mapsto> ColumnNames [''n'', ''s'']]\<rparr>
       \<and> Series_frame \<lparr>series_id = 1, series_iterable = return (array_cursor [Num 3, Num 1, Num 2]), series_index = \<lparr>index_id = 0, index_iterable = return (array_cursor [Num 0, Num 1, Num 2])\<rparr>\<rparr> (Series_take_st \<lparr>series_id = 1, series_iterable = return (array_cursor [Num 3, Num 1, Num 2]), series_index = \<lparr>index_id = 0, index_iterable = return (array_cursor [Num 0, Num 1, Num 2])\<rparr>\<rparr> 1) \<lparr>next_id = 9, cells = [5 \<mapsto> ColumnNames [''n'', ''s'']]\<rparr>
       \<and> Series_frame \<lparr>series_id = 1, series_iterable = return (array_cursor [Num 3, Num 1, Num 2]), series_index = \<lparr>index_id = 0, index_iterable = return (array_cursor [Num 0, Num 1, Num 2])\<rparr>\<rparr> (Series_skipWhile_st \<lparr>series_id = 1, series_iterable = return (array_cursor [Num 3, Num 1, Num 2]), series_index = \<lparr>index_id = 0, index_iterable = return (array_cursor [Num 0, Num 1, Num 2])\<rparr>\<rparr> (\<lambda>v. v = Num 3)) \<lparr>next_id = 9, cells = [5 \<mapsto> ColumnNames [''n'', ''s'']]\<rparr>
       \<and> Series_frame \<lparr>series_id = 1, series_iterable = return (array_cursor [Num 3, Num 1, Num 2]), series_index = \<lparr>index_id = 0, index_iterable = return (array_cursor [Num 0, Num 1, Num 2])\<rparr>\<rparr> (Series_takeWhile_st \<lparr>series_id = 1, series_iterable = return (array_cursor [Num 3, Num 1, Num 2]), series_index = \<lparr>index_id = 0, index_iterable = return (array_cursor [Num 0, Num 1, Num 2])\<rparr>\<rparr> (\<lambda>v. v = Num 3)) \<lparr>next_id = 9, cells = [5 \<mapsto> ColumnNames [''n'', ''s'']]\<rparr>
       \<and> Series_frame \<lparr>series_id = 1, series_iterable = return (array_cursor [Num 3, Num 1, Num 2]), series_index = \<lparr>index_id = 0, index_iterable = return (array_cursor [Num 0, Num 1, Num 2])\<rparr>\<rparr> (Series_where_st \<lparr>series_id = 1, series_iterable = return (array_cursor [Num 3, Num 1, Num 2]), series_index = \<lparr>index_id = 0, index_iterable = return (array_cursor [Num 0, Num 1, Num 2])\<rparr>\<rparr> (\<lambda>v. v = Num 3)) \<lparr>next_id = 9, cells = [5 \<mapsto> ColumnNames [''n'', ''s'']]\<rparr>
       \<and> Series_frame \<lparr>series_id = 1, series_iterable = return (array_cursor [Num 3, Num 1, Num 2]), series_index = \<lparr>index_id = 0, index_iterable = return (array_cursor [Num 0, Num 1, Num 2])\<rparr>\<rparr> (Series_select_st \<lparr>series_id = 1, series_iterable = return (array_cursor [Num 3, Num 1, Num 2]), series_index = \<lparr>index_id = 0, index_iterable = return (array_cursor [Num 0, Num 1, Num 2])\<rparr>\<rparr> (\<lambda>v. v)) \<lparr>next_id = 9, cells = [5 \<mapsto> ColumnNames [''n'', ''s'']]\<rparr>
       \<and> Series_frame \<lparr>series_id = 1, series_iterable = return (array_cursor [Num 3, Num 1, Num 2]), series_index = \<lparr>index_id = 0, index_iterable = return (array_cursor [Num 0, Num 1, Num 2])\<rparr>\<rparr> (Series_selectMany_st \<lparr>series_id = 1, series_iterable = return (array_cursor [Num 3, Num 1, Num 2]), series_index = \<lparr>index_id = 0, index_iterable = return (array_cursor [Num 0, Num 1, Num 2])\<rparr>\<rparr> (\<lambda>v. [v, v])) \<lparr>next_id = 9, cells = [5 \<mapsto> ColumnNames [''n'', ''s'']]\<rparr>
       \<and> Series_frame \<lparr>series_id = 1, series_iterable = return (array_cursor [Num 3, Num 1, Num 2]), series_index = \<lparr>index_id = 0, index_iterable = return (array_cursor [Num 0, Num 1, Num 2])\<rparr>\<rparr> (Series_reverse_st \<lparr>series_id = 1, series_iterable = return (array_cursor [Num 3, Num 1, Num 2]), series_index = \<lparr>index_id = 0, index_iterable = return (array_cursor [Num 0, Num 1, Num 2])\<rparr>\<rparr>) \<lparr>next_id = 9, cells = [5 \<mapsto> ColumnNames [''n'', ''s'']]\<rparr>
       \<and> Series_frame \<lparr>series_id = 1, series_iterable = return (array_cursor [Num 3, Num 1, Num 2]), series_index = \<lparr>index_id = 0, index_iterable = return (array_cursor [Num 0, Num 1, Num 2])\<rparr>\<rparr> (Series_bake_st \<lparr>series_id = 1, series_iterable = return (array_cursor [Num 3, Num 1, Num 2]), series_index = \<lparr>index_id = 0, index_iterable = return (array_cursor [Num 0, Num 1, Num 2])\<rparr>\<rparr>) \<lparr>next_id = 9, cells = [5 \<mapsto> ColumnNames [''n'', ''s'']]\<rparr>
       \<and> Series_sort_frame \<lparr>series_id = 1, series_iterable = return (array_cursor [Num 3, Num 1, Num 2]), series_index = \<lparr>index_id = 0, index_iterable = return (array_cursor [Num 0, Num 1, Num 2])\<rparr>\<rparr> (Series_orderBy_st \<lparr>series_id = 1, series_iterable = return (array_cursor [Num 3, Num 1, Num 2]), series_index = \<lparr>index_id = 0, index_iterable = return (array_cursor [Num 0, Num 1, Num 2])\<rparr>\<rparr> (IsFunction (\<lambda>v. v))) \<lparr>next_id = 9, cells = [5 \<mapsto> ColumnNames [''n'', ''s'']]\<rparr>
       \<and> Series_sort_frame \<lparr>series_id = 1, series_iterable = return (array_cursor [Num 3, Num 1, Num 2]), series_index = \<lparr>index_id = 0, index_iterable = return (array_cursor [Num 0, Num 1, Num 2])\<rparr>\<rparr> (Series_orderByDescending_st \<lparr>series_id = 1, series_iterable = return (array_cursor [Num 3, Num 1, Num 2]), series_index = \<lparr>index_id = 0, index_iterable = return (array_cursor [Num 0, Num 1, Num 2])\<rparr>\<rparr> (IsFunction (\<lambda>v. v))) \<lparr>next_id = 9, cells = [5 \<mapsto> ColumnNames [''n'', ''s'']]\<rparr>
       \<and> SortedSeries_frame \<lparr>sorted_id = 4, sorted_index_id = 3, sorted_source = \<lparr>series_id = 1, series_iterable = return (array_cursor [Num 3, Num 1, Num 2]), series_index = \<lparr>index_id = 0, index_iterable = return (array_cursor [Num 0, Num 1, Num 2])\<rparr>\<rparr>, sorted_cmds = [\<lparr>sortSelector = (\<lambda>v. v), sortMethod = ''orderBy''\<rparr>], sorted_cache = 2\<rparr> (SortedSeries_thenBy_st \<lparr>sorted_id = 4, sorted_index_id = 3, sorted_source = \<lparr>series_id = 1, series_iterable = return (array_cursor [Num 3, Num 1, Num 2]), series_index = \<lparr>index_id = 0, index_iterable = return (array_cursor [Num 0, Num 1, Num 2])\<rparr>\<rparr>, sorted_cmds = [\<lparr>sortSelector = (\<lambda>v. v), sortMethod = ''orderBy''\<rparr>], sorted_cache = 2\<rparr> (IsFunction (\<lambda>v. v))) \<lparr>next_id = 9, cells = [5 \<mapsto> ColumnNames [''n'', ''s'']]\<rparr>
       \<and> SortedSeries_frame \<lparr>sorted_id = 4, sorted_index_id = 3, sorted_source = \<lparr>series_id = 1, series_iterable = return (array_cursor [Num 3, Num 1, Num 2]), series_index = \<lparr>index_id = 0, index_iterable = return (array_cursor [Num 0, Num 1, Num 2])\<rparr>\<rparr>, sorted_cmds = [\<lparr>sortSelector = (\<lambda>v. v), sortMethod = ''orderBy''\<rparr>], sorted_cache = 2\<rparr>
            (SortedSeries_thenByDescending_st \<lparr>sorted_id = 4, sorted_index_id = 3, sorted_source = \<lparr>series_id = 1, series_iterable = return (array_cursor [Num 3, Num 1, Num 2]), series_index = \<lparr>index_id = 0, index_iterable = return (array_cursor [Num 0, Num 1, Num 2])\<rparr>\<rparr>, sorted_cmds = [\<lparr>sortSelector = (\<lambda>v. v), sortMethod = ''orderBy''\<rparr>], sorted_cache = 2\<rparr> (IsFunction (\<lambda>v. v))) \<lparr>next_id = 9, cells = [5 \<mapsto> ColumnNames [''n'', ''s'']]\<rparr>
       \<and> Series_sort_frame (sorted_source \<lparr>sorted_id = 4, sorted_index_id = 3, sorted_source = \<lparr>series_id = 1, series_iterable = return (array_cursor [Num 3, Num 1, Num 2]), series_index = \<lparr>index_id = 0, index_iterable = return (array_cursor [Num 0, Num 1, Num 2])\<rparr>\<rparr>, sorted_cmds = [\<lparr>sortSelector = (\<lambda>v. v), sortMethod = ''orderBy''\<rparr>], sorted_cache = 2\<rparr>)
            (SortedSeries_thenBy_st \<lparr>sorted_id = 4, sorted_index_id = 3, sorted_source = \<lparr>series_id = 1, series_iterable = return (array_cursor [Num 3, Num 1, Num 2]), series_index = \<lparr>index_id = 0, index_iterable = return (array_cursor [Num 0, Num 1, Num 2])\<rparr>\<rparr>, sorted_cmds = [\<lparr>sortSelector = (\<lambda>v. v), sortMethod = ''orderBy''\<rparr>], sorted_cache = 2\<rparr> (IsFunction (\<lambda>v. v))) \<lparr>next_id = 9, cells = [5 \<mapsto> ColumnNames [''n'', ''s'']]\<rparr>
       \<and> Series_sort_frame (sorted_source \<lparr>sorted_id = 4, sorted_index_id = 3, sorted_source = \<lparr>series_id = 1, series_iterable = return (array_cursor [Num 3, Num 1, Num 2]), series_index = \<lparr>index_id = 0, index_iterable = return (array_cursor [Num 0, Num 1, Num 2])\<rparr>\<rparr>, sorted_cmds = [\<lparr>sortSelector = (\<lambda>v. v), sortMethod = ''orderBy''\<rparr>], sorted_cache = 2\<rparr>)
            (SortedSeries_thenByDescending_st \<lparr>sorted_id = 4, sorted_index_id = 3, sorted_source = \<lparr>series_id = 1, series_iterable = return (array_cursor [Num 3, Num 1, Num 2]), series_index = \<lparr>index_id = 0, index_iterable = return (array_cursor [Num 0, Num 1, Num 2])\<rparr>\<rparr>, sorted_cmds = [\<lparr>sortSelector = (\<lambda>v. v), sortMethod = ''orderBy''\<rparr>], sorted_cache = 2\<rparr> (IsFunction (\<lambda>v. v))) \<lparr>next_id = 9, cells = [5 \<mapsto> ColumnNames [''n'', ''s'']]\<rparr>
       \<and> DataFrame_frame \<lparr>frame_id = 5, frame_columnNames = NamesFunction (return [''n'', ''s'']), frame_iterable = return (array_cursor [Arr [Num 1, Str ''a''], Arr [Num 2, Str ''b'']])\<rparr> (DataFrame_skip_st \<lparr>frame_id = 5, frame_columnNames = NamesFunction (return [''n'', ''s'']), frame_iterable = return (array_cursor [Arr [Num 1, Str ''a''], Arr [Num 2, Str ''b'']])\<rparr> 1) \<lparr>next_id = 9, cells = [5 \<mapsto> ColumnNames [''n'', ''s'']]\<rparr>
       \<and> DataFrame_frame \<lparr>frame_id = 5, frame_columnNames = NamesFunction (return [''n'', ''s'']), frame_iterable = return (array_cursor [Arr [Num 1, Str ''a''], Arr [Num 2, Str ''b'']])\<rparr> (DataFrame_take_st \<lparr>frame_id = 5, frame_columnNames = NamesFunction (return [''n'', ''s'']), frame_iterable = return (array_cursor [Arr [Num 1, Str ''a''], Arr [Num 2, Str ''b'']])\<rparr> 1) \<lparr>next_id = 9, cells = [5 \<mapsto> ColumnNames [''n'', ''s'']]\<rparr>
       \<and> DataFrame_frame \<lparr>frame_id = 5, frame_columnNames = NamesFunction (return [''n'', ''s'']), frame_iterable = return (array_cursor [Arr [Num 1, Str ''a''], Arr [Num 2, Str ''b'']])\<rparr> (DataFrame_skipWhile_st \<lparr>frame_id = 5, frame_columnNames = NamesFunction (return [''n'', ''s'']), frame_iterable = return (array_cursor [Arr [Num 1, Str ''a''], Arr [Num 2, Str ''b'']])\<rparr> (\<lambda>v. v = Num 3)) \<lparr>next_id = 9, cells = [5 \<mapsto> ColumnNames [''n'', ''s'']]\<rparr>
       \<and> DataFrame_frame \<lparr>frame_id = 5, frame_columnNames = NamesFunction (return [''n'', ''s'']), frame_iterable = return (array_cursor [Arr [Num 1, Str ''a''], Arr [Num 2, Str ''b'']])\<rparr> (DataFrame_takeWhile_st \<lparr>frame_id = 5, frame_columnNames = NamesFunction (return [''n'', ''s'']), frame_iterable = return (array_cursor [Arr [Num 1, Str ''a''], Arr [Num 2, Str ''b'']])\<rparr> (\<lambda>v. v = Num 3)) \<lparr>next_id = 9, cells = [5 \<mapsto> ColumnNames [''n'', ''s'']]\<rparr>
       \<and> DataFrame_frame \<lparr>frame_id = 5, frame_columnNames = NamesFunction (return [''n'', ''s'']), frame_iterable = return (array_cursor [Arr [Num 1, Str ''a''], Arr [Num 2, Str ''b'']])\<rparr> (DataFrame_where_st \<lparr>frame_id = 5, frame_columnNames = NamesFunction (return [''n'', ''s'']), frame_iterable = return (array_cursor [Arr [Num 1, Str ''a''], Arr [Num 2, Str ''b'']])\<rparr> (\<lambda>v. v = Num 3)) \<lparr>next_id = 9, cells = [5 \<mapsto> ColumnNames [''n'', ''s'']]\<rparr>
       \<and> DataFrame_frame \<lparr>frame_id = 5, frame_columnNames = NamesFunction (return [''n'', ''s'']), frame_iterable = return (array_cursor [Arr [Num 1, Str ''a''], Arr [Num 2, Str ''b'']])\<rparr> (DataFrame_select_st \<lparr>frame_id = 5, frame_columnNames = NamesFunction (return [''n'', ''s'']), frame_iterable = return (array_cursor [Arr [Num 1, Str ''a''], Arr [Num 2, Str ''b'']])\<rparr> (\<lambda>v. v)) \<lparr>next_id = 9, cells = [5 \<mapsto> ColumnNames [''n'', ''s'']]\<rparr>
       \<and> DataFrame_frame \<lparr>frame_id = 5, frame_columnNames = NamesFunction (return [''n'', ''s'']), frame_iterable = return (array_cursor [Arr [Num 1, Str ''a''], Arr [Num 2, Str ''b'']])\<rparr> (DataFrame_selectMany_st \<lparr>frame_id = 5, frame_columnNames = NamesFunction (return [''n'', ''s'']), frame_iterable = return (array_cursor [Arr [Num 1, Str ''a''], Arr [Num 2, Str ''b'']])\<rparr> (\<lambda>v. [v, v])) \<lparr>next_id = 9, cells = [5 \<mapsto> ColumnNames [''n'', ''s'']]\<rparr>
       \<and> DataFrame_frame \<lparr>frame_id = 5, frame_columnNames = NamesFunction (return [''n'', ''s'']), frame_iterable = return (array_cursor [Arr [Num 1, Str ''a''], Arr [Num 2, Str ''b'']])\<rparr> (DataFrame_reverse_st \<lparr>frame_id = 5, frame_columnNames = NamesFunction (return [''n'', ''s'']), frame_iterable = return (array_cursor [Arr [Num 1, Str ''a''], Arr [Num 2, Str ''b'']])\<rparr>) \<lparr>next_id = 9, cells = [5 \<mapsto> ColumnNames [''n'', ''s'']]\<rparr>
       \<and> DataFrame_frame \<lparr>frame_id = 5, frame_columnNames = NamesFunction (return [''n'', ''s'']), frame_iterable = return (array_cursor [Arr [Num 1, Str ''a''], Arr [Num 2, Str ''b'']])\<rparr> (DataFrame_bake_st \<lparr>frame_id = 5, frame_columnNames = NamesFunction (return [''n'', ''s'']), frame_iterable = return (array_cursor [Arr [Num 1, Str ''a''], Arr [Num 2, Str ''b'']])\<rparr>) \<lparr>next_id = 9, cells = [5 \<mapsto> ColumnNames [''n'', ''s'']]\<rparr>
       \<and> DataFrame_sort_frame \<lparr>frame_id = 5, frame_columnNames = NamesFunction (return [''n'', ''s'']), frame_iterable = return (array_cursor [Arr [Num 1, Str ''a''], Arr [Num 2, Str ''b'']])\<rparr> (DataFrame_orderBy_st \<lparr>frame_id = 5, frame_columnNames = NamesFunction (return [''n'', ''s'']), frame_iterable = return (array_cursor [Arr [Num 1, Str ''a''], Arr [Num 2, Str ''b'']])\<rparr> (SelectorValue (Str ''n''))) \<lparr>next_id = 9, cells = [5 \<mapsto> ColumnNames [''n'', ''s'']]\<rparr>
       \<and> DataFrame_sort_frame \<lparr>frame_id = 5, frame_columnNames = NamesFunction (return [''n'', ''s'']), frame_iterable = return (array_cursor [Arr [Num 1, Str ''a''], Arr [Num 2, Str ''b'']])\<rparr> (DataFrame_orderByDescending_st \<lparr>frame_id = 5, frame_columnNames = NamesFunction (return [''n'', ''s'']), frame_iterable = return (array_cursor [Arr [Num 1, Str ''a''], Arr [Num 2, Str ''b'']])\<rparr> (SelectorValue (Str ''n''))) \<lparr>next_id = 9, cells = [5 \<mapsto> ColumnNames [''n'', ''s'']]\<rparr>
       \<and> SortedDataFrame_frame_st \<lparr>sortedf_id = 8, sortedf_index_id = 7, sortedf_columnNames = [''n'', ''s''], sortedf_source = \<lparr>frame_id = 5, frame_columnNames = NamesFunction (return [''n'', ''s'']), frame_iterable = return (array_cursor [Arr [Num 1, Str ''a''], Arr [Num 2, Str ''b'']])\<rparr>, sortedf_cmds = [\<lparr>sortSelector = (\<lambda>row. js_get row ''n''), sortMethod = ''orderByDescending''\<rparr>], sortedf_cache = 6\<rparr>
            (SortedDataFrame_thenBy_st \<lparr>sortedf_id = 8, sortedf_index_id = 7, sortedf_columnNames = [''n'', ''s''], sortedf_source = \<lparr>frame_id = 5, frame_columnNames = NamesFunction (return [''n'', ''s'']), frame_iterable = return (array_cursor [Arr [Num 1, Str ''a''], Arr [Num 2, Str ''b'']])\<rparr>, sortedf_cmds = [\<lparr>sortSelector = (\<lambda>row. js_get row ''n''), sortMethod = ''orderByDescending''\<rparr>], sortedf_cache = 6\<rparr> (SelectorValue (Str ''n''))) \<lparr>next_id = 9, cells = [5 \<mapsto> ColumnNames [''n'', ''s'']]\<rparr>
       \<and> SortedDataFrame_frame_st \<lparr>sortedf_id = 8, sortedf_index_id = 7, sortedf_columnNames = [''n'', ''s''], sortedf_source = \<lparr>frame_id = 5, frame_columnNames = NamesFunction (return [''n'', ''s'']), frame_iterable = return (array_cursor [Arr [Num 1, Str ''a''], Arr [Num 2, Str ''b'']])\<rparr>, sortedf_cmds = [\<lparr>sortSelector = (\<lambda>row. js_get row ''n''), sortMethod = ''orderByDescending''\<rparr>], sortedf_cache = 6\<rparr>
            (SortedDataFrame_thenByDescending_st \<lparr>sortedf_id = 8, sortedf_index_id = 7, sortedf_columnNames = [''n'', ''s''], sortedf_source = \<lparr>frame_id = 5, frame_columnNames = NamesFunction (return [''n'', ''s'']), frame_iterable = return (array_cursor [Arr [Num 1, Str ''a''], Arr [Num 2, Str ''b'']])\<rparr>, sortedf_cmds = [\<lparr>sortSelector = (\<lambda>row. js_get row ''n''), sortMethod = ''orderByDescending''\<rparr>], sortedf_cache = 6\<rparr> (SelectorValue (Str ''n''))) \<lparr>next_id = 9, cells = [5 \<mapsto> ColumnNames [''n'', ''s'']]\<rparr>
       \<and> DataFrame_sort_frame (sortedf_source \<lparr>sortedf_id = 8, sortedf_index_id = 7, sortedf_columnNames = [''n'', ''s''], sortedf_source = \<lparr>frame_id = 5, frame_columnNames = NamesFunction (return [''n'', ''s'']), frame_iterable = return (array_cursor [Arr [Num 1, Str ''a''], Arr [Num 2, Str ''b'']])\<rparr>, sortedf_cmds = [\<lparr>sortSelector = (\<lambda>row. js_get row ''n''), sortMethod = ''orderByDescending''\<rparr>], sortedf_cache = 6\<rparr>)
            (SortedDataFrame_thenBy_st \<lparr>sortedf_id = 8, sortedf_index_id = 7, sortedf_columnNames = [''n'', ''s''], sortedf_source = \<lparr>frame_id = 5, frame_columnNames = NamesFunction (return [''n'', ''s'']), frame_iterable = return (array_cursor [Arr [Num 1, Str ''a''], Arr [Num 2, Str ''b'']])\<rparr>, sortedf_cmds = [\<lparr>sortSelector = (\<lambda>row. js_get row ''n''), sortMethod = ''orderByDescending''\<rparr>], sortedf_cache = 6\<rparr> (SelectorValue (Str ''n''))) \<lparr>next_id = 9, cells = [5 \<mapsto> ColumnNames [''n'', ''s'']]\<rparr>
       \<and> DataFrame_sort_frame (sortedf_source \<lparr>sortedf_id = 8, sortedf_index_id = 7, sortedf_columnNames = [''n'', ''s''], sortedf_source = \<lparr>frame_id = 5, frame_columnNames = NamesFunction (return [''n'', ''s'']), frame_iterable = return (array_cursor [Arr [Num 1, Str ''a''], Arr [Num 2, Str ''b'']])\<rparr>, sortedf_cmds = [\<lparr>sortSelector = (\<lambda>row. js_get row ''n''), sortMethod = ''orderByDescending''\<rparr>], sortedf_cache = 6\<rparr>)
            (SortedDataFrame_thenByDescending_st \<lparr>sortedf_id = 8, sortedf_index_id = 7, sortedf_columnNames = [''n'', ''s''], sortedf_source = \<lparr>frame_id = 5, frame_columnNames = NamesFunction (return [''n'', ''s'']), frame_iterable = return (array_cursor [Arr [Num 1, Str ''a''], Arr [Num 2, Str ''b'']])\<rparr>, sortedf_cmds = [\<lparr>sortSelector = (\<lambda>row. js_get row ''n''), sortMethod = ''orderByDescending''\<rparr>], sortedf_cache = 6\<rparr> (SelectorValue (Str ''n''))) \<lparr>next_id = 9, cells = [5 \<mapsto> ColumnNames [''n'', ''s'']]\<rparr>"
proof -
  let ?G = "[(2::nat) \<mapsto> CachedSorted [Arr [Num 1, Num 1], Arr [Num 2, Num 2], Arr [Num 0, Num 3]], 5 \<mapsto> ColumnNames [''n'', ''s''], 6 \<mapsto> CachedSorted [Arr [Num 1, Num 2, Str ''b''], Arr [Num 0, Num 1, Str ''a'']]]"
  let ?s = "\<lparr>next_id = 9, cells = [5 \<mapsto> ColumnNames [''n'', ''s'']]\<rparr>"
  let ?series = "\<lparr>series_id = 1, series_iterable = return (array_cursor [Num 3, Num 1, Num 2]), series_index = \<lparr>index_id = 0, index_iterable = return (array_cursor [Num 0, Num 1, Num 2])\<rparr>\<rparr>"
  let ?ss = "\<lparr>sorted_id = 4, sorted_index_id = 3, sorted_source = \<lparr>series_id = 1, series_iterable = return (array_cursor [Num 3, Num 1, Num 2]), series_index = \<lparr>index_id = 0, index_iterable = return (array_cursor [Num 0, Num 1, Num 2])\<rparr>\<rparr>, sorted_cmds = [\<lparr>sortSelector = (\<lambda>v. v), sortMethod = ''orderBy''\<rparr>], sorted_cache = 2\<rparr>"
  let ?df = "\<lparr>frame_id = 5, frame_columnNames = NamesFunction (return [''n'', ''s'']), frame_iterable = return (array_cursor [Arr [Num 1, Str ''a''], Arr [Num 2, Str ''b'']])\<rparr>"
  let ?sdf = "\<lparr>sortedf_id = 8, sortedf_index_id = 7, sortedf_columnNames = [''n'', ''s''], sortedf_source = \<lparr>frame_id = 5, frame_columnNames = NamesFunction (return [''n'', ''s'']), frame_iterable = return (array_cursor [Arr [Num 1, Str ''a''], Arr [Num 2, Str ''b'']])\<rparr>, sortedf_cmds = [\<lparr>sortSelector = (\<lambda>row. js_get row ''n''), sortMethod = ''orderByDescending''\<rparr>], sortedf_cache = 6\<rparr>"
  have s: "agrees ?G ?s" by (auto simp: agrees_def)
  have series: "wf_Series ?G ?series"
    by (simp add: wf_Series_def wf_Index_def determined_return)
  have ev_s: "E_toArray (OrderedEnumerable
               (E_zip [Num 0, Num 1, Num 2] [Num 3, Num 1, Num 2] (\<lambda>index value. Arr [index, value]))
               (map (\<lambda>c. (\<lambda>row. sortSelector c (js_at row 1), descending_method (sortMethod c)))
                  [\<lparr>sortSelector = (\<lambda>v. v), sortMethod = ''orderBy''\<rparr>])) = [Arr [Num 1, Num 1], Arr [Num 2, Num 2], Arr [Num 0, Num 3]]"
    by code_simp
  have ss: "wf_SortedSeries ?G ?ss"
  proof (rule wf_SortedSeriesI [OF series, where iv = "[Num 0, Num 1, Num 2]"
        and vs = "[Num 3, Num 1, Num 2]"])
    show "order_chain [\<lparr>sortSelector = (\<lambda>v. v), sortMethod = ''orderBy''\<rparr>]" by simp
    show "returns ?G (Index_toValues_st (Series_getIndex_st ?series)) [Num 0, Num 1, Num 2]"
      by (simp add: Index_toValues_st_def Series_getIndex_st_def Index_getIterator_st_def
            series_example_values returns_return)
    show "returns ?G (Series_toValues_st ?series) [Num 3, Num 1, Num 2]"
      by (simp add: Series_toValues_st_def Series_getIterator_st_def
            series_example_values returns_return)
    show "?G (2::nat) = Some (CachedSorted (E_toArray (OrderedEnumerable
               (E_zip [Num 0, Num 1, Num 2] [Num 3, Num 1, Num 2] (\<lambda>index value. Arr [index, value]))
               (map (\<lambda>c. (\<lambda>row. sortSelector c (js_at row 1), descending_method (sortMethod c)))
                  [\<lparr>sortSelector = (\<lambda>v. v), sortMethod = ''orderBy''\<rparr>]))))"
      unfolding ev_s by simp
  qed
  have names: "returns ?G (DataFrame_getColumnNames_st ?df) [''n'', ''s'']"
  proof -
    have "returns ?G (cached 5 (State_Monad.bind (return [''n'', ''s''])
                         (\<lambda>names. return (ColumnNames names)))) (ColumnNames [''n'', ''s''])"
      by (rule returns_cached) (simp_all add: returns_return)
    then have "returns ?G
       (State_Monad.bind (cached 5 (State_Monad.bind (return [''n'', ''s''])
                         (\<lambda>names. return (ColumnNames names))))
          (\<lambda>c. return (case c of ColumnNames names \<Rightarrow> names | _ \<Rightarrow> [])))
       [''n'', ''s'']"
      by (rule returns_bind) (simp add: returns_return)
    then show ?thesis by (simp add: DataFrame_getColumnNames_st_def)
  qed
  have df: "wf_DataFrame ?G ?df"
    by (simp add: wf_DataFrame_def determined_return returns_return)
  let ?c = "array_cursor [Arr [Num 1, Str ''a''], Arr [Num 2, Str ''b'']]"
  have ev_iv: "fst (collect_loop getCurrent
                    (array_cursor (fst (collect_loop getCurrentIndex ?c []))) []) = [Num 0, Num 1]"
    by code_simp
  have ev_vs: "fst (collect_loop getCurrent ?c []) = [Arr [Num 1, Str ''a''], Arr [Num 2, Str ''b'']]"
    by code_simp
  let ?vwi = "E_zip [Num 0, Num 1] [Arr [Num 1, Str ''a''], Arr [Num 2, Str ''b'']]
                (\<lambda>index values. Arr (js_concat [index] values))"
  have ev_rem: "remaining (array_cursor ?vwi) \<noteq> []" by code_simp
  have ev_d: "E_toArray (OrderedEnumerable ?vwi
               (map (\<lambda>c. (\<lambda>row. sortSelector c (mapRowWith [''n'', ''s''] (Arr (drop 1 (E_from row)))),
                          descending_method (sortMethod c)))
                  [\<lparr>sortSelector = (\<lambda>row. js_get row ''n''), sortMethod = ''orderByDescending''\<rparr>])) = [Arr [Num 1, Num 2, Str ''b''], Arr [Num 0, Num 1, Str ''a'']]"
    by code_simp
  have sdf: "wf_SortedDataFrame ?G ?sdf"
  proof (rule wf_SortedDataFrameI [OF df, where c = ?c and iv = "[Num 0, Num 1]"
        and vs = "[Arr [Num 1, Str ''a''], Arr [Num 2, Str ''b'']]"
        and mapRow = "mapRowWith [''n'', ''s'']"])
    show "order_chain [\<lparr>sortSelector = (\<lambda>row. js_get row ''n''), sortMethod = ''orderByDescending''\<rparr>]" by simp
    show "returns ?G (DataFrame_getIterator_st ?df) ?c"
      by (simp add: DataFrame_getIterator_st_def returns_return)
    show "[Num 0, Num 1] = fst (collect_loop getCurrent
                    (array_cursor (fst (collect_loop getCurrentIndex ?c []))) [])"
      by (simp only: ev_iv)
    show "returns ?G (DataFrame_toValues_st ?df) [Arr [Num 1, Str ''a''], Arr [Num 2, Str ''b'']]"
      by (simp add: DataFrame_toValues_st_def DataFrame_getIterator_st_def ev_vs returns_return)
    show "returns ?G (rowMapper_st ?df (array_cursor ?vwi)) (mapRowWith [''n'', ''s''])"
      unfolding rowMapper_st_def using ev_rem
      by (simp only: if_False, intro returns_bind [OF names] returns_return)
    show "?G (6::nat) = Some (CachedSorted (E_toArray (OrderedEnumerable ?vwi
               (map (\<lambda>c. (\<lambda>row. sortSelector c (mapRowWith [''n'', ''s''] (Arr (drop 1 (E_from row)))),
                          descending_method (sortMethod c)))
                  [\<lparr>sortSelector = (\<lambda>row. js_get row ''n''), sortMethod = ''orderByDescending''\<rparr>]))))"
      unfolding ev_d by simp
  qed
  note main = operators_leave_original_unchanged
    [of ?G ?s ?series ?ss ?df ?sdf "1" "(\<lambda>v. v = Num 3)" "(\<lambda>v. v)" "(\<lambda>v. [v, v])" "(IsFunction (\<lambda>v. v))" "(SelectorValue (Str ''n''))",
     OF s series _ ss _ _ df _ sdf]
  have "Series_frame ?series (Series_skip_st ?series 1) ?s
       \<and> Series_frame ?series (Series_take_st ?series 1) ?s
       \<and> Series_frame ?series (Series_skipWhile_st ?series (\<lambda>v. v = Num 3)) ?s
       \<and> Series_frame ?series (Series_takeWhile_st ?series (\<lambda>v. v = Num 3)) ?s
       \<and> Series_frame ?series (Series_where_st ?series (\<lambda>v. v = Num 3)) ?s
       \<and> Series_frame ?series (Series_select_st ?series (\<lambda>v. v)) ?s
       \<and> Series_frame ?series (Series_selectMany_st ?series (\<lambda>v. [v, v])) ?s
       \<and> Series_frame ?series (Series_reverse_st ?series) ?s
       \<and> Series_frame ?series (Series_bake_st ?series) ?s
       \<and> Series_sort_frame ?series (Series_orderBy_st ?series (IsFunction (\<lambda>v. v))) ?s
       \<and> Series_sort_frame ?series (Series_orderByDescending_st ?series (IsFunction (\<lambda>v. v))) ?s
       \<and> SortedSeries_frame ?ss (SortedSeries_thenBy_st ?ss (IsFunction (\<lambda>v. v))) ?s
       \<and> SortedSeries_frame ?ss
            (SortedSeries_thenByDescending_st ?ss (IsFunction (\<lambda>v. v))) ?s
       \<and> Series_sort_frame (sorted_source ?ss)
            (SortedSeries_thenBy_st ?ss (IsFunction (\<lambda>v. v))) ?s
       \<and> Series_sort_frame (sorted_source ?ss)
            (SortedSeries_thenByDescending_st ?ss (IsFunction (\<lambda>v. v))) ?s
       \<and> DataFrame_frame ?df (DataFrame_skip_st ?df 1) ?s
       \<and> DataFrame_frame ?df (DataFrame_take_st ?df 1) ?s
       \<and> DataFrame_frame ?df (DataFrame_skipWhile_st ?df (\<lambda>v. v = Num 3)) ?s
       \<and> DataFrame_frame ?df (DataFrame_takeWhile_st ?df (\<lambda>v. v = Num 3)) ?s
       \<and> DataFrame_frame ?df (DataFrame_where_st ?df (\<lambda>v. v = Num 3)) ?s
       \<and> DataFrame_frame ?df (DataFrame_select_st ?df (\<lambda>v. v)) ?s
       \<and> DataFrame_frame ?df (DataFrame_selectMany_st ?df (\<lambda>v. [v, v])) ?s
       \<and> DataFrame_frame ?df (DataFrame_reverse_st ?df) ?s
       \<and> DataFrame_frame ?df (DataFrame_bake_st ?df) ?s
       \<and> DataFrame_sort_frame ?df (DataFrame_orderBy_st ?df (SelectorValue (Str ''n''))) ?s
       \<and> DataFrame_sort_frame ?df (DataFrame_orderByDescending_st ?df (SelectorValue (Str ''n''))) ?s
       \<and> SortedDataFrame_frame_st ?sdf
            (SortedDataFrame_thenBy_st ?sdf (SelectorValue (Str ''n''))) ?s
       \<and> SortedDataFrame_frame_st ?sdf
            (SortedDataFrame_thenByDescending_st ?sdf (SelectorValue (Str ''n''))) ?s
       \<and> DataFrame_sort_frame (sortedf_source ?sdf)
            (SortedDataFrame_thenBy_st ?sdf (SelectorValue (Str ''n''))) ?s
       \<and> DataFrame_sort_frame (sortedf_source ?sdf)
            (SortedDataFrame_thenByDescending_st ?sdf (SelectorValue (Str ''n''))) ?s"
    by (rule main) simp_all
  with s series ss df sdf show ?thesis by simp
qed

end
